(* ===== verification/Prelude.thy ===== *)
theory Prelude
  imports Complex_Main
begin

text \<open>
  Shared vocabulary of the development: the named simp sets that the
  component theories fill, the type names of the model, and generic lemmas on
  lists and options that several components use.
  \<^item> \<open>js_simps\<close> collects the evaluation equations of the modelled JavaScript
    primitives (string splitting, trimming, number parsing and printing), so that a
    component proof says \<open>simp add: js_simps\<close> instead of naming each primitive;
  \<^item> \<open>step_simps\<close> collects the one-equation-per-event lemmas of the step functions.
\<close>

named_theorems js_simps "evaluation rules of the modelled JavaScript primitives"
named_theorems step_simps "unfolding rules of the components' step functions"

text \<open>JavaScript strings are modelled as HOL strings (lists of 8-bit characters).\<close>

type_synonym js_string = string

text \<open>The environment of a page holds its suspended continuations in a list and
  resumes any one of them: \<open>remove_nth i\<close> takes the resumed one out.\<close>

definition remove_nth :: "nat \<Rightarrow> 'a list \<Rightarrow> 'a list" where
  "remove_nth i xs = take i xs @ drop (Suc i) xs"

text \<open>The continuation a step leaves, if any, as a list.\<close>

definition opt_to_list :: "'a option \<Rightarrow> 'a list" where
  "opt_to_list t = (case t of None \<Rightarrow> [] | Some x \<Rightarrow> [x])"

text \<open>Sequencing of computations that may throw: the first exception wins.\<close>

definition sbind :: "'e + 'a \<Rightarrow> ('a \<Rightarrow> 'e + 'b) \<Rightarrow> 'e + 'b" where
  "sbind m f = (case m of Inl e \<Rightarrow> Inl e | Inr a \<Rightarrow> f a)"

subsection \<open>Generic list lemmas\<close>

lemma dropWhile_hd_not:
  "dropWhile P xs = y # ys \<Longrightarrow> \<not> P y"
  by (induction xs) (auto split: if_splits)

lemma dropWhile_no_hd:
  "xs = [] \<or> \<not> P (hd xs) \<Longrightarrow> dropWhile P xs = xs"
  by (cases xs) auto

lemma remove_nth_snoc [simp]: "remove_nth (length xs) (xs @ [x]) = xs"
  by (simp add: remove_nth_def)

lemma opt_to_list_simps [simp]: "opt_to_list None = []" "opt_to_list (Some x) = [x]"
  by (simp_all add: opt_to_list_def)

lemma set_remove_nth: "x \<in> set (remove_nth i xs) \<Longrightarrow> x \<in> set xs"
  by (auto simp: remove_nth_def dest: in_set_takeD in_set_dropD)

lemma filter_remove_nth:
  assumes i: "i < length xs"
  shows "length (filter P (remove_nth i xs)) = length (filter P xs) - (if P (xs ! i) then 1 else 0)"
proof -
  have e: "take i xs @ xs ! i # drop (Suc i) xs = xs"
    using i by (rule id_take_nth_drop [symmetric])
  have "length (filter P (take i xs @ xs ! i # drop (Suc i) xs)) =
          length (filter P (take i xs)) + (if P (xs ! i) then 1 else 0) +
          length (filter P (drop (Suc i) xs))"
    by simp
  then have "length (filter P xs) =
               length (filter P (take i xs)) + (if P (xs ! i) then 1 else 0) +
               length (filter P (drop (Suc i) xs))"
    by (simp only: e)
  then show ?thesis by (simp add: remove_nth_def)
qed

lemma remove_nth_mem:
  "i < length xs \<Longrightarrow> x \<in> set xs \<Longrightarrow> x \<noteq> xs ! i \<Longrightarrow> x \<in> set (remove_nth i xs)"
proof -
  assume i: "i < length xs" and x: "x \<in> set xs" "x \<noteq> xs ! i"
  have "set xs = set (take i xs) \<union> insert (xs ! i) (set (drop (Suc i) xs))"
    using id_take_nth_drop [OF i] by (metis list.simps(15) set_append)
  with x show ?thesis by (auto simp: remove_nth_def)
qed

lemma sbind_simps [simp]: "sbind (Inl e) f = Inl e" "sbind (Inr a) f = f a"
  by (simp_all add: sbind_def)

lemma sbind_Inr_iff: "sbind m f = Inr b \<longleftrightarrow> (\<exists>a. m = Inr a \<and> f a = Inr b)"
  by (cases m) simp_all

end
