(* ===== verification/JsString.thy ===== *)
theory JsString
  imports Prelude
begin

text \<open>
  The JavaScript string and number primitives that the pages call:
  \<open>String.prototype.split\<close> with a one-character separator, \<open>Array.prototype.join\<close>,
  \<open>String.prototype.trim\<close>, \<open>Number.prototype.toString\<close> on integers and the global
  \<open>parseInt\<close> without a radix.  They are modelled from the ECMAScript definitions
  (they are not code of the repository) and used by the form binding of
  \<open>src/src/pages/AdminCourses.jsx\<close> and \<open>src/src/pages/EditCourseForm.jsx\<close>.
  Characters are 8-bit: the whitespace set is the part of ECMAScript's
  WhiteSpace and LineTerminator sets below code point 256.
\<close>

subsection \<open>Numbers\<close>

text \<open>
  A JavaScript number is NaN, an infinity or a finite value; finite values are kept
  exact as rationals (double rounding and the sign of zero are not modelled).
\<close>

datatype jsnum = NaN | PosInf | NegInf | Num rat

subsection \<open>Whitespace and trimming\<close>

definition js_ws :: "char \<Rightarrow> bool" where
  "js_ws c \<longleftrightarrow> (of_char c :: nat) \<in> set [9, 10, 11, 12, 13, 32, 160]"

definition trim_start :: "js_string \<Rightarrow> js_string" where
  "trim_start s = dropWhile js_ws s"

definition js_trim :: "js_string \<Rightarrow> js_string" where
  "js_trim s = rev (dropWhile js_ws (rev (dropWhile js_ws s)))"

subsection \<open>split and join on a one-character separator\<close>

text \<open>\<open>s.split(c)\<close>: the empty string splits into one empty piece; a separator
  at either end gives an empty piece there.\<close>

fun js_split :: "char \<Rightarrow> js_string \<Rightarrow> js_string list" where
  "js_split c [] = [[]]"
| "js_split c (x # xs) =
     (let r = js_split c xs in if x = c then [] # r else (x # hd r) # tl r)"

text \<open>\<open>xs.join(c)\<close>: the separator between neighbours; \<open>[].join(c)\<close> is \<open>''''\<close>.\<close>

fun js_join :: "char \<Rightarrow> js_string list \<Rightarrow> js_string" where
  "js_join c [] = []"
| "js_join c [x] = x"
| "js_join c (x # y # ys) = x @ c # js_join c (y # ys)"

subsection \<open>Integer printing: \<open>Number.prototype.toString()\<close> on an integer\<close>

definition digit_char :: "nat \<Rightarrow> char" where
  "digit_char d = ''0123456789'' ! d"

fun nat_digits :: "nat \<Rightarrow> nat list" where
  "nat_digits n = (if n < 10 then [n] else nat_digits (n div 10) @ [n mod 10])"

declare nat_digits.simps [simp del]

definition nat_str :: "nat \<Rightarrow> js_string" where
  "nat_str n = map digit_char (nat_digits n)"

definition int_str :: "int \<Rightarrow> js_string" where
  "int_str i = (if i < 0 then CHR ''-'' # nat_str (nat (- i)) else nat_str (nat i))"

subsection \<open>\<open>parseInt(s)\<close> without a radix\<close>

text \<open>
  ECMAScript \<open>parseInt\<close>: strip leading whitespace, read one optional sign, strip a
  \<open>0x\<close>/\<open>0X\<close> prefix and switch to radix 16, then read the longest prefix of
  digits of the radix; no digit at all gives NaN.  The rest of the string is ignored.
\<close>

definition digit_val :: "nat \<Rightarrow> char \<Rightarrow> nat option" where
  "digit_val r c =
     (let n = (of_char c :: nat);
          d = (if 48 \<le> n \<and> n \<le> 57 then n - 48
               else if 97 \<le> n \<and> n \<le> 122 then n - 87
               else if 65 \<le> n \<and> n \<le> 90 then n - 55 else 36)
      in if d < r then Some d else None)"

fun scan_digits :: "nat \<Rightarrow> js_string \<Rightarrow> nat list" where
  "scan_digits r [] = []"
| "scan_digits r (c # cs) =
     (case digit_val r c of None \<Rightarrow> [] | Some d \<Rightarrow> d # scan_digits r cs)"

definition digits_value :: "nat \<Rightarrow> nat list \<Rightarrow> nat" where
  "digits_value r ds = foldl (\<lambda>a d. a * r + d) 0 ds"

definition split_sign :: "js_string \<Rightarrow> int \<times> js_string" where
  "split_sign s =
     (if s \<noteq> [] \<and> hd s = CHR ''-'' then (-1, tl s)
      else if s \<noteq> [] \<and> hd s = CHR ''+'' then (1, tl s)
      else (1, s))"

definition split_radix :: "js_string \<Rightarrow> nat \<times> js_string" where
  "split_radix s =
     (if 2 \<le> length s \<and> s ! 0 = CHR ''0'' \<and> (s ! 1 = CHR ''x'' \<or> s ! 1 = CHR ''X'')
      then (16, drop 2 s) else (10, s))"

definition parseInt :: "js_string \<Rightarrow> jsnum" where
  "parseInt str =
     (let (sign, s1) = split_sign (trim_start str);
          (r, s2) = split_radix s1;
          ds = scan_digits r s2
      in if ds = [] then NaN else Num (of_int (sign * int (digits_value r ds))))"

subsection \<open>split and join\<close>

lemma js_split_not_Nil [simp]: "js_split c s \<noteq> []"
  by (induction s) (simp_all add: Let_def)

lemma js_join_Cons_append:
  "js_join c ((u @ a) # rest) = u @ js_join c (a # rest)"
  by (cases rest) simp_all

lemma js_join_split [js_simps]: "js_join c (js_split c s) = s"
proof (induction s)
  case Nil
  then show ?case by simp
next
  case (Cons x xs)
  obtain y ys where r: "js_split c xs = y # ys"
    using js_split_not_Nil by (metis list.exhaust)
  show ?case
  proof (cases "x = c")
    case True
    with Cons.IH r show ?thesis by simp
  next
    case False
    have "js_join c ((x # y) # ys) = x # js_join c (y # ys)"
      using js_join_Cons_append [of c "[x]" y ys] by simp
    with False Cons.IH r show ?thesis by simp
  qed
qed

lemma js_split_no_sep: "c \<notin> set a \<Longrightarrow> js_split c a = [a]"
  by (induction a) (auto simp: Let_def)

lemma js_split_append_sep:
  "c \<notin> set a \<Longrightarrow> js_split c (a @ c # t) = a # js_split c t"
  by (induction a) (auto simp: Let_def)

lemma js_split_join [js_simps]:
  "xs \<noteq> [] \<Longrightarrow> \<forall>x\<in>set xs. c \<notin> set x \<Longrightarrow> js_split c (js_join c xs) = xs"
proof (induction c xs rule: js_join.induct)
  case (2 c x)
  then show ?case by (simp add: js_split_no_sep)
next
  case (3 c x y ys)
  then show ?case by (simp add: js_split_append_sep)
qed simp

subsection \<open>Decimal digits\<close>

lemma nat_digits_small: "d \<in> set (nat_digits n) \<Longrightarrow> d < 10"
proof (induction n rule: nat_digits.induct)
  case (1 n)
  then show ?case by (cases "n < 10") (auto simp: nat_digits.simps [of n])
qed

lemma nat_digits_not_Nil [simp]: "nat_digits n \<noteq> []"
  by (subst nat_digits.simps) simp

lemma digits_value_snoc: "digits_value r (ds @ [d]) = digits_value r ds * r + d"
  by (simp add: digits_value_def)

lemma digits_value_nat_digits: "digits_value 10 (nat_digits n) = n"
proof (induction n rule: nat_digits.induct)
  case (1 n)
  show ?case
  proof (cases "n < 10")
    case True
    then show ?thesis by (simp add: nat_digits.simps [of n] digits_value_def)
  next
    case False
    with "1.IH" show ?thesis
      by (simp add: nat_digits.simps [of n] digits_value_snoc)
  qed
qed

lemma digit_val_digit_char: "d < 10 \<Longrightarrow> digit_val 10 (digit_char d) = Some d"
proof -
  assume "d < 10"
  then have "d \<in> {0,1,2,3,4,5,6,7,8,9}" by auto
  then show ?thesis by (auto simp: digit_val_def digit_char_def)
qed

lemma digit_char_not_ws: "d < 10 \<Longrightarrow> \<not> js_ws (digit_char d)"
proof -
  assume "d < 10"
  then have "d \<in> {0,1,2,3,4,5,6,7,8,9}" by auto
  then show ?thesis by (auto simp: js_ws_def digit_char_def)
qed

lemma digit_char_not_x: "d < 10 \<Longrightarrow> digit_char d \<noteq> CHR ''x'' \<and> digit_char d \<noteq> CHR ''X''"
proof -
  assume "d < 10"
  then have "d \<in> {0,1,2,3,4,5,6,7,8,9}" by auto
  then show ?thesis by (auto simp: digit_char_def)
qed

lemma scan_digits_map: "\<forall>d\<in>set ds. d < 10 \<Longrightarrow> scan_digits 10 (map digit_char ds) = ds"
  by (induction ds) (simp_all add: digit_val_digit_char)

lemma split_radix_decimal:
  assumes "\<forall>d\<in>set ds. d < 10"
  shows "split_radix (map digit_char ds) = (10, map digit_char ds)"
proof (cases "2 \<le> length ds")
  case True
  then have "ds ! 1 \<in> set ds" by simp
  with assms have "digit_char (ds ! 1) \<noteq> CHR ''x'' \<and> digit_char (ds ! 1) \<noteq> CHR ''X''"
    by (simp add: digit_char_not_x)
  with True show ?thesis by (auto simp: split_radix_def)
next
  case False
  then show ?thesis by (simp add: split_radix_def)
qed

lemma nat_str_facts:
  "trim_start (nat_str n) = nat_str n"
  "split_radix (nat_str n) = (10, nat_str n)"
  "scan_digits 10 (nat_str n) = nat_digits n"
proof -
  have small: "\<forall>d\<in>set (nat_digits n). d < 10" using nat_digits_small by blast
  obtain d ds where nd: "nat_digits n = d # ds" by (cases "nat_digits n") auto
  with small have "\<not> js_ws (digit_char d)" by (simp add: digit_char_not_ws)
  with nd show "trim_start (nat_str n) = nat_str n"
    by (simp add: trim_start_def nat_str_def)
  show "split_radix (nat_str n) = (10, nat_str n)"
    using small by (simp add: nat_str_def split_radix_decimal)
  show "scan_digits 10 (nat_str n) = nat_digits n"
    using small by (simp add: nat_str_def scan_digits_map)
qed

lemma parseInt_nat_str: "parseInt (nat_str n) = Num (of_nat n)"
proof -
  have "nat_str n \<noteq> [] \<and> hd (nat_str n) \<noteq> CHR ''-'' \<and> hd (nat_str n) \<noteq> CHR ''+''"
  proof -
    obtain d ds where nd: "nat_digits n = d # ds" by (cases "nat_digits n") auto
    then have "d < 10" using nat_digits_small by (metis list.set_intros(1))
    then have "d \<in> {0,1,2,3,4,5,6,7,8,9}" by auto
    with nd show ?thesis by (auto simp: nat_str_def digit_char_def)
  qed
  then have "split_sign (nat_str n) = (1, nat_str n)" by (simp add: split_sign_def)
  then show ?thesis
    by (simp add: parseInt_def nat_str_facts digits_value_nat_digits)
qed

lemma parseInt_int_str [js_simps]: "parseInt (int_str i) = Num (of_int i)"
proof (cases "i < 0")
  case True
  have "trim_start (CHR ''-'' # nat_str (nat (- i))) = CHR ''-'' # nat_str (nat (- i))"
    by (simp add: trim_start_def js_ws_def)
  moreover have "split_sign (CHR ''-'' # nat_str (nat (- i))) = (-1, nat_str (nat (- i)))"
    by (simp add: split_sign_def)
  ultimately show ?thesis
    using True by (simp add: parseInt_def int_str_def nat_str_facts digits_value_nat_digits)
next
  case False
  then show ?thesis by (simp add: int_str_def parseInt_nat_str)
qed

subsection \<open>Trimming\<close>

lemma js_trim_Nil_iff [js_simps]: "js_trim s = [] \<longleftrightarrow> (\<forall>c\<in>set s. js_ws c)"
proof
  assume "js_trim s = []"
  then have "\<forall>x\<in>set (dropWhile js_ws s). js_ws x"
    by (simp add: js_trim_def dropWhile_eq_Nil_conv)
  then have "dropWhile js_ws s = []"
    by (cases "dropWhile js_ws s") (auto dest: dropWhile_hd_not)
  then show "\<forall>c\<in>set s. js_ws c" by (simp add: dropWhile_eq_Nil_conv)
next
  assume "\<forall>c\<in>set s. js_ws c"
  then have "dropWhile js_ws s = []" by (induction s) auto
  then show "js_trim s = []" by (simp add: js_trim_def del: dropWhile_eq_Nil_conv)
qed

lemma js_trim_id:
  assumes "s = [] \<or> (\<not> js_ws (hd s) \<and> \<not> js_ws (last s))"
  shows "js_trim s = s"
proof (cases s rule: rev_cases)
  case Nil
  then show ?thesis by (simp add: js_trim_def)
next
  case (snoc ys y)
  with assms have "dropWhile js_ws s = s"
    by (intro dropWhile_no_hd) simp
  moreover from snoc assms have "dropWhile js_ws (rev s) = rev s"
    by (intro dropWhile_no_hd) simp
  ultimately show ?thesis by (simp add: js_trim_def)
qed

end
