(* ===== verification/JsNumber.thy ===== *)
theory JsNumber
  imports JsString
begin

text \<open>
  \<open>Number.prototype.toString()\<close> and \<open>parseFloat\<close> on the numbers the pages hold,
  modelled from ECMAScript (Number::toString, steps for radix 10, and the
  StrDecimalLiteral grammar of \<open>parseFloat\<close>).  A finite number is an exact rational;
  every JavaScript number is a dyadic rational and so has a finite decimal
  expansion, which Number::toString prints in its shortest form.  The model prints
  the exact decimal expansion: for the numbers that arise from JSON texts of at most
  15 significant digits, which is what a price or a duration is, the two agree.
  A rational that is not a finite decimal cannot be a JavaScript number; for it
  the model prints the expansion truncated at the exponent of its denominator.
\<close>

subsection \<open>Decimal expansion of a rational\<close>

fun multiplicity_of :: "nat \<Rightarrow> nat \<Rightarrow> nat" where
  "multiplicity_of p n =
     (if 1 < p \<and> 0 < n \<and> n mod p = 0 then Suc (multiplicity_of p (n div p)) else 0)"

declare multiplicity_of.simps [simp del]

text \<open>The smallest \<open>e\<close> with \<open>b\<close> dividing \<open>10 ^ e\<close>, when \<open>b\<close> has no prime factor
  but 2 and 5.\<close>

definition dec_exponent :: "nat \<Rightarrow> nat" where
  "dec_exponent b = max (multiplicity_of 2 b) (multiplicity_of 5 b)"

text \<open>A rational as mantissa and scale: \<open>q = m / 10 ^ e\<close>.\<close>

definition dec_of_rat :: "rat \<Rightarrow> int \<times> nat" where
  "dec_of_rat q =
     (let (a, b) = quotient_of q; e = dec_exponent (nat b) in (a * 10 ^ e div b, e))"

definition is_decimal :: "rat \<Rightarrow> bool" where
  "is_decimal q \<longleftrightarrow> (let (a, b) = quotient_of q in b dvd 10 ^ dec_exponent (nat b))"

subsection \<open>Number::toString\<close>

text \<open>Digits and exponent of a positive value \<open>ds \<times> 10 ^ ex\<close>, trailing zeros
  moved into the exponent.\<close>

fun strip_zeros :: "nat list \<Rightarrow> int \<Rightarrow> nat list \<times> int" where
  "strip_zeros ds ex =
     (if 1 < length ds \<and> last ds = 0 then strip_zeros (butlast ds) (ex + 1) else (ds, ex))"

declare strip_zeros.simps [simp del]

text \<open>Steps 6--10 of Number::toString for a positive number with digit string
  \<open>ds\<close> (\<open>k\<close> digits, no trailing zero) and decimal point position \<open>n\<close>.\<close>

definition sci_str :: "nat list \<Rightarrow> int \<Rightarrow> js_string" where
  "sci_str ds n =
     (let k = int (length ds); d = map digit_char ds
      in if k \<le> n \<and> n \<le> 21 then d @ replicate (nat (n - k)) CHR ''0''
         else if 0 < n \<and> n \<le> 21 then take (nat n) d @ CHR ''.'' # drop (nat n) d
         else if -6 < n \<and> n \<le> 0 then CHR ''0'' # CHR ''.'' # replicate (nat (- n)) CHR ''0'' @ d
         else (let x = n - 1;
                   es = (if x < 0 then CHR ''-'' else CHR ''+'') # nat_str (nat \<bar>x\<bar>)
               in if k = 1 then d @ CHR ''e'' # es
                  else hd d # CHR ''.'' # tl d @ CHR ''e'' # es))"

definition dec_str :: "int \<times> nat \<Rightarrow> js_string" where
  "dec_str d =
     (if fst d = 0 then ''0''
      else (let (ds, ex) = strip_zeros (nat_digits (nat \<bar>fst d\<bar>)) (- int (snd d));
                s = sci_str ds (int (length ds) + ex)
            in if fst d < 0 then CHR ''-'' # s else s))"

definition num_str :: "rat \<Rightarrow> js_string" where
  "num_str q = dec_str (dec_of_rat q)"

text \<open>\<open>String(n)\<close> for every JavaScript number.\<close>

fun jsnum_str :: "jsnum \<Rightarrow> js_string" where
  "jsnum_str NaN = ''NaN''"
| "jsnum_str PosInf = ''Infinity''"
| "jsnum_str NegInf = ''-Infinity''"
| "jsnum_str (Num q) = num_str q"

subsection \<open>parseFloat\<close>

definition pow10 :: "int \<Rightarrow> rat" where
  "pow10 x = (if 0 \<le> x then 10 ^ nat x else 1 / 10 ^ nat (- x))"

text \<open>The exponent part: \<open>e\<close> or \<open>E\<close>, an optional sign and at least one digit;
  otherwise no exponent is read.\<close>

definition scan_exponent :: "js_string \<Rightarrow> int" where
  "scan_exponent s =
     (if s \<noteq> [] \<and> (hd s = CHR ''e'' \<or> hd s = CHR ''E'')
      then (let (sg, t) = split_sign (tl s); ed = scan_digits 10 t
            in if ed = [] then 0 else sg * int (digits_value 10 ed))
      else 0)"

text \<open>The value of the longest prefix that is a StrUnsignedDecimalLiteral other than
  \<open>Infinity\<close>: digits with an optional fraction (at least one digit in all) and an
  optional exponent; \<open>None\<close> when there is no such prefix.\<close>

definition unsigned_decimal :: "js_string \<Rightarrow> rat option" where
  "unsigned_decimal s1 =
     (let ip = scan_digits 10 s1;
          r1 = drop (length ip) s1;
          fp = (if r1 \<noteq> [] \<and> hd r1 = CHR ''.'' then scan_digits 10 (tl r1) else []);
          r2 = (if r1 \<noteq> [] \<and> hd r1 = CHR ''.'' then drop (length fp) (tl r1) else r1)
      in if ip = [] \<and> fp = [] then None
         else Some (of_nat (digits_value 10 (ip @ fp)) * pow10 (scan_exponent r2 - int (length fp))))"

text \<open>\<open>parseFloat\<close>: leading whitespace, one optional sign, then \<open>Infinity\<close> or an
  unsigned decimal literal; anything after the longest such prefix is ignored.\<close>

definition parseFloat :: "js_string \<Rightarrow> jsnum" where
  "parseFloat str =
     (let (sg, s1) = split_sign (trim_start str)
      in if take 8 s1 = ''Infinity'' then (if sg < 0 then NegInf else PosInf)
         else (case unsigned_decimal s1 of None \<Rightarrow> NaN | Some v \<Rightarrow> Num (of_int sg * v)))"

subsection \<open>Scanning printed digits\<close>

lemma digits_value_append:
  "digits_value r (xs @ ys) = digits_value r xs * r ^ length ys + digits_value r ys"
proof (induction ys rule: rev_induct)
  case Nil
  then show ?case by (simp add: digits_value_def)
next
  case (snoc y ys)
  then show ?case
    by (simp only: append_assoc [symmetric] digits_value_snoc) (simp add: algebra_simps)
qed

lemma digits_value_zeros [simp]: "digits_value r (replicate z 0) = 0"
  by (induction z) (simp_all add: digits_value_def replicate_append_same [symmetric])

lemma digits_value_Cons_zero [simp]: "digits_value r (0 # ds) = digits_value r ds"
  using digits_value_append [of r "[0]" ds] by (simp add: digits_value_def)

lemma non_digit_chars [simp]:
  "digit_val 10 CHR ''.'' = None" "digit_val 10 CHR ''e'' = None"
  "digit_val 10 CHR ''-'' = None" "digit_val 10 CHR ''+'' = None"
  by (simp_all add: digit_val_def)

lemma scan_digits_map_append:
  assumes "\<forall>d\<in>set ds. d < 10"
  shows "scan_digits 10 (map digit_char ds @ rest) = ds @ scan_digits 10 rest"
  using assms by (induction ds) (simp_all add: digit_val_digit_char)

lemma scan_digits_stop: "digit_val 10 c = None \<Longrightarrow> scan_digits 10 (c # rest) = []"
  by simp

lemma digit_char_zero: "digit_char 0 = CHR ''0''"
  by (simp add: digit_char_def)

lemma replicate_zero_chars: "replicate z CHR ''0'' = map digit_char (replicate z 0)"
  by (simp add: digit_char_zero)

lemma digits_value_leading_zeros [simp]: "digits_value r (replicate z 0 @ ds) = digits_value r ds"
  by (induction z) simp_all

lemma pow10_add: "pow10 (a + b) = pow10 a * pow10 b"
proof -
  have "pow10 x = (10::rat) powi x" for x
    by (simp add: pow10_def power_int_def power_one_over)
  then show ?thesis by (simp add: power_int_add)
qed

lemma pow10_nat [simp]: "pow10 (int z) = 10 ^ z"
  by (simp add: pow10_def)

lemma pow10_zero [simp]: "pow10 0 = 1"
  by (simp add: pow10_def)

lemma pow10_one [simp]: "pow10 1 = 10"
  by (simp add: pow10_def)

lemma unsigned_decimal_int:
  assumes "ip \<noteq> []" "\<forall>d\<in>set ip. d < 10" "ex = [] \<or> hd ex = CHR ''e''"
  shows "unsigned_decimal (map digit_char ip @ ex) =
           Some (of_nat (digits_value 10 ip) * pow10 (scan_exponent ex))"
proof -
  have "scan_digits 10 ex = []" using assms(3) by (cases ex) auto
  with assms show ?thesis
    by (auto simp: unsigned_decimal_def scan_digits_map_append)
qed

lemma unsigned_decimal_frac:
  assumes "ip \<noteq> []" "\<forall>d\<in>set ip. d < 10" "\<forall>d\<in>set fp. d < 10"
    and "ex = [] \<or> hd ex = CHR ''e''"
  shows "unsigned_decimal (map digit_char ip @ CHR ''.'' # map digit_char fp @ ex) =
           Some (of_nat (digits_value 10 (ip @ fp)) * pow10 (scan_exponent ex - int (length fp)))"
proof -
  have "scan_digits 10 ex = []" using assms(4) by (cases ex) auto
  with assms show ?thesis
    by (auto simp: unsigned_decimal_def scan_digits_map_append)
qed

lemma scan_exponent_printed:
  "scan_exponent (CHR ''e'' # (if x < 0 then CHR ''-'' else CHR ''+'') # nat_str (nat \<bar>x\<bar>)) = x"
  by (auto simp: scan_exponent_def split_sign_def nat_str_facts digits_value_nat_digits)

lemma pow10_diff_nat: "0 \<le> x \<Longrightarrow> pow10 x = 10 ^ nat x"
  by (simp add: pow10_def)

lemma sci_str_plain:
  assumes ne: "ds \<noteq> []" and dig: "\<forall>d\<in>set ds. d < 10"
    and plain: "int (length ds) \<le> n \<and> n \<le> 21"
  shows "unsigned_decimal (sci_str ds n) =
           Some (of_nat (digits_value 10 ds) * pow10 (n - int (length ds)))"
proof -
  let ?k = "int (length ds)"
  let ?z = "nat (n - ?k)"
  have str: "sci_str ds n = map digit_char (ds @ replicate ?z 0) @ []"
    using plain by (simp add: sci_str_def replicate_zero_chars)
  have "unsigned_decimal (map digit_char (ds @ replicate ?z 0) @ []) =
          Some (of_nat (digits_value 10 (ds @ replicate ?z 0)) * pow10 (scan_exponent []))"
    using ne dig by (intro unsigned_decimal_int) auto
  moreover have "pow10 (n - ?k) = 10 ^ ?z" using plain by (simp add: pow10_diff_nat)
  ultimately show ?thesis
    by (simp add: str digits_value_append scan_exponent_def)
qed

lemma sci_str_point:
  assumes ne: "ds \<noteq> []" and dig: "\<forall>d\<in>set ds. d < 10"
    and point: "\<not> (int (length ds) \<le> n \<and> n \<le> 21)" "0 < n \<and> n \<le> 21"
  shows "unsigned_decimal (sci_str ds n) =
           Some (of_nat (digits_value 10 ds) * pow10 (n - int (length ds)))"
proof -
  let ?k = "int (length ds)"
  let ?m = "nat n"
  have str: "sci_str ds n =
      map digit_char (take ?m ds) @ CHR ''.'' # map digit_char (drop ?m ds) @ []"
    using point by (simp add: sci_str_def take_map drop_map)
  have "take ?m ds \<noteq> []" using point ne by simp
  then have "unsigned_decimal (map digit_char (take ?m ds) @ CHR ''.'' # map digit_char (drop ?m ds) @ []) =
     Some (of_nat (digits_value 10 (take ?m ds @ drop ?m ds)) *
           pow10 (scan_exponent [] - int (length (drop ?m ds))))"
    using dig by (intro unsigned_decimal_frac) (auto dest: in_set_takeD in_set_dropD)
  moreover have "scan_exponent [] - int (length (drop ?m ds)) = n - ?k"
    using point by (simp add: scan_exponent_def)
  ultimately show ?thesis by (simp add: str)
qed

lemma sci_str_small:
  assumes ne: "ds \<noteq> []" and dig: "\<forall>d\<in>set ds. d < 10" and small: "\<not> (int (length ds) \<le> n \<and> n \<le> 21)" "\<not> (0 < n \<and> n \<le> 21)" "-6 < n \<and> n \<le> 0"
  shows "unsigned_decimal (sci_str ds n) =
           Some (of_nat (digits_value 10 ds) * pow10 (n - int (length ds)))"
proof -
  let ?k = "int (length ds)"
    let ?z = "nat (- n)"
    have "sci_str ds n = CHR ''0'' # CHR ''.'' # replicate ?z CHR ''0'' @ map digit_char ds"
      using small by (simp add: sci_str_def)
    also have "\<dots> = map digit_char [0] @ CHR ''.'' # map digit_char (replicate ?z 0 @ ds) @ []"
      by (simp add: digit_char_zero)
    finally have str: "sci_str ds n =
        map digit_char [0] @ CHR ''.'' # map digit_char (replicate ?z 0 @ ds) @ []" .
    have "unsigned_decimal (map digit_char [0] @ CHR ''.'' # map digit_char (replicate ?z 0 @ ds) @ []) =
       Some (of_nat (digits_value 10 ([0] @ replicate ?z 0 @ ds)) *
             pow10 (scan_exponent [] - int (length (replicate ?z 0 @ ds))))"
      using dig by (intro unsigned_decimal_frac) auto
    moreover have "scan_exponent [] - int (length (replicate ?z 0 @ ds)) = n - ?k"
      using small by (simp add: scan_exponent_def)
    moreover have "digits_value 10 ([0] @ replicate ?z 0 @ ds) = digits_value 10 ds"
      by simp
    ultimately show ?thesis by (simp only: str)
qed

lemma sci_str_expo:
  assumes ne: "ds \<noteq> []" and dig: "\<forall>d\<in>set ds. d < 10" and expo: "\<not> (int (length ds) \<le> n \<and> n \<le> 21)" "\<not> (0 < n \<and> n \<le> 21)" "\<not> (-6 < n \<and> n \<le> 0)"
  shows "unsigned_decimal (sci_str ds n) =
           Some (of_nat (digits_value 10 ds) * pow10 (n - int (length ds)))"
proof -
  let ?k = "int (length ds)"
  let ?v = "of_nat (digits_value 10 ds) :: rat"
    let ?es = "(if n - 1 < 0 then CHR ''-'' else CHR ''+'') # nat_str (nat \<bar>n - 1\<bar>)"
    show ?thesis
    proof (cases "?k = 1")
      case True
      have str: "sci_str ds n = map digit_char ds @ CHR ''e'' # ?es"
        unfolding sci_str_def Let_def
        by (simp only: if_not_P [OF expo(1)] if_not_P [OF expo(2)] if_not_P [OF expo(3)] if_P [OF True])
      have "unsigned_decimal (map digit_char ds @ CHR ''e'' # ?es) =
              Some (?v * pow10 (scan_exponent (CHR ''e'' # ?es)))"
        using ne dig by (intro unsigned_decimal_int) auto
      with True show ?thesis by (simp only: str scan_exponent_printed)
    next
      case False
      obtain d ds' where ds: "ds = d # ds'" using ne by (cases ds) auto
      have "sci_str ds n = hd (map digit_char ds) # CHR ''.'' # tl (map digit_char ds) @ CHR ''e'' # ?es"
        unfolding sci_str_def Let_def
        by (simp only: if_not_P [OF expo(1)] if_not_P [OF expo(2)] if_not_P [OF expo(3)] if_not_P [OF False])
      then have str: "sci_str ds n = map digit_char [d] @ CHR ''.'' # map digit_char ds' @ CHR ''e'' # ?es"
        by (simp add: ds)
      have "unsigned_decimal (map digit_char [d] @ CHR ''.'' # map digit_char ds' @ CHR ''e'' # ?es) =
              Some (of_nat (digits_value 10 ([d] @ ds')) *
                    pow10 (scan_exponent (CHR ''e'' # ?es) - int (length ds')))"
        using dig ds by (intro unsigned_decimal_frac) auto
      moreover have "scan_exponent (CHR ''e'' # ?es) - int (length ds') = n - ?k"
        by (simp only: scan_exponent_printed) (simp add: ds)
      moreover have "[d] @ ds' = ds" by (simp add: ds)
      ultimately show ?thesis by (simp only: str)
    qed
qed

lemma sci_str_value:
  assumes "ds \<noteq> []" and "\<forall>d\<in>set ds. d < 10"
  shows "unsigned_decimal (sci_str ds n) =
           Some (of_nat (digits_value 10 ds) * pow10 (n - int (length ds)))"
  using assms sci_str_plain sci_str_point sci_str_small sci_str_expo by blast

lemma strip_zeros_props:
  "ds \<noteq> [] \<Longrightarrow> \<forall>d\<in>set ds. d < 10 \<Longrightarrow> strip_zeros ds ex = (ds', ex') \<Longrightarrow>
   ds' \<noteq> [] \<and> (\<forall>d\<in>set ds'. d < 10) \<and>
   of_nat (digits_value 10 ds') * pow10 ex' = of_nat (digits_value 10 ds) * pow10 ex"
proof (induction ds ex rule: strip_zeros.induct)
  case (1 ds ex)
  show ?case
  proof (cases "1 < length ds \<and> last ds = 0")
    case True
    then have ds: "ds = butlast ds @ [0]" by (metis append_butlast_last_id list.size(3) not_less_zero)
    have "strip_zeros (butlast ds) (ex + 1) = (ds', ex')"
      using "1.prems"(3) True by (simp add: strip_zeros.simps [of ds ex])
    moreover have "butlast ds \<noteq> []" using True by (cases ds rule: rev_cases) auto
    moreover have "\<forall>d\<in>set (butlast ds). d < 10" using "1.prems"(2) by (auto dest: in_set_butlastD)
    ultimately have IH: "ds' \<noteq> [] \<and> (\<forall>d\<in>set ds'. d < 10) \<and>
        of_nat (digits_value 10 ds') * pow10 ex' = of_nat (digits_value 10 (butlast ds)) * pow10 (ex + 1)"
      using "1.IH" True by blast
    have "digits_value 10 ds = digits_value 10 (butlast ds) * 10"
      by (subst ds) (simp add: digits_value_snoc)
    with IH show ?thesis by (simp add: pow10_add)
  next
    case False
    have "strip_zeros ds ex = (ds, ex)"
      by (subst strip_zeros.simps) (simp only: if_not_P [OF False])
    with "1.prems" show ?thesis by simp
  qed
qed

lemma sci_str_first_digit:
  assumes "ds \<noteq> []" "\<forall>d\<in>set ds. d < 10"
  shows "\<exists>d r. d < 10 \<and> sci_str ds n = digit_char d # r"
proof -
  obtain d ds' where ds: "ds = d # ds'" using assms(1) by (cases ds) auto
  then have d: "d < 10" using assms(2) by simp
  have "sci_str ds n = digit_char d # tl (sci_str ds n) \<or>
        sci_str ds n = digit_char 0 # tl (sci_str ds n)"
    by (auto simp: sci_str_def Let_def ds take_Cons' digit_char_zero)
  with d show ?thesis by (metis zero_less_numeral)
qed

lemma digit_char_start:
  assumes "d < 10"
  shows "\<not> js_ws (digit_char d)" "digit_char d \<noteq> CHR ''-''" "digit_char d \<noteq> CHR ''+''"
    "digit_char d \<noteq> CHR ''I''"
proof -
  from assms have "d \<in> {0,1,2,3,4,5,6,7,8,9}" by auto
  then show "\<not> js_ws (digit_char d)" "digit_char d \<noteq> CHR ''-''" "digit_char d \<noteq> CHR ''+''"
    "digit_char d \<noteq> CHR ''I''"
    by (auto simp: digit_char_def js_ws_def)
qed

lemma parseFloat_digit_start:
  assumes "d < 10" "unsigned_decimal (digit_char d # r) = Some v"
  shows "parseFloat (digit_char d # r) = Num v"
    "parseFloat (CHR ''-'' # digit_char d # r) = Num (- v)"
  using assms digit_char_start [OF assms(1)]
  by (auto simp: parseFloat_def trim_start_def split_sign_def js_ws_def)

lemma parseFloat_dec_str: "parseFloat (dec_str d) = Num (of_int (fst d) / 10 ^ snd d)"
proof (cases "fst d = 0")
  case True
  have "unsigned_decimal (map digit_char [0] @ []) = Some (of_nat (digits_value 10 [0]) * pow10 (scan_exponent []))"
    by (intro unsigned_decimal_int) simp_all
  then have "unsigned_decimal (digit_char 0 # []) = Some 0"
    by (simp add: digits_value_def)
  then have "parseFloat (digit_char 0 # []) = Num 0"
    by (rule parseFloat_digit_start(1) [rotated]) simp
  with True show ?thesis by (simp add: dec_str_def digit_char_zero)
next
  case False
  let ?m = "nat \<bar>fst d\<bar>"
  let ?e = "snd d"
  have ds0: "nat_digits ?m \<noteq> []" "\<forall>x\<in>set (nat_digits ?m). x < 10"
    using nat_digits_small by auto
  obtain ds ex where sz: "strip_zeros (nat_digits ?m) (- int ?e) = (ds, ex)" by fastforce
  from strip_zeros_props [OF ds0 sz] have ds: "ds \<noteq> []" "\<forall>x\<in>set ds. x < 10"
    and val: "of_nat (digits_value 10 ds) * pow10 ex = of_nat ?m * pow10 (- int ?e)"
    by (simp_all add: digits_value_nat_digits)
  let ?s = "sci_str ds (int (length ds) + ex)"
  have ud: "unsigned_decimal ?s = Some (of_nat ?m * pow10 (- int ?e))"
    using sci_str_value [OF ds, of "int (length ds) + ex"] val by simp
  obtain c r where c: "c < 10" and s: "?s = digit_char c # r"
    using sci_str_first_digit [OF ds] by blast
  have p10: "pow10 (- int ?e) = 1 / 10 ^ ?e" by (simp add: pow10_def)
  show ?thesis
  proof (cases "fst d < 0")
    case True
    have "parseFloat (CHR ''-'' # ?s) = Num (- (of_nat ?m * pow10 (- int ?e)))"
      using parseFloat_digit_start(2) [OF c] ud s by simp
    with True False sz show ?thesis by (simp add: dec_str_def p10)
  next
    case neg: False
    have "parseFloat ?s = Num (of_nat ?m * pow10 (- int ?e))"
      using parseFloat_digit_start(1) [OF c] ud s by simp
    with neg False sz show ?thesis by (simp add: dec_str_def p10)
  qed
qed

lemma dec_of_rat_value:
  assumes "is_decimal q"
  shows "of_int (fst (dec_of_rat q)) / 10 ^ snd (dec_of_rat q) = q"
proof -
  obtain a b where qo: "quotient_of q = (a, b)" by fastforce
  let ?e = "dec_exponent (nat b)"
  have b: "0 < b" using qo by (rule quotient_of_denom_pos)
  have q: "q = of_int a / of_int b" using qo by (rule quotient_of_div)
  have dvd: "b dvd 10 ^ ?e" using assms qo by (simp add: is_decimal_def)
  have "a * 10 ^ ?e div b = a * (10 ^ ?e div b)" using dvd by (simp add: div_mult_swap)
  moreover have "(of_int (10 ^ ?e div b) :: rat) = 10 ^ ?e / of_int b"
    using dvd by (simp add: of_int_div)
  ultimately have "(of_int (a * 10 ^ ?e div b) :: rat) = of_int a * 10 ^ ?e / of_int b"
    by simp
  moreover have "dec_of_rat q = (a * 10 ^ ?e div b, ?e)"
    using qo by (simp add: dec_of_rat_def Let_def)
  ultimately show ?thesis using b q by simp
qed

lemma parseFloat_num_str: "is_decimal q \<Longrightarrow> parseFloat (num_str q) = Num q"
  by (simp add: num_str_def parseFloat_dec_str dec_of_rat_value)

lemma multiplicity_of_one [simp]: "multiplicity_of p (Suc 0) = 0"
  by (subst multiplicity_of.simps) simp

lemma dec_exponent_one [simp]: "dec_exponent (Suc 0) = 0"
  by (simp add: dec_exponent_def)

lemma is_decimal_of_int [simp]: "is_decimal (of_int i)"
  by (simp add: is_decimal_def)

lemma dec_of_rat_of_int [simp]: "dec_of_rat (of_int i) = (i, 0)"
  by (simp add: dec_of_rat_def)

lemma strip_zeros_shape:
  "strip_zeros ds ex = (ds', ex') \<Longrightarrow> ex \<le> ex' \<and> ds = ds' @ replicate (nat (ex' - ex)) 0"
proof (induction ds ex arbitrary: ds' ex' rule: strip_zeros.induct)
  case (1 ds ex)
  show ?case
  proof (cases "1 < length ds \<and> last ds = 0")
    case True
    then have "strip_zeros (butlast ds) (ex + 1) = (ds', ex')"
      using "1.prems" by (simp add: strip_zeros.simps [of ds ex])
    with "1.IH" True have IH: "ex + 1 \<le> ex' \<and> butlast ds = ds' @ replicate (nat (ex' - (ex + 1))) 0"
      by blast
    from True have "ds = butlast ds @ [0]" by (metis append_butlast_last_id list.size(3) not_less_zero)
    also have "\<dots> = ds' @ replicate (nat (ex' - (ex + 1))) 0 @ [0]" using IH by simp
    also have "\<dots> = ds' @ replicate (nat (ex' - ex)) 0"
    proof -
      have "Suc (nat (ex' - (ex + 1))) = nat (1 + (ex' - (ex + 1)))"
        using IH by (intro Suc_nat_eq_nat_zadd1) simp
      then have "nat (ex' - ex) = Suc (nat (ex' - (ex + 1)))" by simp
      then show ?thesis by (simp add: replicate_append_same)
    qed
    finally show ?thesis using IH by simp
  next
    case False
    have "strip_zeros ds ex = (ds, ex)"
      by (subst strip_zeros.simps) (simp only: if_not_P [OF False])
    with "1.prems" show ?thesis by simp
  qed
qed

lemma length_nat_digits: "n < 10 ^ k \<Longrightarrow> 0 < k \<Longrightarrow> length (nat_digits n) \<le> k"
proof (induction n arbitrary: k rule: nat_digits.induct)
  case (1 n)
  show ?case
  proof (cases "n < 10")
    case True
    with "1.prems" show ?thesis by (simp add: nat_digits.simps [of n])
  next
    case False
    have "k \<noteq> 1" using False "1.prems"(1) by (cases "k = 1") simp_all
    then obtain k' where k: "k = Suc k'" "0 < k'" using "1.prems"(2) by (cases k) auto
    have "n div 10 < 10 ^ k'" using "1.prems"(1) k(1) by (simp add: div_less_iff_less_mult)
    with "1.IH" False k(2) have "length (nat_digits (n div 10)) \<le> k'" by blast
    with False k(1) show ?thesis by (simp add: nat_digits.simps [of n])
  qed
qed

lemma num_str_of_int:
  assumes "\<bar>i\<bar> < 10 ^ 21"
  shows "num_str (of_int i) = int_str i"
proof (cases "i = 0")
  case True
  have "dec_of_rat 0 = (0, 0)" using dec_of_rat_of_int [of 0] by simp
  with True show ?thesis
    by (simp add: num_str_def dec_str_def int_str_def nat_str_def nat_digits.simps [of 0] digit_char_def)
next
  case False
  let ?m = "nat \<bar>i\<bar>"
  obtain ds ex where sz: "strip_zeros (nat_digits ?m) 0 = (ds, ex)" by fastforce
  from strip_zeros_shape [OF sz] have shape: "0 \<le> ex" "nat_digits ?m = ds @ replicate (nat ex) 0"
    by simp_all
  have "int ?m < int (10 ^ 21)" using assms by simp
  then have "?m < 10 ^ 21" by (simp only: of_nat_less_iff)
  then have len: "length (nat_digits ?m) \<le> 21" by (rule length_nat_digits) simp
  let ?n = "int (length ds) + ex"
  have n: "?n = int (length (nat_digits ?m))" using shape by simp
  have "sci_str ds ?n = map digit_char (ds @ replicate (nat ex) 0)"
    using n len shape(1) by (simp add: sci_str_def replicate_zero_chars)
  then have sci: "sci_str ds ?n = nat_str ?m" by (simp add: nat_str_def shape(2))
  show ?thesis
    using False sz sci by (simp add: num_str_def dec_str_def int_str_def)
qed

lemma num_str_zero [simp]: "num_str 0 = ''0''"
  using num_str_of_int [of 0] by (simp add: int_str_def nat_str_def nat_digits.simps [of 0] digit_char_zero)

end
