(* ===== verification/JsValue.thy ===== *)
theory JsValue
  imports JsNumber
begin

text \<open>
  JavaScript values as the pages receive them from the backend (the \<open>data\<close> of an
  axios response, parsed JSON) and the three operations the pages apply to them:
  truthiness, the \<open>||\<close> operator and property access \<open>v.k\<close>, which throws a
  TypeError on \<open>undefined\<close> and \<open>null\<close>.  Property access is modelled for own data
  properties; built-in properties (\<open>length\<close>, methods) are not read this way by the
  modelled code.  Objects are association lists; a repeated key keeps its last
  value, as \<open>JSON.parse\<close> does.
  A request made with the axios instance \<open>api\<close> either resolves with the response
  data or rejects; rejection covers transport failure and non-2xx status.
\<close>

datatype jsval =
    JUndef
  | JNull
  | JBool bool
  | JNumber jsnum
  | JStr js_string
  | JArr "jsval list"
  | JObj "(js_string \<times> jsval) list"

text \<open>The exceptions the modelled code can raise: a TypeError of the language, and
  React's error when a render returns an object as a child.\<close>

datatype js_error = TypeError | RenderError

fun truthy :: "jsval \<Rightarrow> bool" where
  "truthy JUndef = False"
| "truthy JNull = False"
| "truthy (JBool b) = b"
| "truthy (JNumber n) = (case n of NaN \<Rightarrow> False | Num q \<Rightarrow> q \<noteq> 0 | _ \<Rightarrow> True)"
| "truthy (JStr s) = (s \<noteq> [])"
| "truthy (JArr _) = True"
| "truthy (JObj _) = True"

definition js_or :: "jsval \<Rightarrow> jsval \<Rightarrow> jsval" where
  "js_or a b = (if truthy a then a else b)"

fun get_prop :: "jsval \<Rightarrow> js_string \<Rightarrow> js_error + jsval" where
  "get_prop JUndef k = Inl TypeError"
| "get_prop JNull k = Inl TypeError"
| "get_prop (JObj kvs) k = Inr (case map_of (rev kvs) k of None \<Rightarrow> JUndef | Some v \<Rightarrow> v)"
| "get_prop _ k = Inr JUndef"

text \<open>Setting a property (\<open>o[k] = v\<close>, or a key of an object literal after a
  spread): an existing key keeps its position, a new key is appended.\<close>

definition obj_set :: "(js_string \<times> jsval) list \<Rightarrow> js_string \<Rightarrow> jsval \<Rightarrow> (js_string \<times> jsval) list" where
  "obj_set kvs k v =
     (if k \<in> set (map fst kvs) then map (\<lambda>(k', v'). (k', if k' = k then v else v')) kvs
      else kvs @ [(k, v)])"

text \<open>\<open>String(v)\<close> (ECMAScript ToString); inside an array \<open>null\<close> and
  \<open>undefined\<close> print as the empty string.\<close>

fun js_to_string :: "jsval \<Rightarrow> js_string" where
  "js_to_string JUndef = ''undefined''"
| "js_to_string JNull = ''null''"
| "js_to_string (JBool b) = (if b then ''true'' else ''false'')"
| "js_to_string (JNumber n) = jsnum_str n"
| "js_to_string (JStr s) = s"
| "js_to_string (JArr xs) =
     js_join CHR '','' (map (\<lambda>x. if x = JUndef \<or> x = JNull then [] else js_to_string x) xs)"
| "js_to_string (JObj _) = ''[object Object]''"

text \<open>Why an axios request rejects: no response, or a response with a non-2xx status.\<close>

datatype fetch_error = NetworkError | HttpStatus nat

type_synonym response = "fetch_error + jsval"

lemma map_of_rev_replace:
  "map_of (rev (map (\<lambda>(k', v'). (k', if k' = k then v else v')) kvs)) x =
     (if x = k then (if k \<in> fst ` set kvs then Some v else None) else map_of (rev kvs) x)"
proof (induction kvs)
  case Nil
  then show ?case by simp
next
  case (Cons p kvs)
  obtain a b where p: "p = (a, b)" by fastforce
  show ?case using Cons.IH by (auto simp: p map_add_def split: option.splits)
qed

lemma get_prop_obj_set [simp]:
  "get_prop (JObj (obj_set kvs k v)) k' = (if k' = k then Inr v else get_prop (JObj kvs) k')"
  by (auto simp: obj_set_def map_of_rev_replace)

lemma js_or_truthy [simp]: "truthy a \<Longrightarrow> js_or a b = a"
  by (simp add: js_or_def)

lemma js_or_falsy [simp]: "\<not> truthy a \<Longrightarrow> js_or a b = b"
  by (simp add: js_or_def)

lemma get_prop_obj_key [simp]:
  "k \<notin> fst ` set kvs \<Longrightarrow> get_prop (JObj kvs) k = Inr JUndef"
proof -
  assume "k \<notin> fst ` set kvs"
  then have "map_of (rev kvs) k = None" by (simp add: map_of_eq_None_iff)
  then show ?thesis by simp
qed

lemma get_prop_error_iff: "isl (get_prop v k) \<longleftrightarrow> v = JUndef \<or> v = JNull"
  by (cases v) auto

end
