(* ===== verification/Query.thy ===== *)
theory Query
  imports JsValue
begin

text \<open>
  The query descriptor of the course catalogue, \<open>src/src/pages/Courses.jsx\<close>: the
  \<open>filters\<close> state (lines 36--42), the two handlers that replace it
  (\<open>handleFilterChange\<close>, lines 85--91, and \<open>handlePageChange\<close>, lines 93--98) and
  the query parameters that \<open>fetchCourses\<close> builds from it (lines 66--71).  The
  handler \<open>handleFilterChange(field, value)\<close> is called from the search box, the
  category select and the difficulty select only, so its \<open>field\<close> is one of three.
\<close>

record filters =
  fl_search :: js_string
  fl_category :: js_string
  fl_difficulty :: js_string
  fl_page :: nat
  fl_limit :: nat

definition initial_filters :: filters where
  "initial_filters =
     \<lparr>fl_search = [], fl_category = [], fl_difficulty = [], fl_page = 1, fl_limit = 12\<rparr>"

datatype filter_field = FSearch | FCategory | FDifficulty

fun set_field :: "filter_field \<Rightarrow> js_string \<Rightarrow> filters \<Rightarrow> filters" where
  "set_field FSearch v f = f\<lparr>fl_search := v\<rparr>"
| "set_field FCategory v f = f\<lparr>fl_category := v\<rparr>"
| "set_field FDifficulty v f = f\<lparr>fl_difficulty := v\<rparr>"

fun get_field :: "filter_field \<Rightarrow> filters \<Rightarrow> js_string" where
  "get_field FSearch f = fl_search f"
| "get_field FCategory f = fl_category f"
| "get_field FDifficulty f = fl_difficulty f"

definition handleFilterChange :: "filter_field \<Rightarrow> js_string \<Rightarrow> filters \<Rightarrow> filters" where
  "handleFilterChange fld v prev = (set_field fld v prev)\<lparr>fl_page := 1\<rparr>"

definition handlePageChange :: "nat \<Rightarrow> filters \<Rightarrow> filters" where
  "handlePageChange v prev = prev\<lparr>fl_page := v\<rparr>"

text \<open>
  \<open>Object.keys(filters)\<close> in insertion order, each value as the JavaScript value it
  holds; an entry is appended to the \<open>URLSearchParams\<close> only when the value is
  truthy, and appended as its string form.
\<close>

definition filter_entries :: "filters \<Rightarrow> (js_string \<times> jsval) list" where
  "filter_entries f =
     [(''search'', JStr (fl_search f)), (''category'', JStr (fl_category f)),
      (''difficulty'', JStr (fl_difficulty f)),
      (''page'', JNumber (Num (of_nat (fl_page f)))),
      (''limit'', JNumber (Num (of_nat (fl_limit f))))]"

fun param_string :: "jsval \<Rightarrow> js_string" where
  "param_string (JStr s) = s"
| "param_string (JNumber n) = jsnum_str n"
| "param_string _ = []"

definition query_params :: "filters \<Rightarrow> (js_string \<times> js_string) list" where
  "query_params f =
     map (\<lambda>(k, v). (k, param_string v)) (filter (\<lambda>(k, v). truthy v) (filter_entries f))"

subsection \<open>The handlers\<close>

lemma get_field_set_field [simp]:
  "get_field g (set_field fld v f) = (if g = fld then v else get_field g f)"
  by (cases g; cases fld) simp_all

lemma set_field_page_limit [simp]:
  "fl_page (set_field fld v f) = fl_page f" "fl_limit (set_field fld v f) = fl_limit f"
  by (cases fld; simp)+

lemma get_field_page_update [simp]: "get_field g (f\<lparr>fl_page := x\<rparr>) = get_field g f"
  by (cases g) simp_all

lemma handleFilterChange_simps [simp]:
  "fl_page (handleFilterChange fld v f) = 1"
  "fl_limit (handleFilterChange fld v f) = fl_limit f"
  "get_field g (handleFilterChange fld v f) = (if g = fld then v else get_field g f)"
  by (simp_all add: handleFilterChange_def)

lemma handlePageChange_simps [simp]:
  "fl_page (handlePageChange v f) = v"
  "fl_limit (handlePageChange v f) = fl_limit f"
  "get_field g (handlePageChange v f) = get_field g f"
  by (simp_all add: handlePageChange_def)

lemma filters_eqI:
  "(\<And>g. get_field g f = get_field g f') \<Longrightarrow> fl_page f = fl_page f' \<Longrightarrow>
   fl_limit f = fl_limit f' \<Longrightarrow> f = f'"
proof -
  assume g: "\<And>g. get_field g f = get_field g f'" and "fl_page f = fl_page f'" "fl_limit f = fl_limit f'"
  moreover have "fl_search f = fl_search f'" using g [of FSearch] by simp
  moreover have "fl_category f = fl_category f'" using g [of FCategory] by simp
  moreover have "fl_difficulty f = fl_difficulty f'" using g [of FDifficulty] by simp
  ultimately show "f = f'" by (cases f; cases f') simp
qed

subsection \<open>Query parameters\<close>

lemma query_params_explicit:
  "query_params f =
     (if fl_search f = [] then [] else [(''search'', fl_search f)]) @
     (if fl_category f = [] then [] else [(''category'', fl_category f)]) @
     (if fl_difficulty f = [] then [] else [(''difficulty'', fl_difficulty f)]) @
     (if fl_page f = 0 then [] else [(''page'', num_str (of_nat (fl_page f)))]) @
     (if fl_limit f = 0 then [] else [(''limit'', num_str (of_nat (fl_limit f)))])"
  by (simp add: query_params_def filter_entries_def)

lemma num_str_nat_inj: "num_str (of_nat m) = num_str (of_nat n) \<Longrightarrow> m = n"
proof -
  assume "num_str (of_nat m) = num_str (of_nat n)"
  then have "parseFloat (num_str (of_int (int m))) = parseFloat (num_str (of_int (int n)))"
    by simp
  then have "(of_int (int m) :: rat) = of_int (int n)"
    by (simp only: parseFloat_num_str is_decimal_of_int jsnum.inject)
  then show "m = n" by simp
qed

lemma mem_query_params:
  "(''search'', x) \<in> set (query_params f) \<longleftrightarrow> fl_search f \<noteq> [] \<and> x = fl_search f"
  "(''category'', x) \<in> set (query_params f) \<longleftrightarrow> fl_category f \<noteq> [] \<and> x = fl_category f"
  "(''difficulty'', x) \<in> set (query_params f) \<longleftrightarrow> fl_difficulty f \<noteq> [] \<and> x = fl_difficulty f"
  "(''page'', x) \<in> set (query_params f) \<longleftrightarrow> fl_page f \<noteq> 0 \<and> x = num_str (of_nat (fl_page f))"
  "(''limit'', x) \<in> set (query_params f) \<longleftrightarrow> fl_limit f \<noteq> 0 \<and> x = num_str (of_nat (fl_limit f))"
  unfolding query_params_explicit by simp_all

text \<open>
  C10: the query string drops empty filters, yet it still determines the query
  descriptor completely: two descriptors (with non-zero page and page size) that
  produce the same parameters are equal.
\<close>

theorem query_params_injective:
  assumes "fl_page f \<noteq> 0" "fl_limit f \<noteq> 0" "fl_page g \<noteq> 0" "fl_limit g \<noteq> 0"
    and eq: "query_params f = query_params g"
  shows "f = g"
proof (rule filters_eqI)
  have m: "\<And>k x. (k, x) \<in> set (query_params f) \<longleftrightarrow> (k, x) \<in> set (query_params g)"
    using eq by simp
  show "get_field fld f = get_field fld g" for fld
  proof (cases fld)
    case FSearch
    then show ?thesis
      using m [of "''search''" "fl_search f"] m [of "''search''" "fl_search g"]
      by (auto simp: mem_query_params)
  next
    case FCategory
    then show ?thesis
      using m [of "''category''" "fl_category f"] m [of "''category''" "fl_category g"]
      by (auto simp: mem_query_params)
  next
    case FDifficulty
    then show ?thesis
      using m [of "''difficulty''" "fl_difficulty f"] m [of "''difficulty''" "fl_difficulty g"]
      by (auto simp: mem_query_params)
  qed
  have "(''page'', num_str (of_nat (fl_page f))) \<in> set (query_params g)"
    using m mem_query_params(4) assms(1) by blast
  then show "fl_page f = fl_page g"
    by (simp add: mem_query_params num_str_nat_inj)
  have "(''limit'', num_str (of_nat (fl_limit f))) \<in> set (query_params g)"
    using m mem_query_params(5) assms(2) by blast
  then show "fl_limit f = fl_limit g"
    by (simp add: mem_query_params num_str_nat_inj)
qed

theorem query_params_injective_witness:
  "query_params (initial_filters\<lparr>fl_category := ''Web''\<rparr>) =
     query_params (initial_filters\<lparr>fl_category := ''Web''\<rparr>) \<and>
   initial_filters\<lparr>fl_category := ''Web''\<rparr> = initial_filters\<lparr>fl_category := ''Web''\<rparr>"
  using query_params_injective [of "initial_filters\<lparr>fl_category := ''Web''\<rparr>"
      "initial_filters\<lparr>fl_category := ''Web''\<rparr>"]
  by (simp add: initial_filters_def)

end
