(* ===== verification/Fetcher.thy ===== *)
theory Fetcher
  imports Query
begin

text \<open>
  The response normalisation of \<open>fetchCourses\<close> in \<open>src/src/pages/Courses.jsx\<close>
  (lines 74--75): the list endpoint answers either with a bare array or with a
  paginated envelope \<open>{content, totalPages}\<close>, and the page keeps
  \<open>response.data.content || response.data\<close> as its course list and
  \<open>response.data.totalPages || 1\<close> as its page count.  Reading a property of a
  \<open>null\<close> body throws, which the surrounding \<open>try\<close> turns into the error branch.
\<close>

definition normalize_response :: "jsval \<Rightarrow> js_error + (jsval \<times> jsval)" where
  "normalize_response d =
     (case get_prop d ''content'' of
        Inl e \<Rightarrow> Inl e
      | Inr c \<Rightarrow>
          (case get_prop d ''totalPages'' of
             Inl e \<Rightarrow> Inl e
           | Inr tp \<Rightarrow> Inr (js_or c d, js_or tp (JNumber (Num 1)))))"

lemma normalize_response_Arr [simp]:
  "normalize_response (JArr xs) = Inr (JArr xs, JNumber (Num 1))"
  by (simp add: normalize_response_def)

lemma normalize_response_props:
  assumes "get_prop d ''content'' = Inr c" "get_prop d ''totalPages'' = Inr tp"
  shows "normalize_response d = Inr (js_or c d, js_or tp (JNumber (Num 1)))"
  using assms by (simp add: normalize_response_def)

lemma normalize_response_error_iff:
  "isl (normalize_response d) \<longleftrightarrow> d = JUndef \<or> d = JNull"
  by (cases d) (simp_all add: normalize_response_def)

text \<open>
  C8: the two response shapes of the list endpoints are normalised as the
  specification's scenario says: a bare array is the item list with one page; an
  envelope \<open>{content, totalPages}\<close> with a positive page count yields its content
  and its page count.
\<close>

theorem normalize_dual_shape:
  "normalize_response (JArr xs) = Inr (JArr xs, JNumber (Num 1)) \<and>
   (0 < n \<longrightarrow>
      normalize_response (JObj [(''content'', JArr ys), (''totalPages'', JNumber (Num (of_nat n)))])
        = Inr (JArr ys, JNumber (Num (of_nat n))))"
  by (simp add: normalize_response_def js_or_def)

theorem normalize_dual_shape_witness:
  "normalize_response (JArr [JStr ''c1'', JStr ''c2'', JStr ''c3''])
     = Inr (JArr [JStr ''c1'', JStr ''c2'', JStr ''c3''], JNumber (Num 1)) \<and>
   normalize_response (JObj [(''content'', JArr [JStr ''c1'']), (''totalPages'', JNumber (Num (of_nat 4)))])
     = Inr (JArr [JStr ''c1''], JNumber (Num (of_nat 4)))"
  using normalize_dual_shape [of "[JStr ''c1'', JStr ''c2'', JStr ''c3'']" 4 "[JStr ''c1'']"]
  by simp

text \<open>
  C9: an envelope without a \<open>content\<close> key is not rejected: the whole envelope
  object becomes the course list, which the page then renders with \<open>courses.map\<close>.
  A page count of zero or a missing one becomes 1.
\<close>

theorem normalize_envelope_without_content:
  assumes "''content'' \<notin> fst ` set kvs"
  shows "normalize_response (JObj kvs) =
           Inr (JObj kvs, js_or (projr (get_prop (JObj kvs) ''totalPages'')) (JNumber (Num 1)))"
proof -
  have "get_prop (JObj kvs) ''content'' = Inr JUndef"
    using assms by (rule get_prop_obj_key)
  then show ?thesis
    by (simp add: normalize_response_props [of _ JUndef "projr (get_prop (JObj kvs) ''totalPages'')"])
qed

theorem normalize_envelope_without_content_witness:
  "normalize_response (JObj [(''items'', JArr []), (''totalPages'', JNumber (Num 0))]) =
     Inr (JObj [(''items'', JArr []), (''totalPages'', JNumber (Num 0))], JNumber (Num 1))"
  using normalize_envelope_without_content [of "[(''items'', JArr []), (''totalPages'', JNumber (Num 0))]"]
  by (simp add: js_or_def)

end
