(* ===== verification/Catalog.thy ===== *)
theory Catalog
  imports Fetcher
begin

text \<open>
  The synchronisation controller of the course catalogue, the component
  \<open>Courses\<close> of \<open>src/src/pages/Courses.jsx\<close> (lines 32--98).  Its state is the
  page's \<open>useState\<close> variables; the two \<open>useEffect\<close> hooks run \<open>fetchCategories\<close>
  once at mount and \<open>fetchCourses\<close> at mount and after every change of
  \<open>filters\<close>.  Each \<open>async\<close> fetch is split at its \<open>await\<close>: the part before it
  runs with the event that triggered the fetch, the part after it runs when the
  response arrives.  Responses arrive in any order; an arrival is an event of its
  own, so an event list is one interleaving of user input and network.
  Two fields keep the network side: \<open>cat_inflight\<close> holds the requests of
  \<open>fetchCourses\<close> not yet answered (with the filters the request was built from)
  and \<open>cat_sent\<close> every such request sent, newest first.
\<close>

record catalog =
  cat_courses :: jsval
  cat_loading :: bool
  cat_error :: js_string
  cat_filters :: filters
  cat_totalPages :: jsval
  cat_categories :: jsval
  cat_inflight :: "(nat \<times> filters) list"
  cat_sent :: "(nat \<times> filters) list"
  cat_cats_inflight :: nat
  cat_next :: nat

definition catalog_init :: catalog where
  "catalog_init =
     \<lparr>cat_courses = JArr [], cat_loading = True, cat_error = [],
      cat_filters = initial_filters, cat_totalPages = JNumber (Num 1),
      cat_categories = JArr [], cat_inflight = [], cat_sent = [],
      cat_cats_inflight = 0, cat_next = 0\<rparr>"

definition load_error_msg :: js_string where
  "load_error_msg = ''Failed to load courses. Please try again.''"

text \<open>\<open>fetchCategories\<close> (lines 54--61): issue the request; on arrival keep the
  data, on failure only log.\<close>

definition fetchCategories :: "catalog \<Rightarrow> catalog" where
  "fetchCategories s = s\<lparr>cat_cats_inflight := Suc (cat_cats_inflight s)\<rparr>"

definition fetchCategories_done :: "response \<Rightarrow> catalog \<Rightarrow> catalog" where
  "fetchCategories_done r s = (case r of Inl _ \<Rightarrow> s | Inr d \<Rightarrow> s\<lparr>cat_categories := d\<rparr>)"

text \<open>\<open>fetchCourses\<close> (lines 63--83), up to the \<open>await\<close>: \<open>setLoading(true)\<close>,
  then the request for the current filters.\<close>

definition fetchCourses :: "catalog \<Rightarrow> catalog" where
  "fetchCourses s =
     s\<lparr>cat_loading := True,
       cat_inflight := (cat_next s, cat_filters s) # cat_inflight s,
       cat_sent := (cat_next s, cat_filters s) # cat_sent s,
       cat_next := Suc (cat_next s)\<rparr>"

text \<open>The result the \<open>try\<close> block computes from a response: \<open>None\<close> when it
  throws (a rejected request, or a \<open>null\<close> body).\<close>

definition courses_result :: "response \<Rightarrow> (jsval \<times> jsval) option" where
  "courses_result r =
     (case r of
        Inl _ \<Rightarrow> None
      | Inr d \<Rightarrow> (case normalize_response d of Inl _ \<Rightarrow> None | Inr p \<Rightarrow> Some p))"

text \<open>\<open>fetchCourses\<close> after the \<open>await\<close>: the \<open>try\<close>, \<open>catch\<close> and
  \<open>finally\<close> blocks.\<close>

definition fetchCourses_done :: "response \<Rightarrow> catalog \<Rightarrow> catalog" where
  "fetchCourses_done r s =
     (case courses_result r of
        None \<Rightarrow> s\<lparr>cat_error := load_error_msg, cat_loading := False\<rparr>
      | Some (c, tp) \<Rightarrow>
          s\<lparr>cat_courses := c, cat_totalPages := tp, cat_error := [], cat_loading := False\<rparr>)"

datatype catalog_event =
    Mount
  | FilterChange filter_field js_string
  | PageChange nat
  | CoursesArrive nat response
  | CategoriesArrive response

definition drop_request :: "nat \<Rightarrow> (nat \<times> filters) list \<Rightarrow> (nat \<times> filters) list" where
  "drop_request n rs = filter (\<lambda>(m, _). m \<noteq> n) rs"

fun catalog_step :: "catalog \<Rightarrow> catalog_event \<Rightarrow> catalog" where
  "catalog_step s Mount = fetchCourses (fetchCategories s)"
| "catalog_step s (FilterChange fld v) =
     fetchCourses (s\<lparr>cat_filters := handleFilterChange fld v (cat_filters s)\<rparr>)"
| "catalog_step s (PageChange v) =
     fetchCourses (s\<lparr>cat_filters := handlePageChange v (cat_filters s)\<rparr>)"
| "catalog_step s (CoursesArrive n r) =
     (if n \<in> set (map fst (cat_inflight s))
      then fetchCourses_done r (s\<lparr>cat_inflight := drop_request n (cat_inflight s)\<rparr>)
      else s)"
| "catalog_step s (CategoriesArrive r) =
     (if 0 < cat_cats_inflight s
      then fetchCategories_done r (s\<lparr>cat_cats_inflight := cat_cats_inflight s - 1\<rparr>)
      else s)"

fun catalog_run :: "catalog \<Rightarrow> catalog_event list \<Rightarrow> catalog" where
  "catalog_run s [] = s"
| "catalog_run s (e # es) = catalog_run (catalog_step s e) es"

text \<open>The states of a mounted page: mount, then any interleaving of events.\<close>

definition catalog_after :: "catalog_event list \<Rightarrow> catalog" where
  "catalog_after es = catalog_run catalog_init (Mount # es)"

subsection \<open>The controller the specification asks for\<close>

text \<open>
  Section 4.1 of the specification: every fetch gets a strictly increasing sequence
  number and its result is applied only when it answers the most recent request;
  an older response is dropped and leaves \<open>loading\<close> alone.  This abstract
  controller differs from \<open>catalog_step\<close> only in the arrival of a course
  response.
\<close>

fun spec_step :: "catalog \<Rightarrow> catalog_event \<Rightarrow> catalog" where
  "spec_step s (CoursesArrive n r) =
     (if n \<in> set (map fst (cat_inflight s))
      then (let s' = s\<lparr>cat_inflight := drop_request n (cat_inflight s)\<rparr>
            in if n = cat_next s - 1 then fetchCourses_done r s' else s')
      else s)"
| "spec_step s e = catalog_step s e"

fun spec_run :: "catalog \<Rightarrow> catalog_event list \<Rightarrow> catalog" where
  "spec_run s [] = s"
| "spec_run s (e # es) = spec_run (spec_step s e) es"

definition spec_after :: "catalog_event list \<Rightarrow> catalog" where
  "spec_after es = spec_run catalog_init (Mount # es)"

text \<open>
  A network that answers in order: every course response that arrives answers the
  oldest request still in flight, and every one succeeds.
\<close>

definition in_order_event :: "catalog \<Rightarrow> catalog_event \<Rightarrow> bool" where
  "in_order_event s e =
     (case e of
        CoursesArrive n r \<Rightarrow>
          cat_inflight s \<noteq> [] \<and> n = fst (last (cat_inflight s)) \<and> courses_result r \<noteq> None
      | _ \<Rightarrow> True)"

fun in_order :: "catalog \<Rightarrow> catalog_event list \<Rightarrow> bool" where
  "in_order s [] = True"
| "in_order s (e # es) = (in_order_event s e \<and> in_order (catalog_step s e) es)"

subsection \<open>Invariants\<close>

definition newest_is_current :: "catalog \<Rightarrow> bool" where
  "newest_is_current s \<longleftrightarrow> cat_sent s \<noteq> [] \<and> hd (cat_sent s) = (cat_next s - 1, cat_filters s)"

definition inflight_wf :: "catalog \<Rightarrow> bool" where
  "inflight_wf s \<longleftrightarrow>
     sorted_wrt (>) (map fst (cat_inflight s)) \<and> (\<forall>n\<in>set (map fst (cat_inflight s)). n < cat_next s)"

definition newest_pending :: "catalog \<Rightarrow> bool" where
  "newest_pending s \<longleftrightarrow> (cat_inflight s \<noteq> [] \<longrightarrow> fst (hd (cat_inflight s)) = cat_next s - 1)"

text \<open>The fields that both controllers treat alike, and the simulation relation:
  they agree on those always, and on everything once no request is in flight.\<close>

definition same_control :: "catalog \<Rightarrow> catalog \<Rightarrow> bool" where
  "same_control c a \<longleftrightarrow>
     cat_filters c = cat_filters a \<and> cat_inflight c = cat_inflight a \<and>
     cat_sent c = cat_sent a \<and> cat_next c = cat_next a \<and>
     cat_categories c = cat_categories a \<and> cat_cats_inflight c = cat_cats_inflight a"

definition sync_rel :: "catalog \<Rightarrow> catalog \<Rightarrow> bool" where
  "sync_rel c a \<longleftrightarrow> same_control c a \<and> (cat_inflight c = [] \<longrightarrow> c = a)"

subsection \<open>Single operations\<close>

lemma fetchCourses_done_fields [simp]:
  "cat_loading (fetchCourses_done r s) = False"
  "cat_filters (fetchCourses_done r s) = cat_filters s"
  "cat_inflight (fetchCourses_done r s) = cat_inflight s"
  "cat_sent (fetchCourses_done r s) = cat_sent s"
  "cat_next (fetchCourses_done r s) = cat_next s"
  "cat_categories (fetchCourses_done r s) = cat_categories s"
  "cat_cats_inflight (fetchCourses_done r s) = cat_cats_inflight s"
  by (simp_all add: fetchCourses_done_def split: option.splits prod.splits)

lemma fetchCourses_done_view:
  "cat_courses (fetchCourses_done r s) = (case courses_result r of None \<Rightarrow> cat_courses s | Some p \<Rightarrow> fst p)"
  "cat_totalPages (fetchCourses_done r s) =
     (case courses_result r of None \<Rightarrow> cat_totalPages s | Some p \<Rightarrow> snd p)"
  "cat_error (fetchCourses_done r s) =
     (case courses_result r of None \<Rightarrow> load_error_msg | Some p \<Rightarrow> [])"
  by (simp_all add: fetchCourses_done_def split: option.splits prod.splits)

lemma fetchCategories_done_fields [simp]:
  "cat_courses (fetchCategories_done r s) = cat_courses s"
  "cat_loading (fetchCategories_done r s) = cat_loading s"
  "cat_error (fetchCategories_done r s) = cat_error s"
  "cat_totalPages (fetchCategories_done r s) = cat_totalPages s"
  "cat_filters (fetchCategories_done r s) = cat_filters s"
  "cat_inflight (fetchCategories_done r s) = cat_inflight s"
  "cat_sent (fetchCategories_done r s) = cat_sent s"
  "cat_next (fetchCategories_done r s) = cat_next s"
  "cat_cats_inflight (fetchCategories_done r s) = cat_cats_inflight s"
  by (simp_all add: fetchCategories_done_def split: sum.splits)

lemma fetchCourses_fields [simp]:
  "cat_courses (fetchCourses s) = cat_courses s"
  "cat_loading (fetchCourses s) = True"
  "cat_error (fetchCourses s) = cat_error s"
  "cat_totalPages (fetchCourses s) = cat_totalPages s"
  "cat_filters (fetchCourses s) = cat_filters s"
  "cat_inflight (fetchCourses s) = (cat_next s, cat_filters s) # cat_inflight s"
  "cat_sent (fetchCourses s) = (cat_next s, cat_filters s) # cat_sent s"
  "cat_next (fetchCourses s) = Suc (cat_next s)"
  "cat_categories (fetchCourses s) = cat_categories s"
  "cat_cats_inflight (fetchCourses s) = cat_cats_inflight s"
  by (simp_all add: fetchCourses_def)

lemma fetchCategories_fields [simp]:
  "cat_courses (fetchCategories s) = cat_courses s"
  "cat_loading (fetchCategories s) = cat_loading s"
  "cat_filters (fetchCategories s) = cat_filters s"
  "cat_inflight (fetchCategories s) = cat_inflight s"
  "cat_sent (fetchCategories s) = cat_sent s"
  "cat_next (fetchCategories s) = cat_next s"
  "cat_categories (fetchCategories s) = cat_categories s"
  "cat_cats_inflight (fetchCategories s) = Suc (cat_cats_inflight s)"
  by (simp_all add: fetchCategories_def)

lemma fetchCategories_done_categories:
  "cat_categories (fetchCategories_done r s) = (case r of Inl _ \<Rightarrow> cat_categories s | Inr d \<Rightarrow> d)"
  by (simp add: fetchCategories_done_def split: sum.splits)

lemma fetchCourses_done_success_eq:
  assumes "courses_result r = Some p" and "same_control x y"
  shows "fetchCourses_done r x = fetchCourses_done r y"
  using assms by (cases x; cases y) (simp add: same_control_def fetchCourses_done_def split: prod.splits)

lemma drop_request_last:
  "sorted_wrt (>) (map fst L) \<Longrightarrow> L \<noteq> [] \<Longrightarrow> drop_request (fst (last L)) L = butlast L"
proof (induction L)
  case Nil
  then show ?case by simp
next
  case (Cons x L)
  show ?case
  proof (cases "L = []")
    case True
    then show ?thesis by (simp add: drop_request_def split: prod.splits)
  next
    case False
    obtain a b where x: "x = (a, b)" by (cases x)
    with Cons.prems False have lt: "fst (last L) < a" by simp
    then have "drop_request (fst (last L)) (x # L) = x # drop_request (fst (last L)) L"
      by (simp add: drop_request_def x)
    with Cons False show ?thesis by simp
  qed
qed

lemma drop_request_wf:
  "sorted_wrt (>) (map fst L) \<Longrightarrow> sorted_wrt (>) (map fst (drop_request n L))"
  "set (drop_request n L) \<subseteq> set L"
  by (auto simp: drop_request_def sorted_wrt_map sorted_wrt_filter)

subsection \<open>Invariants of every run\<close>

lemma catalog_after_run: "catalog_after es = catalog_run (catalog_step catalog_init Mount) es"
  by (simp add: catalog_after_def)

lemma spec_after_run: "spec_after es = spec_run (catalog_step catalog_init Mount) es"
  by (simp add: spec_after_def)

lemma newest_is_current_step: "newest_is_current s \<Longrightarrow> newest_is_current (catalog_step s e)"
  by (cases e) (simp_all add: newest_is_current_def)

lemma newest_is_current_run: "newest_is_current s \<Longrightarrow> newest_is_current (catalog_run s es)"
  by (induction es arbitrary: s) (simp_all add: newest_is_current_step)

lemma inflight_wf_fetchCourses: "inflight_wf s \<Longrightarrow> inflight_wf (fetchCourses s)"
  by (auto simp: inflight_wf_def)

lemma inflight_wf_step: "inflight_wf s \<Longrightarrow> inflight_wf (catalog_step s e)"
proof (cases e)
  case (CoursesArrive n r)
  assume wf: "inflight_wf s"
  then show ?thesis using CoursesArrive drop_request_wf [where L = "cat_inflight s"]
    by (auto simp: inflight_wf_def dest!: subsetD)
qed (auto simp: inflight_wf_def)

lemma newest_pending_step:
  assumes "inflight_wf s" "newest_pending s" "in_order_event s e"
  shows "newest_pending (catalog_step s e)"
proof (cases e)
  case (CoursesArrive n r)
  let ?L = "cat_inflight s"
  from assms(3) CoursesArrive have ne: "?L \<noteq> []" and n: "n = fst (last ?L)"
    by (simp_all add: in_order_event_def)
  then have mem: "n \<in> set (map fst ?L)" by simp
  have drop: "drop_request n ?L = butlast ?L"
    using assms(1) ne n by (simp add: inflight_wf_def drop_request_last)
  have "butlast ?L \<noteq> [] \<Longrightarrow> hd (butlast ?L) = hd ?L"
    by (cases ?L) auto
  with assms(2) CoursesArrive mem drop ne show ?thesis
    by (auto simp: newest_pending_def)
qed (use assms in \<open>auto simp: newest_pending_def\<close>)

subsection \<open>Simulation of the specified controller\<close>

lemma same_control_refl [simp]: "same_control c c"
  by (simp add: same_control_def)

lemma same_control_updates [simp]:
  "same_control (fetchCourses_done r x) y \<longleftrightarrow> same_control x y"
  "same_control x (fetchCourses_done r y) \<longleftrightarrow> same_control x y"
  "same_control (x\<lparr>cat_inflight := L\<rparr>) (y\<lparr>cat_inflight := L\<rparr>) \<longleftrightarrow>
     same_control (x\<lparr>cat_inflight := cat_inflight y\<rparr>) y"
  by (auto simp: same_control_def)

lemma sync_rel_arrival:
  assumes rel: "sync_rel c a" and wf: "inflight_wf c" and np: "newest_pending c"
    and ev: "in_order_event c (CoursesArrive n r)"
  shows "sync_rel (catalog_step c (CoursesArrive n r)) (spec_step a (CoursesArrive n r))"
proof -
  let ?L = "cat_inflight c"
  from ev have ne: "?L \<noteq> []" and n: "n = fst (last ?L)" and ok: "courses_result r \<noteq> None"
    by (simp_all add: in_order_event_def)
  then have mem: "n \<in> set (map fst ?L)" by simp
  have drop: "drop_request n ?L = butlast ?L"
    using wf ne n by (simp add: inflight_wf_def drop_request_last)
  have ctl: "same_control c a" using rel by (simp add: sync_rel_def)
  then have La: "cat_inflight a = ?L" and Na: "cat_next a = cat_next c"
    by (simp_all add: same_control_def)
  have ctl': "same_control (c\<lparr>cat_inflight := butlast ?L\<rparr>) (a\<lparr>cat_inflight := butlast ?L\<rparr>)"
    using ctl by (simp add: same_control_def)
  show ?thesis
  proof (cases "butlast ?L = []")
    case True
    with ne have "?L = [last ?L]" by (metis append_butlast_last_id append_Nil)
    then have "hd ?L = last ?L" by (metis list.sel(1))
    with np ne n have newest: "n = cat_next c - 1" by (simp add: newest_pending_def)
    from ok obtain p where p: "courses_result r = Some p" by auto
    have "fetchCourses_done r (c\<lparr>cat_inflight := butlast ?L\<rparr>) =
          fetchCourses_done r (a\<lparr>cat_inflight := butlast ?L\<rparr>)"
      using p ctl' by (rule fetchCourses_done_success_eq)
    with mem drop La Na newest show ?thesis
      by (simp add: sync_rel_def Let_def)
  next
    case False
    with mem drop La Na ctl' show ?thesis
      by (simp add: sync_rel_def Let_def same_control_def)
  qed
qed

lemma sync_rel_categories:
  assumes rel: "sync_rel c a"
  shows "sync_rel (catalog_step c (CategoriesArrive r)) (spec_step a (CategoriesArrive r))"
proof (cases "cat_inflight c = []")
  case True
  with rel have "c = a" by (simp add: sync_rel_def)
  then show ?thesis by (simp add: sync_rel_def)
next
  case False
  from rel have "same_control c a" by (simp add: sync_rel_def)
  with False show ?thesis
    by (cases r) (simp_all add: sync_rel_def same_control_def fetchCategories_done_def)
qed

lemma sync_rel_step:
  assumes "sync_rel c a" "inflight_wf c" "newest_pending c" "in_order_event c e"
  shows "sync_rel (catalog_step c e) (spec_step a e)"
proof (cases e)
  case (CoursesArrive n r)
  with assms show ?thesis by (simp only: sync_rel_arrival)
next
  case Mount
  with assms show ?thesis by (simp add: sync_rel_def same_control_def)
next
  case (FilterChange fld v)
  with assms show ?thesis by (simp add: sync_rel_def same_control_def)
next
  case (PageChange v)
  with assms show ?thesis by (simp add: sync_rel_def same_control_def)
next
  case (CategoriesArrive r)
  with assms(1) show ?thesis by (simp only: sync_rel_categories)
qed

lemma sync_rel_run:
  "in_order c es \<Longrightarrow> sync_rel c a \<Longrightarrow> inflight_wf c \<Longrightarrow> newest_pending c \<Longrightarrow>
   sync_rel (catalog_run c es) (spec_run a es)"
proof (induction es arbitrary: c a)
  case Nil
  then show ?case by simp
next
  case (Cons e es)
  from Cons.prems have ev: "in_order_event c e" and rest: "in_order (catalog_step c e) es" by simp_all
  have "sync_rel (catalog_step c e) (spec_step a e)"
    using Cons.prems(2-4) ev by (rule sync_rel_step)
  moreover have "inflight_wf (catalog_step c e)" using Cons.prems(3) by (rule inflight_wf_step)
  moreover have "newest_pending (catalog_step c e)"
    using Cons.prems(3,4) ev by (rule newest_pending_step)
  ultimately show ?case using rest Cons.IH by simp
qed

subsection \<open>Properties of the controller\<close>

text \<open>
  C1: whatever the interleaving of user input and responses, the most recent
  request the page has sent was built from the current filters: no change of the
  query descriptor goes without a fetch.
\<close>

theorem catalog_fetch_on_change:
  "cat_sent (catalog_after es) \<noteq> [] \<and>
   hd (cat_sent (catalog_after es)) = (cat_next (catalog_after es) - 1, cat_filters (catalog_after es))"
proof -
  have "newest_is_current (catalog_step catalog_init Mount)"
    by (simp add: newest_is_current_def)
  then have "newest_is_current (catalog_after es)"
    by (simp add: catalog_after_run newest_is_current_run)
  then show ?thesis by (simp add: newest_is_current_def)
qed

text \<open>
  C2: a filter edit sets that filter, resets the page to 1, keeps the other filters
  and the page size, sets \<open>loading\<close> and sends a request built from the new filters.
\<close>

theorem catalog_filter_change:
  "fl_page (cat_filters (catalog_step s (FilterChange fld v))) = 1 \<and>
   get_field g (cat_filters (catalog_step s (FilterChange fld v))) =
     (if g = fld then v else get_field g (cat_filters s)) \<and>
   fl_limit (cat_filters (catalog_step s (FilterChange fld v))) = fl_limit (cat_filters s) \<and>
   cat_inflight (catalog_step s (FilterChange fld v)) =
     (cat_next s, cat_filters (catalog_step s (FilterChange fld v))) # cat_inflight s \<and>
   cat_loading (catalog_step s (FilterChange fld v))"
  by simp

text \<open>
  C3: a page change sets the page only: every filter and the page size are kept,
  and a request for the new page is sent.
\<close>

theorem catalog_page_change:
  "fl_page (cat_filters (catalog_step s (PageChange v))) = v \<and>
   get_field g (cat_filters (catalog_step s (PageChange v))) = get_field g (cat_filters s) \<and>
   fl_limit (cat_filters (catalog_step s (PageChange v))) = fl_limit (cat_filters s) \<and>
   cat_inflight (catalog_step s (PageChange v)) =
     (cat_next s, cat_filters (catalog_step s (PageChange v))) # cat_inflight s \<and>
   cat_loading (catalog_step s (PageChange v))"
  by simp

text \<open>
  C4: the code does not suppress stale responses.  After a filter edit, when the
  response to the edit's request arrives before the response to the mount's
  request, the page ends showing the older result, for the old filters, while the
  controller of the specification shows the newer one.
\<close>

theorem stale_response_overwrites:
  assumes "courses_result r_new = Some (c_new, tp_new)" and "courses_result r_old = Some (c_old, tp_old)"
  shows "cat_courses (catalog_after [FilterChange fld v, CoursesArrive 1 r_new, CoursesArrive 0 r_old]) = c_old \<and>
         cat_inflight (catalog_after [FilterChange fld v, CoursesArrive 1 r_new, CoursesArrive 0 r_old]) = [] \<and>
         cat_courses (spec_after [FilterChange fld v, CoursesArrive 1 r_new, CoursesArrive 0 r_old]) = c_new"
  using assms
  by (simp add: catalog_after_def spec_after_def catalog_init_def fetchCourses_done_view drop_request_def)

theorem stale_response_overwrites_witness:
  "cat_courses (catalog_after [FilterChange FCategory ''Web'', CoursesArrive 1 (Inr (JArr [JStr ''web''])),
      CoursesArrive 0 (Inr (JArr [JStr ''web'', JStr ''java'']))]) = JArr [JStr ''web'', JStr ''java''] \<and>
   cat_inflight (catalog_after [FilterChange FCategory ''Web'', CoursesArrive 1 (Inr (JArr [JStr ''web''])),
      CoursesArrive 0 (Inr (JArr [JStr ''web'', JStr ''java'']))]) = [] \<and>
   cat_courses (spec_after [FilterChange FCategory ''Web'', CoursesArrive 1 (Inr (JArr [JStr ''web''])),
      CoursesArrive 0 (Inr (JArr [JStr ''web'', JStr ''java'']))]) = JArr [JStr ''web'']"
  by (rule stale_response_overwrites) (simp_all add: courses_result_def)

text \<open>
  C5: when the network answers in order and every request succeeds, the code
  refines the specified controller: at every moment with no request in flight
  the two are in the same state.
\<close>

theorem in_order_refines_spec:
  assumes "in_order (catalog_step catalog_init Mount) es"
    and "cat_inflight (catalog_after es) = []"
  shows "catalog_after es = spec_after es"
proof -
  let ?s0 = "catalog_step catalog_init Mount"
  have "sync_rel ?s0 ?s0" by (simp add: sync_rel_def)
  moreover have "inflight_wf ?s0" by (simp add: inflight_wf_def catalog_init_def)
  moreover have "newest_pending ?s0" by (simp add: newest_pending_def catalog_init_def)
  ultimately have "sync_rel (catalog_run ?s0 es) (spec_run ?s0 es)"
    using assms(1) sync_rel_run by blast
  with assms(2) show ?thesis
    by (simp add: sync_rel_def catalog_after_run spec_after_run)
qed

theorem in_order_refines_spec_witness:
  "in_order (catalog_step catalog_init Mount)
     [FilterChange FCategory ''Web'', CoursesArrive 0 (Inr (JArr [])), CoursesArrive 1 (Inr (JArr [JStr ''web'']))] \<and>
   cat_inflight (catalog_after
     [FilterChange FCategory ''Web'', CoursesArrive 0 (Inr (JArr [])), CoursesArrive 1 (Inr (JArr [JStr ''web'']))]) = [] \<and>
   catalog_after [FilterChange FCategory ''Web'', CoursesArrive 0 (Inr (JArr [])), CoursesArrive 1 (Inr (JArr [JStr ''web'']))]
   = spec_after [FilterChange FCategory ''Web'', CoursesArrive 0 (Inr (JArr [])), CoursesArrive 1 (Inr (JArr [JStr ''web'']))]"
proof -
  have h1: "in_order (catalog_step catalog_init Mount)
     [FilterChange FCategory ''Web'', CoursesArrive 0 (Inr (JArr [])), CoursesArrive 1 (Inr (JArr [JStr ''web'']))]"
    by (simp add: catalog_init_def in_order_event_def courses_result_def drop_request_def)
  have h2: "cat_inflight (catalog_after
     [FilterChange FCategory ''Web'', CoursesArrive 0 (Inr (JArr [])), CoursesArrive 1 (Inr (JArr [JStr ''web'']))]) = []"
    by (simp add: catalog_after_def catalog_init_def drop_request_def)
  show ?thesis using h1 h2 in_order_refines_spec [OF h1 h2] by simp
qed

text \<open>
  C6: a failed fetch (rejected request or \<open>null\<close> body) keeps the items and the page
  count of the last good result, sets a non-empty error message and ends
  \<open>loading\<close>.
\<close>

theorem failed_fetch_keeps_items:
  assumes "n \<in> set (map fst (cat_inflight s))" and "courses_result r = None"
  shows "cat_courses (catalog_step s (CoursesArrive n r)) = cat_courses s \<and>
         cat_totalPages (catalog_step s (CoursesArrive n r)) = cat_totalPages s \<and>
         cat_error (catalog_step s (CoursesArrive n r)) = load_error_msg \<and>
         cat_error (catalog_step s (CoursesArrive n r)) \<noteq> [] \<and>
         \<not> cat_loading (catalog_step s (CoursesArrive n r))"
  using assms by (simp add: fetchCourses_done_view load_error_msg_def)

theorem failed_fetch_keeps_items_witness:
  "cat_courses (catalog_step (catalog_after []) (CoursesArrive 0 (Inl NetworkError))) = JArr [] \<and>
   cat_totalPages (catalog_step (catalog_after []) (CoursesArrive 0 (Inl NetworkError))) = JNumber (Num 1) \<and>
   cat_error (catalog_step (catalog_after []) (CoursesArrive 0 (Inl NetworkError))) = load_error_msg \<and>
   cat_error (catalog_step (catalog_after []) (CoursesArrive 0 (Inl NetworkError))) \<noteq> [] \<and>
   \<not> cat_loading (catalog_step (catalog_after []) (CoursesArrive 0 (Inl NetworkError)))"
proof -
  have h1: "0 \<in> set (map fst (cat_inflight (catalog_after [])))"
    by (simp add: catalog_after_def catalog_init_def)
  have h2: "courses_result (Inl NetworkError) = None" by (simp add: courses_result_def)
  show ?thesis
    using failed_fetch_keeps_items [OF h1 h2]
    by (simp add: catalog_after_def catalog_init_def fetchCategories_def load_error_msg_def)
qed

text \<open>
  C7: \<open>loading\<close> is cleared by the first response to arrive, even when it answers
  a superseded request and the current one is still in flight; the specified
  controller keeps \<open>loading\<close> until the current request is answered.
\<close>

theorem loading_cleared_early:
  "\<not> cat_loading (catalog_after [FilterChange fld v, CoursesArrive 0 r]) \<and>
   map fst (cat_inflight (catalog_after [FilterChange fld v, CoursesArrive 0 r])) = [1] \<and>
   cat_loading (spec_after [FilterChange fld v, CoursesArrive 0 r])"
  by (simp add: catalog_after_def spec_after_def catalog_init_def drop_request_def)

end
