(* ===== verification/JsArith.thy ===== *)
theory JsArith
  imports JsValue
begin

text \<open>
  The ECMAScript operations on values that the dashboard and payment pages apply
  beyond those of \<open>JsValue\<close>: ToNumber (with StringToNumber, the strict
  string-to-number conversion), multiplication \<open>*\<close>, the relational comparison
  \<open>>=\<close> and \<open>String.prototype.toLowerCase\<close> on 8-bit characters.  As in
  \<open>JsNumber\<close>, finite numbers are exact rationals.
\<close>

subsection \<open>StringToNumber\<close>

text \<open>What is left of \<open>s\<close> after its longest StrUnsignedDecimalLiteral prefix
  (the prefix \<open>unsigned_decimal\<close> reads): digits, an optional fraction and an
  optional exponent with at least one digit.\<close>

definition decimal_rest :: "js_string \<Rightarrow> js_string" where
  "decimal_rest s1 =
     (let ip = scan_digits 10 s1;
          r1 = drop (length ip) s1;
          fp = (if r1 \<noteq> [] \<and> hd r1 = CHR ''.'' then scan_digits 10 (tl r1) else []);
          r2 = (if r1 \<noteq> [] \<and> hd r1 = CHR ''.'' then drop (length fp) (tl r1) else r1)
      in if r2 \<noteq> [] \<and> (hd r2 = CHR ''e'' \<or> hd r2 = CHR ''E'')
         then (let (sg, t) = split_sign (tl r2); ed = scan_digits 10 t
               in if ed = [] then r2 else drop (length ed) t)
         else r2)"

text \<open>The radix of a NonDecimalIntegerLiteral prefix \<open>0x\<close>, \<open>0o\<close> or \<open>0b\<close>.\<close>

definition nondecimal_radix :: "js_string \<Rightarrow> nat option" where
  "nondecimal_radix t =
     (if 2 \<le> length t \<and> t ! 0 = CHR ''0'' then
        (if t ! 1 \<in> {CHR ''x'', CHR ''X''} then Some 16
         else if t ! 1 \<in> {CHR ''o'', CHR ''O''} then Some 8
         else if t ! 1 \<in> {CHR ''b'', CHR ''B''} then Some 2 else None)
      else None)"

text \<open>StringToNumber: the whole trimmed string must be a numeric literal; the empty
  string is 0.\<close>

definition str_to_number :: "js_string \<Rightarrow> jsnum" where
  "str_to_number s =
     (let t = js_trim s in
      if t = [] then Num 0
      else case nondecimal_radix t of
        Some r \<Rightarrow>
          (let ds = scan_digits r (drop 2 t)
           in if ds \<noteq> [] \<and> length ds = length t - 2 then Num (of_nat (digits_value r ds)) else NaN)
      | None \<Rightarrow>
          (let (sg, u) = split_sign t in
           if u = ''Infinity'' then (if sg < 0 then NegInf else PosInf)
           else case unsigned_decimal u of
             Some v \<Rightarrow> if decimal_rest u = [] then Num (of_int sg * v) else NaN
           | None \<Rightarrow> NaN))"

text \<open>ToNumber; an array or object is first converted by its \<open>toString\<close>.\<close>

fun to_number :: "jsval \<Rightarrow> jsnum" where
  "to_number JUndef = NaN"
| "to_number JNull = Num 0"
| "to_number (JBool b) = Num (if b then 1 else 0)"
| "to_number (JNumber n) = n"
| "to_number (JStr s) = str_to_number s"
| "to_number (JArr xs) = str_to_number (js_to_string (JArr xs))"
| "to_number (JObj kvs) = str_to_number (js_to_string (JObj kvs))"

subsection \<open>Arithmetic and comparison\<close>

fun inf_of_sign :: "bool \<Rightarrow> jsnum" where
  "inf_of_sign pos = (if pos then PosInf else NegInf)"

text \<open>Multiplication on numbers (no negative zero).\<close>

fun jsnum_mul :: "jsnum \<Rightarrow> jsnum \<Rightarrow> jsnum" where
  "jsnum_mul (Num a) (Num b) = Num (a * b)"
| "jsnum_mul NaN _ = NaN"
| "jsnum_mul _ NaN = NaN"
| "jsnum_mul (Num a) PosInf = (if a = 0 then NaN else inf_of_sign (0 < a))"
| "jsnum_mul (Num a) NegInf = (if a = 0 then NaN else inf_of_sign (a < 0))"
| "jsnum_mul PosInf (Num b) = (if b = 0 then NaN else inf_of_sign (0 < b))"
| "jsnum_mul NegInf (Num b) = (if b = 0 then NaN else inf_of_sign (b < 0))"
| "jsnum_mul PosInf PosInf = PosInf"
| "jsnum_mul PosInf NegInf = NegInf"
| "jsnum_mul NegInf PosInf = NegInf"
| "jsnum_mul NegInf NegInf = PosInf"

text \<open>\<open>a * b\<close> on values: both operands through ToNumber.\<close>

definition js_mul :: "jsval \<Rightarrow> jsval \<Rightarrow> jsnum" where
  "js_mul a b = jsnum_mul (to_number a) (to_number b)"

text \<open>\<open>x <= y\<close> on numbers other than NaN, with the infinities at the ends.\<close>

fun jsnum_le :: "jsnum \<Rightarrow> jsnum \<Rightarrow> bool" where
  "jsnum_le NegInf y = (y \<noteq> NaN)"
| "jsnum_le x PosInf = (x \<noteq> NaN)"
| "jsnum_le (Num a) (Num b) = (a \<le> b)"
| "jsnum_le _ _ = False"

text \<open>\<open>a >= b\<close> where \<open>b\<close> is a number: \<open>a\<close> through ToNumber; false when either
  side is NaN.\<close>

definition js_ge :: "jsval \<Rightarrow> jsnum \<Rightarrow> bool" where
  "js_ge a b = jsnum_le b (to_number a)"

text \<open>\<open>x < y\<close> on numbers, false when either is NaN.\<close>

fun jsnum_lt :: "jsnum \<Rightarrow> jsnum \<Rightarrow> bool" where
  "jsnum_lt (Num a) (Num b) = (a < b)"
| "jsnum_lt NegInf y = (y \<noteq> NaN \<and> y \<noteq> NegInf)"
| "jsnum_lt x PosInf = (x \<noteq> NaN \<and> x \<noteq> PosInf)"
| "jsnum_lt _ _ = False"

text \<open>\<open>a > b\<close> where \<open>b\<close> is a number: \<open>a\<close> through ToNumber.\<close>

definition js_gt :: "jsval \<Rightarrow> jsnum \<Rightarrow> bool" where
  "js_gt a b = jsnum_lt b (to_number a)"

subsection \<open>toLowerCase\<close>

text \<open>Lower case on 8-bit characters: ASCII capitals and the Latin-1 capitals
  192--222 except the multiplication sign 215.\<close>

definition lower_char :: "char \<Rightarrow> char" where
  "lower_char c =
     (let n = (of_char c :: nat) in
      if (65 \<le> n \<and> n \<le> 90) \<or> (192 \<le> n \<and> n \<le> 222 \<and> n \<noteq> 215) then char_of (n + 32) else c)"

definition js_toLowerCase :: "js_string \<Rightarrow> js_string" where
  "js_toLowerCase s = map lower_char s"

subsection \<open>Lemmas\<close>

lemma jsnum_mul_Num [simp]: "jsnum_mul n (Num 1) = n"
  by (cases n) simp_all

lemma js_ge_Num [simp]: "js_ge (JNumber (Num a)) (Num b) \<longleftrightarrow> b \<le> a"
  by (simp add: js_ge_def)

lemma js_ge_NaN [simp]: "\<not> js_ge a NaN"
  by (cases "to_number a") (simp_all add: js_ge_def)

end
