(* ===== verification/ReactView.thy ===== *)
theory ReactView
  imports JsArith
begin

text \<open>
  What the pages' renders do with values: React's rendering of a value as text,
  the \<open>length\<close> property the renders test, and \<open>xs.map(f)\<close> with a callback
  that may throw.  A render that throws shows nothing of the page.
\<close>

text \<open>The text React renders for a value in JSX: nothing for \<open>undefined\<close>,
  \<open>null\<close> and booleans, the string of a number or string, the children of an
  array; an object is an error.\<close>

fun react_text :: "jsval \<Rightarrow> js_error + js_string" where
  "react_text JUndef = Inr []"
| "react_text JNull = Inr []"
| "react_text (JBool _) = Inr []"
| "react_text (JNumber n) = Inr (jsnum_str n)"
| "react_text (JStr s) = Inr s"
| "react_text (JArr xs) =
     foldr (\<lambda>x acc. case (react_text x, acc) of
                       (Inr a, Inr b) \<Rightarrow> Inr (a @ b) | (Inl e, _) \<Rightarrow> Inl e | (_, Inl e) \<Rightarrow> Inl e)
           xs (Inr [])"
| "react_text (JObj _) = Inl RenderError"

text \<open>\<open>v.length\<close>: arrays and strings have it built in; any other object only as
  a property.\<close>

fun length_of :: "jsval \<Rightarrow> js_error + jsval" where
  "length_of (JArr xs) = Inr (JNumber (Num (of_nat (length xs))))"
| "length_of (JStr s) = Inr (JNumber (Num (of_nat (length s))))"
| "length_of v = get_prop v ''length''"

text \<open>Rendering a list of values, the first error winning.\<close>

definition react_texts :: "jsval list \<Rightarrow> js_error + js_string list" where
  "react_texts vs =
     foldr (\<lambda>v acc. sbind (react_text v) (\<lambda>t. sbind acc (\<lambda>ts. Inr (t # ts)))) vs (Inr [])"

text \<open>Mapping a throwing function over a list, with the index.\<close>

fun map_throw :: "(nat \<Rightarrow> 'a \<Rightarrow> 'e + 'b) \<Rightarrow> nat \<Rightarrow> 'a list \<Rightarrow> 'e + 'b list" where
  "map_throw f i [] = Inr []"
| "map_throw f i (x # xs) = sbind (f i x) (\<lambda>y. sbind (map_throw f (Suc i) xs) (\<lambda>ys. Inr (y # ys)))"

subsection \<open>Lemmas\<close>

lemma map_throw_length:
  "map_throw f i xs = Inr ys \<Longrightarrow> length ys = length xs"
  by (induction f i xs arbitrary: ys rule: map_throw.induct) (auto simp: sbind_Inr_iff)

lemma map_throw_nth:
  "map_throw f i xs = Inr ys \<Longrightarrow> k < length xs \<Longrightarrow> f (i + k) (xs ! k) = Inr (ys ! k)"
proof (induction xs arbitrary: i ys k)
  case Nil
  then show ?case by simp
next
  case (Cons x xs)
  then obtain y ys' where y: "f i x = Inr y" "map_throw f (Suc i) xs = Inr ys'" "ys = y # ys'"
    by (auto simp: sbind_Inr_iff)
  show ?case
  proof (cases k)
    case 0
    with y show ?thesis by simp
  next
    case (Suc k')
    with Cons.prems(2) y Cons.IH [OF y(2), of k'] show ?thesis by simp
  qed
qed

lemma map_throw_isl:
  "x \<in> set xs \<Longrightarrow> (\<And>j. isl (f j x)) \<Longrightarrow> isl (map_throw f i xs)"
proof (induction xs arbitrary: i)
  case Nil
  then show ?case by simp
next
  case (Cons y xs)
  show ?case
  proof (cases "x = y")
    case True
    then have "isl (f i y)" using Cons.prems(2) by simp
    then show ?thesis by (cases "f i y") simp_all
  next
    case False
    then have "isl (map_throw f (Suc i) xs)" using Cons by simp
    then show ?thesis by (cases "f i y"; cases "map_throw f (Suc i) xs") simp_all
  qed
qed

end
