(* ===== verification/CatalogView.thy ===== *)
theory CatalogView
  imports Catalog ReactView
begin

text \<open>
  What the catalogue page \<open>src/src/pages/Courses.jsx\<close> shows (lines 100--325):
  the spinner on a first load, the filter controls with the category menu, the
  error banner, the course cards, the pagination and the empty-result message,
  as a function of the page state \<open>catalog\<close> of \<open>Catalog\<close>, or the exception the
  render throws.  Also the page's settling: when the network answers the
  requests in flight one by one, oldest first, the page reaches a state with none
  in flight.
\<close>

subsection \<open>Rendering\<close>

text \<open>\<open>getDifficultyColor\<close> (lines 100--111): a \<open>switch\<close>, so strict equality.\<close>

definition getDifficultyColor_courses :: "jsval \<Rightarrow> js_string" where
  "getDifficultyColor_courses d =
     (if d = JStr ''Beginner'' then ''success''
      else if d = JStr ''Intermediate'' then ''warning''
      else if d = JStr ''Advanced'' then ''error'' else ''default'')"

record catalog_card =
  kc_key :: jsval
  kc_image :: jsval
  kc_category :: js_string
  kc_difficulty :: js_string
  kc_difficulty_color :: js_string
  kc_title :: js_string
  kc_description :: js_string
  kc_instructor :: js_string
  kc_duration :: js_string
  kc_price :: js_string
  kc_enrolled :: js_string
  kc_link :: js_string

text \<open>One course card (lines 202--301).\<close>

definition catalog_card_of :: "jsval \<Rightarrow> js_error + catalog_card" where
  "catalog_card_of c =
     sbind (get_prop c ''id'') (\<lambda>i. sbind (get_prop c ''thumbnail'') (\<lambda>th.
     sbind (get_prop c ''title'') (\<lambda>ti. sbind (get_prop c ''category'') (\<lambda>ca.
     sbind (get_prop c ''difficulty'') (\<lambda>di. sbind (get_prop c ''description'') (\<lambda>de.
     sbind (get_prop c ''instructor'') (\<lambda>ins. sbind (get_prop c ''duration'') (\<lambda>du.
     sbind (get_prop c ''price'') (\<lambda>pr. sbind (get_prop c ''enrolledStudents'') (\<lambda>en.
     sbind (react_texts [ca, di, ti, de, ins, du, pr, js_or en (JNumber (Num 0))]) (\<lambda>ts.
       Inr \<lparr>kc_key = i, kc_image = js_or th (JStr ''/static/java.webp''),
            kc_category = ts ! 0, kc_difficulty = ts ! 1,
            kc_difficulty_color = getDifficultyColor_courses di, kc_title = ts ! 2,
            kc_description = ts ! 3, kc_instructor = ts ! 4, kc_duration = ts ! 5 @ '' hours'',
            kc_price = ''$'' @ ts ! 6, kc_enrolled = ts ! 7,
            kc_link = ''/course/'' @ js_to_string i\<rparr>)))))))))))"

text \<open>The filter controls (lines 142--192): the three values and the category
  menu, \<open>All Categories\<close> first.\<close>

record filter_controls =
  fc_search :: js_string
  fc_category :: js_string
  fc_difficulty :: js_string
  fc_category_items :: "js_string list"

definition filter_controls_of :: "catalog \<Rightarrow> js_error + filter_controls" where
  "filter_controls_of s =
     (case cat_categories s of
        JArr cs \<Rightarrow>
          sbind (react_texts cs) (\<lambda>items.
            Inr \<lparr>fc_search = fl_search (cat_filters s), fc_category = fl_category (cat_filters s),
                 fc_difficulty = fl_difficulty (cat_filters s), fc_category_items = ''All Categories'' # items\<rparr>)
      | _ \<Rightarrow> Inl TypeError)"

datatype catalog_view =
    CatSpinner
  | CatPage filter_controls "js_string option" "catalog_card list" "(jsval \<times> nat) option" bool

text \<open>The render: the spinner while loading with no course yet (lines 113--121),
  else the controls, the banner (lines 194--198), the cards, the pagination when
  \<open>totalPages > 1\<close> (lines 305--315) and the empty message when not loading
  with no course (lines 317--323).\<close>

definition catalog_view_of :: "catalog \<Rightarrow> js_error + catalog_view" where
  "catalog_view_of s =
     sbind (length_of (cat_courses s)) (\<lambda>l.
       if cat_loading s \<and> l = JNumber (Num 0) then Inr CatSpinner
       else
         sbind (filter_controls_of s) (\<lambda>fc.
         sbind (case cat_courses s of
                  JArr xs \<Rightarrow> map_throw (\<lambda>_. catalog_card_of) 0 xs
                | _ \<Rightarrow> Inl TypeError) (\<lambda>cards.
           Inr (CatPage fc (if cat_error s \<noteq> [] then Some (cat_error s) else None) cards
                  (if js_gt (cat_totalPages s) (Num 1)
                   then Some (cat_totalPages s, fl_page (cat_filters s)) else None)
                  (\<not> cat_loading s \<and> l = JNumber (Num 0))))))"

subsection \<open>Settling\<close>

text \<open>The network answers the oldest request in flight with \<open>r n\<close> for request
  \<open>n\<close>, until none is in flight.\<close>

function catalog_settle :: "(nat \<Rightarrow> response) \<Rightarrow> catalog \<Rightarrow> catalog" where
  "catalog_settle r s =
     (if cat_inflight s = [] then s
      else (let n = fst (last (cat_inflight s)) in
            catalog_settle r (catalog_step s (CoursesArrive n (r n)))))"
  by pat_completeness auto
termination
proof (relation "measure (\<lambda>(r, s). length (cat_inflight s))")
  fix r :: "nat \<Rightarrow> response" and s :: catalog and n
  assume ne: "cat_inflight s \<noteq> []" and n: "n = fst (last (cat_inflight s))"
  have mem: "n \<in> set (map fst (cat_inflight s))" using ne n by simp
  then have "length (drop_request n (cat_inflight s)) < length (cat_inflight s)"
    by (auto simp: drop_request_def intro!: length_filter_less)
  with mem show "((r, catalog_step s (CoursesArrive n (r n))), (r, s))
                   \<in> measure (\<lambda>(r, s). length (cat_inflight s))"
    by simp
qed simp

subsection \<open>Lemmas\<close>

lemma react_texts_strs [simp]: "react_texts (map JStr cs) = Inr cs"
  by (induction cs) (simp_all add: react_texts_def)

lemma arrival_clears_inflight_entry:
  assumes "cat_inflight s \<noteq> []" "n = fst (last (cat_inflight s))"
  shows "\<not> cat_loading (catalog_step s (CoursesArrive n x))"
  using assms by simp

lemma catalog_settle_simps:
  "cat_inflight s = [] \<Longrightarrow> catalog_settle r s = s"
  "cat_inflight s \<noteq> [] \<Longrightarrow>
   catalog_settle r s =
     catalog_settle r (catalog_step s (CoursesArrive (fst (last (cat_inflight s)))
                                         (r (fst (last (cat_inflight s))))))"
  by (simp_all add: Let_def)

declare catalog_settle.simps [simp del]

subsection \<open>Properties of the catalogue view\<close>

text \<open>
  C39: the catalogue settles: when the network answers the requests in flight one
  by one, oldest first, with any outcomes, the page reaches a state with no
  request in flight, and, if there was one, with \<open>loading\<close> cleared.  The measure
  is the number of requests in flight, which every answer lowers.
\<close>

theorem catalog_settles:
  "cat_inflight (catalog_settle r s) = [] \<and>
   (cat_inflight s \<noteq> [] \<longrightarrow> \<not> cat_loading (catalog_settle r s))"
proof (induction r s rule: catalog_settle.induct)
  case (1 r s)
  show ?case
  proof (cases "cat_inflight s = []")
    case True
    then show ?thesis by (simp add: catalog_settle_simps)
  next
    case False
    let ?s' = "catalog_step s (CoursesArrive (fst (last (cat_inflight s))) (r (fst (last (cat_inflight s)))))"
    have IH: "cat_inflight (catalog_settle r ?s') = [] \<and>
              (cat_inflight ?s' \<noteq> [] \<longrightarrow> \<not> cat_loading (catalog_settle r ?s'))"
      using "1.IH" False by (simp add: Let_def)
    have "\<not> cat_loading ?s'" using arrival_clears_inflight_entry [OF False refl] .
    then have "\<not> cat_loading (catalog_settle r ?s')"
      using IH by (cases "cat_inflight ?s' = []") (simp_all add: catalog_settle_simps)
    with IH False show ?thesis by (simp add: catalog_settle_simps(2))
  qed
qed

theorem catalog_settles_witness:
  "cat_inflight (catalog_settle (\<lambda>_. Inl NetworkError) (catalog_step catalog_init Mount)) = [] \<and>
   \<not> cat_loading (catalog_settle (\<lambda>_. Inl NetworkError) (catalog_step catalog_init Mount))"
  using catalog_settles [of "\<lambda>_. Inl NetworkError" "catalog_step catalog_init Mount"]
  by (simp add: catalog_init_def)

text \<open>
  C40: an object reply without \<open>content\<close> (which the normalisation accepts, C9)
  makes the catalogue render throw: the object becomes \<open>courses\<close>, its
  \<open>length\<close> is undefined, so neither the spinner nor the empty message is chosen,
  and \<open>courses.map\<close> is not a function.
\<close>

theorem envelope_without_content_crashes:
  assumes "cat_categories s = JArr (map JStr cs)"
    "''content'' \<notin> fst ` set kvs" "''length'' \<notin> fst ` set kvs"
  shows "catalog_view_of (fetchCourses_done (Inr (JObj kvs)) s) = Inl TypeError"
proof -
  obtain tp where tp: "get_prop (JObj kvs) ''totalPages'' = Inr tp" by simp
  have c: "get_prop (JObj kvs) ''content'' = Inr JUndef"
    using assms(2) by (rule get_prop_obj_key)
  have "normalize_response (JObj kvs) = Inr (JObj kvs, js_or tp (JNumber (Num 1)))"
    using normalize_response_props [OF c tp] by (simp add: js_or_def)
  then have "cat_courses (fetchCourses_done (Inr (JObj kvs)) s) = JObj kvs"
    by (simp add: fetchCourses_done_def courses_result_def)
  with assms show ?thesis
    by (simp add: catalog_view_of_def filter_controls_of_def)
qed

theorem envelope_without_content_crashes_witness:
  "catalog_view_of (fetchCourses_done (Inr (JObj [(''items'', JArr [])])) catalog_init) = Inl TypeError"
  using envelope_without_content_crashes [of catalog_init "[]" "[(''items'', JArr [])]"]
  by (simp add: catalog_init_def)

end
