(* ===== verification/FormBinding.thy ===== *)
theory FormBinding
  imports JsValue
begin

text \<open>
  The form binding between a course as the backend sends it and the editable
  form state, in both forms of the repository.
  \<^item> \<open>src/src/pages/AdminCourses.jsx\<close>: the dialog's \<open>formData\<close> (lines 43--54)
    holds every field as text; \<open>handleOpenDialog(course)\<close> (lines 72--103) fills it
    from a course (numbers with \<open>toString()\<close>, lists joined with newlines) and
    \<open>handleSubmit\<close> (lines 112--118) builds the request body back (\<open>parseInt\<close>,
    \<open>parseFloat\<close>, \<open>split('\n').filter(Boolean)\<close>).
  \<^item> \<open>src/src/pages/EditCourseForm.jsx\<close>: \<open>courseData\<close> is the fetched course object
    itself with the two list fields joined (lines 33--37); inputs overwrite a key
    with its text (lines 45--47); the submit body spreads the object and parses the
    same four fields, dropping whitespace-only lines (lines 52--58).
  The admin page's course is a typed record; the edit form works on the JSON
  object, so it is modelled over \<open>jsval\<close>, and \<open>course_json\<close> gives the JSON of a
  typed course as the specification's data model describes it.
\<close>

record course =
  course_id :: nat
  title :: js_string
  description :: js_string
  instructor :: js_string
  category :: js_string
  difficulty :: js_string
  duration :: int
  price :: rat
  thumbnail :: "js_string option"
  curriculum :: "js_string list option"
  requirements :: "js_string list option"
  active :: bool
  enrolledStudents :: "nat option"

record draft =
  fd_title :: js_string
  fd_description :: js_string
  fd_instructor :: js_string
  fd_category :: js_string
  fd_difficulty :: js_string
  fd_duration :: js_string
  fd_price :: js_string
  fd_thumbnail :: js_string
  fd_curriculum :: js_string
  fd_requirements :: js_string

text \<open>The inputs of both forms, by their \<open>name\<close> attribute.\<close>

datatype form_field =
    InTitle | InDescription | InInstructor | InCategory | InDifficulty
  | InDuration | InPrice | InThumbnail | InCurriculum | InRequirements

fun field_name :: "form_field \<Rightarrow> js_string" where
  "field_name InTitle = ''title''"
| "field_name InDescription = ''description''"
| "field_name InInstructor = ''instructor''"
| "field_name InCategory = ''category''"
| "field_name InDifficulty = ''difficulty''"
| "field_name InDuration = ''duration''"
| "field_name InPrice = ''price''"
| "field_name InThumbnail = ''thumbnail''"
| "field_name InCurriculum = ''curriculum''"
| "field_name InRequirements = ''requirements''"

subsection \<open>AdminCourses.jsx\<close>

definition empty_draft :: draft where
  "empty_draft =
     \<lparr>fd_title = [], fd_description = [], fd_instructor = [], fd_category = [],
      fd_difficulty = ''Beginner'', fd_duration = [], fd_price = [], fd_thumbnail = [],
      fd_curriculum = [], fd_requirements = []\<rparr>"

text \<open>\<open>xs?.join('\n') || ''\<close> on a list field that may be absent.\<close>

definition list_field :: "js_string list option \<Rightarrow> js_string" where
  "list_field xs = (case xs of None \<Rightarrow> [] | Some l \<Rightarrow> js_join CHR ''\<newline>'' l)"

definition course_to_draft :: "course \<Rightarrow> draft" where
  "course_to_draft c =
     \<lparr>fd_title = title c, fd_description = description c, fd_instructor = instructor c,
      fd_category = category c, fd_difficulty = difficulty c,
      fd_duration = num_str (of_int (duration c)), fd_price = num_str (price c),
      fd_thumbnail = (case thumbnail c of None \<Rightarrow> [] | Some t \<Rightarrow> t),
      fd_curriculum = list_field (curriculum c), fd_requirements = list_field (requirements c)\<rparr>"

text \<open>\<open>setFormData({...formData, f: e.target.value})\<close> of each input.\<close>

fun set_draft :: "form_field \<Rightarrow> js_string \<Rightarrow> draft \<Rightarrow> draft" where
  "set_draft InTitle v d = d\<lparr>fd_title := v\<rparr>"
| "set_draft InDescription v d = d\<lparr>fd_description := v\<rparr>"
| "set_draft InInstructor v d = d\<lparr>fd_instructor := v\<rparr>"
| "set_draft InCategory v d = d\<lparr>fd_category := v\<rparr>"
| "set_draft InDifficulty v d = d\<lparr>fd_difficulty := v\<rparr>"
| "set_draft InDuration v d = d\<lparr>fd_duration := v\<rparr>"
| "set_draft InPrice v d = d\<lparr>fd_price := v\<rparr>"
| "set_draft InThumbnail v d = d\<lparr>fd_thumbnail := v\<rparr>"
| "set_draft InCurriculum v d = d\<lparr>fd_curriculum := v\<rparr>"
| "set_draft InRequirements v d = d\<lparr>fd_requirements := v\<rparr>"

text \<open>\<open>s.split('\n').filter(Boolean)\<close>: empty lines are dropped, blank ones kept.\<close>

definition lines_nonempty :: "js_string \<Rightarrow> js_string list" where
  "lines_nonempty s = filter (\<lambda>l. l \<noteq> []) (js_split CHR ''\<newline>'' s)"

record payload =
  pl_title :: js_string
  pl_description :: js_string
  pl_instructor :: js_string
  pl_category :: js_string
  pl_difficulty :: js_string
  pl_duration :: jsnum
  pl_price :: jsnum
  pl_thumbnail :: js_string
  pl_curriculum :: "js_string list"
  pl_requirements :: "js_string list"

definition admin_course_data :: "draft \<Rightarrow> payload" where
  "admin_course_data d =
     \<lparr>pl_title = fd_title d, pl_description = fd_description d,
      pl_instructor = fd_instructor d, pl_category = fd_category d,
      pl_difficulty = fd_difficulty d,
      pl_duration = parseInt (fd_duration d), pl_price = parseFloat (fd_price d),
      pl_thumbnail = fd_thumbnail d,
      pl_curriculum = lines_nonempty (fd_curriculum d),
      pl_requirements = lines_nonempty (fd_requirements d)\<rparr>"

subsection \<open>EditCourseForm.jsx\<close>

text \<open>The JSON object of a course (specification, section 3); absent optional
  fields are \<open>null\<close>.\<close>

definition course_json :: "course \<Rightarrow> jsval" where
  "course_json c =
     JObj [(''id'', JNumber (Num (of_nat (course_id c)))),
           (''title'', JStr (title c)), (''description'', JStr (description c)),
           (''instructor'', JStr (instructor c)), (''category'', JStr (category c)),
           (''difficulty'', JStr (difficulty c)),
           (''duration'', JNumber (Num (of_int (duration c)))),
           (''price'', JNumber (Num (price c))),
           (''thumbnail'', (case thumbnail c of None \<Rightarrow> JNull | Some t \<Rightarrow> JStr t)),
           (''curriculum'', (case curriculum c of None \<Rightarrow> JNull | Some l \<Rightarrow> JArr (map JStr l))),
           (''requirements'', (case requirements c of None \<Rightarrow> JNull | Some l \<Rightarrow> JArr (map JStr l))),
           (''active'', JBool (active c)),
           (''enrolledStudents'',
              (case enrolledStudents c of None \<Rightarrow> JNull | Some n \<Rightarrow> JNumber (Num (of_nat n))))]"

definition edit_initial :: jsval where
  "edit_initial =
     JObj [(''title'', JStr []), (''description'', JStr []), (''instructor'', JStr []),
           (''category'', JStr []), (''difficulty'', JStr ''Beginner''), (''duration'', JStr []),
           (''price'', JStr []), (''thumbnail'', JStr []), (''curriculum'', JStr []),
           (''requirements'', JStr [])]"

text \<open>The own enumerable properties an object spread \<open>{...v}\<close> copies.\<close>

fun js_spread :: "jsval \<Rightarrow> (js_string \<times> jsval) list" where
  "js_spread (JObj kvs) = kvs"
| "js_spread (JArr xs) = zip (map nat_str [0..<length xs]) xs"
| "js_spread (JStr s) = zip (map nat_str [0..<length s]) (map (\<lambda>c. JStr [c]) s)"
| "js_spread _ = []"

text \<open>\<open>v?.join('\n') || ''\<close> on a property value: \<open>join\<close> is a method of arrays
  only, and it prints \<open>null\<close> and \<open>undefined\<close> elements as empty strings.\<close>

definition join_or_empty :: "jsval \<Rightarrow> js_error + jsval" where
  "join_or_empty v =
     (case v of
        JUndef \<Rightarrow> Inr (JStr [])
      | JNull \<Rightarrow> Inr (JStr [])
      | JArr xs \<Rightarrow>
          Inr (js_or (JStr (js_join CHR ''\<newline>''
                 (map (\<lambda>x. if x = JUndef \<or> x = JNull then [] else js_to_string x) xs))) (JStr []))
      | _ \<Rightarrow> Inl TypeError)"

text \<open>\<open>fetchCourseData\<close> after its \<open>await\<close> (lines 33--37): the new
  \<open>courseData\<close>, or the error its \<open>catch\<close> logs.\<close>

definition edit_loaded :: "jsval \<Rightarrow> js_error + jsval" where
  "edit_loaded d =
     (case get_prop d ''curriculum'' of
        Inl e \<Rightarrow> Inl e
      | Inr cv \<Rightarrow>
          (case join_or_empty cv of
             Inl e \<Rightarrow> Inl e
           | Inr c \<Rightarrow>
               (case get_prop d ''requirements'' of
                  Inl e \<Rightarrow> Inl e
                | Inr rv \<Rightarrow>
                    (case join_or_empty rv of
                       Inl e \<Rightarrow> Inl e
                     | Inr r \<Rightarrow>
                         Inr (JObj (obj_set (obj_set (js_spread d) ''curriculum'' c)
                                      ''requirements'' r))))))"

definition handleInputChange :: "js_string \<Rightarrow> js_string \<Rightarrow> jsval \<Rightarrow> jsval" where
  "handleInputChange name value cd = JObj (obj_set (js_spread cd) name (JStr value))"

text \<open>\<open>s.split('\n').filter(item => item.trim())\<close>: whitespace-only lines are
  dropped, the kept lines are not trimmed.\<close>

definition lines_nonblank :: "js_string \<Rightarrow> js_string list" where
  "lines_nonblank s = filter (\<lambda>l. js_trim l \<noteq> []) (js_split CHR ''\<newline>'' s)"

text \<open>\<open>courseData.f.split(...)\<close>: \<open>split\<close> is a method of strings only.\<close>

definition split_prop :: "jsval \<Rightarrow> js_error + jsval" where
  "split_prop v = (case v of JStr s \<Rightarrow> Inr (JArr (map JStr (lines_nonblank s))) | _ \<Rightarrow> Inl TypeError)"

text \<open>The body of the \<open>PUT\<close> that \<open>handleSubmit\<close> sends (lines 52--58).\<close>

definition edit_payload :: "jsval \<Rightarrow> js_error + jsval" where
  "edit_payload cd =
     (case (get_prop cd ''duration'', get_prop cd ''price'', get_prop cd ''curriculum'',
            get_prop cd ''requirements'') of
        (Inr du, Inr pr, Inr cu, Inr rq) \<Rightarrow>
          (case (split_prop cu, split_prop rq) of
             (Inr cl, Inr rl) \<Rightarrow>
               Inr (JObj (obj_set (obj_set (obj_set (obj_set (js_spread cd)
                      ''duration'' (JNumber (parseInt (js_to_string du))))
                      ''price'' (JNumber (parseFloat (js_to_string pr))))
                      ''curriculum'' cl) ''requirements'' rl))
           | _ \<Rightarrow> Inl TypeError)
      | _ \<Rightarrow> Inl TypeError)"

text \<open>The form's inputs (lines 78--181): each shows \<open>courseData[name]\<close> as its
  value, in the order of the render; reading a property of a \<open>null\<close>
  \<open>courseData\<close> throws.\<close>

definition edit_form_view :: "jsval \<Rightarrow> js_error + (js_string \<times> jsval) list" where
  "edit_form_view cd =
     (if cd = JUndef \<or> cd = JNull then Inl TypeError
      else Inr (map (\<lambda>f. (field_name f, projr (get_prop cd (field_name f))))
                  [InTitle, InDescription, InInstructor, InCategory, InDifficulty, InDuration,
                   InPrice, InThumbnail, InCurriculum, InRequirements]))"

subsection \<open>Which lists survive the text round trip\<close>

text \<open>A list survives \<open>join('\n')\<close> then \<open>split('\n').filter(Boolean)\<close> when no
  entry is empty or holds a newline; it survives the edit form's
  \<open>filter(item => item.trim())\<close> when no entry is blank or holds a newline.\<close>

definition lines_ok :: "js_string list \<Rightarrow> bool" where
  "lines_ok xs \<longleftrightarrow> (\<forall>l\<in>set xs. l \<noteq> [] \<and> CHR ''\<newline>'' \<notin> set l)"

definition lines_ok_blank :: "js_string list \<Rightarrow> bool" where
  "lines_ok_blank xs \<longleftrightarrow> (\<forall>l\<in>set xs. js_trim l \<noteq> [] \<and> CHR ''\<newline>'' \<notin> set l)"

definition opt_list :: "js_string list option \<Rightarrow> js_string list" where
  "opt_list xo = (case xo of None \<Rightarrow> [] | Some l \<Rightarrow> l)"

text \<open>The write payload of a course (specification, section 6): what a form
  that reproduces the course sends.\<close>

definition write_payload :: "course \<Rightarrow> payload" where
  "write_payload c =
     \<lparr>pl_title = title c, pl_description = description c, pl_instructor = instructor c,
      pl_category = category c, pl_difficulty = difficulty c,
      pl_duration = Num (of_int (duration c)), pl_price = Num (price c),
      pl_thumbnail = (case thumbnail c of None \<Rightarrow> [] | Some t \<Rightarrow> t),
      pl_curriculum = opt_list (curriculum c), pl_requirements = opt_list (requirements c)\<rparr>"

text \<open>The edit form sends absent lists back as empty arrays.\<close>

definition norm_lists :: "course \<Rightarrow> course" where
  "norm_lists c = c\<lparr>curriculum := Some (opt_list (curriculum c)),
                     requirements := Some (opt_list (requirements c))\<rparr>"

text \<open>A sample course of the specification's data model.\<close>

definition sample_course :: course where
  "sample_course =
     \<lparr>course_id = 1, title = ''Java'', description = ''Basics'', instructor = ''Ann'',
      category = ''Dev'', difficulty = ''Beginner'', duration = 40, price = 4999 / 100,
      thumbnail = None, curriculum = Some [''Intro'', ''Basics''], requirements = None,
      active = True, enrolledStudents = None\<rparr>"

subsection \<open>Lemmas\<close>

lemma lines_filter_join:
  assumes "\<forall>l\<in>set xs. P l \<and> CHR ''\<newline>'' \<notin> set l" "\<not> P []"
  shows "filter P (js_split CHR ''\<newline>'' (js_join CHR ''\<newline>'' xs)) = xs"
proof (cases "xs = []")
  case True
  with assms(2) show ?thesis by simp
next
  case False
  then have "js_split CHR ''\<newline>'' (js_join CHR ''\<newline>'' xs) = xs"
    using assms(1) by (simp add: js_split_join)
  with assms(1) show ?thesis by (simp add: filter_id_conv)
qed

lemma lines_nonempty_join:
  "lines_ok xs \<Longrightarrow> lines_nonempty (js_join CHR ''\<newline>'' xs) = xs"
  unfolding lines_nonempty_def lines_ok_def by (rule lines_filter_join) simp_all

lemma lines_nonblank_join:
  "lines_ok_blank xs \<Longrightarrow> lines_nonblank (js_join CHR ''\<newline>'' xs) = xs"
  unfolding lines_nonblank_def lines_ok_blank_def by (rule lines_filter_join) (simp_all add: js_trim_def)

lemma lines_nonempty_list_field:
  "lines_ok (opt_list xo) \<Longrightarrow> lines_nonempty (list_field xo) = opt_list xo"
  by (cases xo) (simp_all add: list_field_def opt_list_def lines_nonempty_join,
                 simp add: lines_nonempty_def)

lemma parseInt_num_str_int:
  "\<bar>i\<bar> < 10 ^ 21 \<Longrightarrow> parseInt (num_str (of_int i)) = Num (of_int i)"
  by (simp add: num_str_of_int parseInt_int_str)

lemma js_or_str_empty [simp]: "js_or (JStr s) (JStr []) = JStr s"
  by (cases s) (simp_all add: js_or_def)

lemma join_or_empty_strs:
  "join_or_empty (JArr (map JStr xs)) = Inr (JStr (js_join CHR ''\<newline>'' xs))"
  by (simp add: join_or_empty_def comp_def)

lemma edit_loaded_course_json:
  "edit_loaded (course_json c) =
     Inr (JObj (obj_set (obj_set (js_spread (course_json c)) ''curriculum''
                  (JStr (js_join CHR ''\<newline>'' (opt_list (curriculum c)))))
                ''requirements'' (JStr (js_join CHR ''\<newline>'' (opt_list (requirements c))))))"
  by (cases "curriculum c"; cases "requirements c")
     (simp_all add: edit_loaded_def course_json_def join_or_empty_strs opt_list_def,
      simp_all add: join_or_empty_def comp_def)

lemma lines_nonblank_filter:
  "lines_nonblank s = filter (\<lambda>l. js_trim l \<noteq> []) (lines_nonempty s)"
  unfolding lines_nonblank_def lines_nonempty_def filter_filter
  by (rule filter_cong) (auto simp: js_trim_def)

lemma sample_course_decimal: "is_decimal (price sample_course)"
  by code_simp

lemma admin_roundtrip_core:
  assumes "lines_ok (opt_list (curriculum c))" "lines_ok (opt_list (requirements c))"
    "is_decimal (price c)" "\<bar>duration c\<bar> < 10 ^ 21"
  shows "admin_course_data (course_to_draft c) = write_payload c"
  using assms
  by (simp add: admin_course_data_def write_payload_def course_to_draft_def lines_nonempty_list_field
                parseInt_num_str_int parseFloat_num_str)

lemma edit_roundtrip_core:
  assumes "lines_ok_blank (opt_list (curriculum c))" "lines_ok_blank (opt_list (requirements c))"
    "is_decimal (price c)" "\<bar>duration c\<bar> < 10 ^ 21"
  shows "edit_payload (projr (edit_loaded (course_json c))) = Inr (course_json (norm_lists c))"
  using assms unfolding edit_loaded_course_json
  by (simp add: edit_payload_def course_json_def norm_lists_def
        obj_set_def split_prop_def lines_nonblank_join parseInt_num_str_int parseFloat_num_str)

subsection \<open>Round trips through the two course forms\<close>

text \<open>
  C11: opening the admin dialog on a course and saving it unchanged sends the
  course's own data back: the text fields unchanged, the duration and the price
  as the numbers they were, absent lists as empty arrays.  This holds when no list
  entry is empty or spans lines, the price has a finite decimal expansion and the
  duration is below \<open>10^21\<close> (above it \<open>toString\<close> prints an exponent, which
  \<open>parseInt\<close> stops at).
\<close>

theorem admin_form_roundtrip:
  assumes "lines_ok (opt_list (curriculum c))" "lines_ok (opt_list (requirements c))"
    "is_decimal (price c)" "\<bar>duration c\<bar> < 10 ^ 21"
  shows "admin_course_data (course_to_draft c) = write_payload c"
  using assms by (rule admin_roundtrip_core)

theorem admin_form_roundtrip_witness:
  "admin_course_data (course_to_draft sample_course) =
   \<lparr>pl_title = ''Java'', pl_description = ''Basics'', pl_instructor = ''Ann'',
    pl_category = ''Dev'', pl_difficulty = ''Beginner'', pl_duration = Num 40,
    pl_price = Num (4999 / 100), pl_thumbnail = [], pl_curriculum = [''Intro'', ''Basics''],
    pl_requirements = []\<rparr>"
  using admin_form_roundtrip [of sample_course] sample_course_decimal
  by (simp add: sample_course_def opt_list_def lines_ok_def write_payload_def)

text \<open>
  C12: in \<open>EditCourseForm\<close>, loading a course and submitting it unchanged puts
  the course itself back (absent lists as empty arrays), under the same
  conditions with blank entries in place of empty ones.
\<close>

theorem edit_form_roundtrip:
  assumes "lines_ok_blank (opt_list (curriculum c))" "lines_ok_blank (opt_list (requirements c))"
    "is_decimal (price c)" "\<bar>duration c\<bar> < 10 ^ 21"
  shows "\<exists>cd. edit_loaded (course_json c) = Inr cd \<and>
             edit_payload cd = Inr (course_json (norm_lists c))"
  using edit_roundtrip_core [OF assms] by (simp add: edit_loaded_course_json)

theorem edit_form_roundtrip_witness:
  "\<exists>cd. edit_loaded (course_json sample_course) = Inr cd \<and>
        edit_payload cd = Inr (course_json (norm_lists sample_course))"
  using edit_form_roundtrip [of sample_course] sample_course_decimal
  by (simp add: sample_course_def opt_list_def lines_ok_blank_def js_trim_def js_ws_def)

text \<open>
  C13: the two forms parse a list field differently.  The edit form's list is the
  admin dialog's list without its whitespace-only entries; so a curriculum line
  holding a single space is sent by the admin dialog and dropped by the edit form.
\<close>

theorem forms_disagree_on_blank_lines:
  "lines_nonblank s = filter (\<lambda>l. js_trim l \<noteq> []) (lines_nonempty s) \<and>
   lines_nonempty ''Intro\<newline> \<newline>Basics'' = [''Intro'', '' '', ''Basics''] \<and>
   lines_nonblank ''Intro\<newline> \<newline>Basics'' = [''Intro'', ''Basics'']"
  by (intro conjI lines_nonblank_filter)
     (simp_all add: lines_nonblank_def lines_nonempty_def js_trim_def js_ws_def)

end
