(* ===== verification/AdminCourses.thy ===== *)
theory AdminCourses
  imports FormBinding
begin

text \<open>
  The admin course table of \<open>src/src/pages/AdminCourses.jsx\<close>: page state
  (lines 38--54), \<open>fetchCourses\<close> (lines 60--70), the dialog handlers
  \<open>handleOpenDialog\<close> and \<open>handleCloseDialog\<close> (lines 72--108), \<open>handleSubmit\<close>
  (lines 110--131) and \<open>handleDelete\<close> (lines 133--142), each async handler split
  at its \<open>await\<close> into the request it sends and the continuation that runs on the
  reply.  The backend is modelled from the specification (section 6): a store of
  courses that applies each request when it receives it.  The network holds the
  replies not yet delivered and delivers them in any order, or loses them.
\<close>

subsection \<open>Page state and handlers\<close>

record admin_page =
  ad_courses :: "course list"
  ad_loading :: bool
  ad_error :: js_string
  ad_showDialog :: bool
  ad_editing :: "course option"
  ad_form :: draft

definition admin_init :: admin_page where
  "admin_init =
     \<lparr>ad_courses = [], ad_loading = True, ad_error = [], ad_showDialog = False,
      ad_editing = None, ad_form = empty_draft\<rparr>"

datatype admin_request =
    GetCourses
  | PutCourse nat payload
  | PostCourse payload
  | DeleteCourse nat

text \<open>\<open>fetchCourses\<close> after its \<open>await\<close>: the list on success, the banner on
  failure, and \<open>loading\<close> cleared in \<open>finally\<close>.\<close>

definition admin_fetch_done :: "fetch_error + course list \<Rightarrow> admin_page \<Rightarrow> admin_page" where
  "admin_fetch_done r s =
     (case r of
        Inr cs \<Rightarrow> s\<lparr>ad_courses := cs, ad_error := []\<rparr>
      | Inl _ \<Rightarrow> s\<lparr>ad_error := ''Failed to load courses.''\<rparr>)\<lparr>ad_loading := False\<rparr>"

definition handleOpenDialog :: "course option \<Rightarrow> admin_page \<Rightarrow> admin_page" where
  "handleOpenDialog co s =
     (case co of
        Some c \<Rightarrow> s\<lparr>ad_editing := Some c, ad_form := course_to_draft c\<rparr>
      | None \<Rightarrow> s\<lparr>ad_editing := None, ad_form := empty_draft\<rparr>)\<lparr>ad_showDialog := True\<rparr>"

definition handleCloseDialog :: "admin_page \<Rightarrow> admin_page" where
  "handleCloseDialog s = s\<lparr>ad_showDialog := False, ad_editing := None\<rparr>"

text \<open>The request \<open>handleSubmit\<close> sends: \<open>PUT\<close> on the edited course's id, or
  \<open>POST\<close>; no field is validated first.\<close>

definition handleSubmit :: "admin_page \<Rightarrow> admin_request" where
  "handleSubmit s =
     (let body = admin_course_data (ad_form s) in
      case ad_editing s of
        Some c \<Rightarrow> PutCourse (course_id c) body
      | None \<Rightarrow> PostCourse body)"

text \<open>Its continuation: on success close the dialog and refetch; on failure only
  \<open>console.error\<close>.\<close>

definition handleSubmit_done :: "fetch_error + unit \<Rightarrow> admin_page \<Rightarrow> admin_page \<times> admin_request list" where
  "handleSubmit_done r s =
     (case r of Inr _ \<Rightarrow> (handleCloseDialog s, [GetCourses]) | Inl _ \<Rightarrow> (s, []))"

definition handleDelete :: "nat \<Rightarrow> bool \<Rightarrow> admin_request list" where
  "handleDelete i confirmed = (if confirmed then [DeleteCourse i] else [])"

definition handleDelete_done :: "fetch_error + unit \<Rightarrow> admin_request list" where
  "handleDelete_done r = (case r of Inr _ \<Rightarrow> [GetCourses] | Inl _ \<Rightarrow> [])"

fun getDifficultyColor :: "js_string \<Rightarrow> js_string" where
  "getDifficultyColor d =
     (if d = ''Beginner'' then ''success''
      else if d = ''Intermediate'' then ''warning''
      else if d = ''Advanced'' then ''error''
      else ''default'')"

subsection \<open>Backend (specification, section 6)\<close>

record backend =
  be_store :: "course list"
  be_next :: nat

text \<open>A stored course from a write payload: \<open>duration\<close> must be an integer and
  \<open>price\<close> a number (\<open>JSON.stringify\<close> sends \<open>NaN\<close> as \<open>null\<close>, which is refused).\<close>

definition course_of_payload :: "course \<Rightarrow> payload \<Rightarrow> course option" where
  "course_of_payload base p =
     (case (pl_duration p, pl_price p) of
        (Num d, Num q) \<Rightarrow>
          if d = of_int (floor d) then
            Some (base\<lparr>title := pl_title p, description := pl_description p,
                   instructor := pl_instructor p, category := pl_category p,
                   difficulty := pl_difficulty p, duration := floor d, price := q,
                   thumbnail := (if pl_thumbnail p = [] then None else Some (pl_thumbnail p)),
                   curriculum := Some (pl_curriculum p),
                   requirements := Some (pl_requirements p)\<rparr>)
          else None
      | _ \<Rightarrow> None)"

definition new_course :: "nat \<Rightarrow> course" where
  "new_course i =
     \<lparr>course_id = i, title = [], description = [], instructor = [], category = [],
      difficulty = [], duration = 0, price = 0, thumbnail = None, curriculum = None,
      requirements = None, active = True, enrolledStudents = None\<rparr>"

definition ids :: "course list \<Rightarrow> nat set" where
  "ids cs = course_id ` set cs"

datatype admin_reply =
    RCourses "fetch_error + course list"
  | RSave "fetch_error + unit"
  | RDelete "fetch_error + unit"

definition find_course :: "nat \<Rightarrow> course list \<Rightarrow> course option" where
  "find_course i cs = find (\<lambda>c. course_id c = i) cs"

fun backend_apply :: "admin_request \<Rightarrow> backend \<Rightarrow> backend \<times> admin_reply" where
  "backend_apply GetCourses b = (b, RCourses (Inr (be_store b)))"
| "backend_apply (PutCourse i p) b =
     (case find_course i (be_store b) of
        None \<Rightarrow> (b, RSave (Inl (HttpStatus 404)))
      | Some c \<Rightarrow>
          (case course_of_payload c p of
             None \<Rightarrow> (b, RSave (Inl (HttpStatus 400)))
           | Some c' \<Rightarrow>
               (b\<lparr>be_store := map (\<lambda>x. if course_id x = i then c' else x) (be_store b)\<rparr>,
                RSave (Inr ()))))"
| "backend_apply (PostCourse p) b =
     (case course_of_payload (new_course (be_next b)) p of
        None \<Rightarrow> (b, RSave (Inl (HttpStatus 400)))
      | Some c \<Rightarrow>
          (b\<lparr>be_store := be_store b @ [c], be_next := Suc (be_next b)\<rparr>, RSave (Inr ())))"
| "backend_apply (DeleteCourse i) b =
     (if i \<in> ids (be_store b)
      then (b\<lparr>be_store := filter (\<lambda>x. course_id x \<noteq> i) (be_store b)\<rparr>, RDelete (Inr ()))
      else (b, RDelete (Inl (HttpStatus 404))))"

fun lose_reply :: "admin_reply \<Rightarrow> admin_reply" where
  "lose_reply (RCourses _) = RCourses (Inl NetworkError)"
| "lose_reply (RSave _) = RSave (Inl NetworkError)"
| "lose_reply (RDelete _) = RDelete (Inl NetworkError)"

subsection \<open>The page with its backend and network\<close>

text \<open>\<open>as_net\<close> holds the replies on their way back, oldest first; \<open>as_sent\<close>
  every request the page has sent.\<close>

record admin_sys =
  as_page :: admin_page
  as_backend :: backend
  as_net :: "admin_reply list"
  as_sent :: "admin_request list"

definition send :: "admin_request \<Rightarrow> admin_sys \<Rightarrow> admin_sys" where
  "send r s =
     (let (b', rep) = backend_apply r (as_backend s) in
      s\<lparr>as_backend := b', as_net := as_net s @ [rep], as_sent := as_sent s @ [r]\<rparr>)"

definition send_all :: "admin_request list \<Rightarrow> admin_sys \<Rightarrow> admin_sys" where
  "send_all rs s = fold send rs s"

text \<open>User actions and network events.  \<open>ADelete i b\<close> is a click on the delete
  button of course \<open>i\<close> with \<open>b\<close> the answer to \<open>window.confirm\<close>;
  \<open>ADeliver i\<close> delivers the \<open>i\<close>-th reply on the way, \<open>ALose i\<close> makes it fail.\<close>

datatype admin_event =
    AOpen "course option"
  | AClose
  | AInput form_field js_string
  | ASubmit
  | ADelete nat bool
  | ADeliver nat
  | ALose nat

text \<open>What the page renders decides which actions exist: a spinner while
  \<open>loading\<close> (lines 157--165), else the table with its buttons, and the dialog's
  inputs and buttons only while it is open (line 253).\<close>

fun admin_enabled :: "admin_event \<Rightarrow> admin_page \<Rightarrow> bool" where
  "admin_enabled (AOpen _) p = (\<not> ad_loading p)"
| "admin_enabled (ADelete _ _) p = (\<not> ad_loading p)"
| "admin_enabled AClose p = (\<not> ad_loading p \<and> ad_showDialog p)"
| "admin_enabled (AInput _ _) p = (\<not> ad_loading p \<and> ad_showDialog p)"
| "admin_enabled ASubmit p = (\<not> ad_loading p \<and> ad_showDialog p)"
| "admin_enabled _ p = True"

definition deliver :: "admin_reply \<Rightarrow> admin_sys \<Rightarrow> admin_sys" where
  "deliver rep s =
     (case rep of
        RCourses r \<Rightarrow> s\<lparr>as_page := admin_fetch_done r (as_page s)\<rparr>
      | RSave r \<Rightarrow>
          (let (p', rs) = handleSubmit_done r (as_page s) in send_all rs (s\<lparr>as_page := p'\<rparr>))
      | RDelete r \<Rightarrow> send_all (handleDelete_done r) s)"

definition admin_step :: "admin_event \<Rightarrow> admin_sys \<Rightarrow> admin_sys" where
  "admin_step e s =
     (if \<not> admin_enabled e (as_page s) then s
      else case e of
        AOpen co \<Rightarrow> s\<lparr>as_page := handleOpenDialog co (as_page s)\<rparr>
      | AClose \<Rightarrow> s\<lparr>as_page := handleCloseDialog (as_page s)\<rparr>
      | AInput f v \<Rightarrow> s\<lparr>as_page := (as_page s)\<lparr>ad_form := set_draft f v (ad_form (as_page s))\<rparr>\<rparr>
      | ASubmit \<Rightarrow> send (handleSubmit (as_page s)) s
      | ADelete i b \<Rightarrow> send_all (handleDelete i b) s
      | ADeliver i \<Rightarrow>
          if i < length (as_net s)
          then deliver (as_net s ! i) (s\<lparr>as_net := remove_nth i (as_net s)\<rparr>)
          else s
      | ALose i \<Rightarrow>
          if i < length (as_net s)
          then s\<lparr>as_net := (as_net s)[i := lose_reply (as_net s ! i)]\<rparr>
          else s)"

fun admin_run :: "admin_sys \<Rightarrow> admin_event list \<Rightarrow> admin_sys" where
  "admin_run s [] = s"
| "admin_run s (e # es) = admin_run (admin_step e s) es"

definition admin_sys_init :: "backend \<Rightarrow> admin_sys" where
  "admin_sys_init b = \<lparr>as_page = admin_init, as_backend = b, as_net = [], as_sent = []\<rparr>"

text \<open>A session: the mount effect sends the first \<open>fetchCourses\<close> (lines 56--58),
  then the events.\<close>

definition admin_after :: "backend \<Rightarrow> admin_event list \<Rightarrow> admin_sys" where
  "admin_after b es = admin_run (send GetCourses (admin_sys_init b)) es"

text \<open>The dialog's editing state: a closed dialog edits no course.\<close>

definition dialog_inv :: "admin_page \<Rightarrow> bool" where
  "dialog_inv p \<longleftrightarrow> ad_showDialog p \<or> ad_editing p = None"

text \<open>A backend holding course 1, and the steps of a session on it: the first
  fetch arrives, a new course is typed in and saved.\<close>

definition sample_backend :: backend where
  "sample_backend = \<lparr>be_store = [new_course 1\<lparr>title := ''Java''\<rparr>], be_next = 2\<rparr>"

definition create_course_events :: "admin_event list" where
  "create_course_events =
     [ADeliver 0, AOpen None, AInput InTitle ''Go'', AInput InDuration ''10'', AInput InPrice ''5'']"

text \<open>The page idle over that backend: the first fetch answered, nothing on the way.\<close>

definition idle_sys :: admin_sys where
  "idle_sys = \<lparr>as_page = admin_init\<lparr>ad_loading := False\<rparr>, as_backend = sample_backend,
               as_net = [], as_sent = [GetCourses]\<rparr>"

subsection \<open>Lemmas\<close>

lemma send_fields [simp]:
  "as_page (send r s) = as_page s"
  "as_sent (send r s) = as_sent s @ [r]"
  "as_net (send r s) = as_net s @ [snd (backend_apply r (as_backend s))]"
  "as_backend (send r s) = fst (backend_apply r (as_backend s))"
  by (simp_all add: send_def split_def Let_def)

lemma send_all_page [simp]: "as_page (send_all rs s) = as_page s"
  by (induction rs arbitrary: s) (simp_all add: send_all_def)

lemma send_all_sent [simp]: "as_sent (send_all rs s) = as_sent s @ rs"
  by (induction rs arbitrary: s) (simp_all add: send_all_def)

lemma send_all_simps [simp]:
  "send_all [] s = s" "send_all [r] s = send r s"
  by (simp_all add: send_all_def)

lemma nth_snoc_length [simp]: "(xs @ [x]) ! length xs = x"
  by simp

lemma ids_filter [simp]: "ids (filter (\<lambda>x. course_id x \<noteq> i) cs) = ids cs - {i}"
  by (auto simp: ids_def)

lemma dialog_inv_step: "dialog_inv (as_page s) \<Longrightarrow> dialog_inv (as_page (admin_step e s))"
  by (cases e)
     (auto simp: admin_step_def dialog_inv_def handleOpenDialog_def handleCloseDialog_def deliver_def
                 admin_fetch_done_def handleSubmit_done_def split: admin_reply.splits sum.splits)

lemma dialog_inv_run: "dialog_inv (as_page s) \<Longrightarrow> dialog_inv (as_page (admin_run s es))"
  by (induction es arbitrary: s) (simp_all add: dialog_inv_step)

lemma admin_step_deliver:
  "i < length (as_net s) \<Longrightarrow>
   admin_step (ADeliver i) s = deliver (as_net s ! i) (s\<lparr>as_net := remove_nth i (as_net s)\<rparr>)"
  by (simp add: admin_step_def)

lemma admin_step_delete:
  "\<not> ad_loading (as_page s) \<Longrightarrow> admin_step (ADelete i b) s = send_all (handleDelete i b) s"
  by (simp add: admin_step_def)

lemma admin_step_submit:
  "\<not> ad_loading (as_page s) \<Longrightarrow> ad_showDialog (as_page s) \<Longrightarrow>
   admin_step ASubmit s = send (handleSubmit (as_page s)) s"
  by (simp add: admin_step_def)

lemma admin_step_open:
  "\<not> ad_loading (as_page s) \<Longrightarrow>
   admin_step (AOpen co) s = s\<lparr>as_page := handleOpenDialog co (as_page s)\<rparr>"
  by (simp add: admin_step_def)

lemma parseInt_abc: "parseInt ''abc'' = NaN"
  by (simp add: parseInt_def trim_start_def js_ws_def split_sign_def split_radix_def digit_val_def)

subsection \<open>Page-level properties\<close>

text \<open>
  C14: a confirmed delete of a stored course, once its reply arrives, is followed
  by a refetch whose reply no longer lists the course (specification, section 8,
  property 6), whatever other replies are still on their way.
\<close>

theorem delete_then_refresh:
  assumes "\<not> ad_loading (as_page s)" "i \<in> ids (be_store (as_backend s))"
  shows "i \<notin> ids (ad_courses (as_page (admin_run s [ADelete i True, ADeliver (length (as_net s)),
                                                    ADeliver (length (as_net s))]))) \<and>
         ad_error (as_page (admin_run s [ADelete i True, ADeliver (length (as_net s)),
                                         ADeliver (length (as_net s))])) = []"
  using assms
  by (simp add: admin_step_delete admin_step_deliver handleDelete_def deliver_def
                handleDelete_done_def admin_fetch_done_def)

theorem delete_then_refresh_witness:
  "1 \<notin> ids (ad_courses (as_page (admin_run idle_sys [ADelete 1 True, ADeliver 0, ADeliver 0])))"
proof -
  have "\<not> ad_loading (as_page idle_sys)" "1 \<in> ids (be_store (as_backend idle_sys))"
    by (simp_all add: idle_sys_def sample_backend_def ids_def new_course_def)
  moreover have "length (as_net idle_sys) = 0" by (simp add: idle_sys_def)
  ultimately show ?thesis
    using delete_then_refresh [of idle_sys 1] by simp
qed

text \<open>
  C15: the admin table applies refetch replies in arrival order: the reply of a
  refetch sent before a delete, arriving after the delete's own refetch, puts the
  deleted course back on the page although the backend no longer holds it.
\<close>

theorem stale_refresh_resurrects:
  "let s = admin_after sample_backend
             (create_course_events @ [ASubmit, ADeliver 0, ADelete 1 True, ADeliver 1, ADeliver 1, ADeliver 0])
   in DeleteCourse 1 \<in> set (as_sent s) \<and> 1 \<notin> ids (be_store (as_backend s)) \<and>
      1 \<in> ids (ad_courses (as_page s))"
  by code_simp

text \<open>
  C16: a failed save keeps the dialog open with the user's input intact and sends
  nothing; it also leaves \<open>error\<close> unchanged, so the failure is not surfaced
  (the specification asks for a dialog-level error, section 7).
\<close>

theorem failed_submit_keeps_dialog:
  assumes "i < length (as_net s)" "as_net s ! i = RSave (Inl e)"
  shows "as_page (admin_step (ADeliver i) s) = as_page s \<and>
         as_sent (admin_step (ADeliver i) s) = as_sent s"
  using assms by (simp add: admin_step_deliver deliver_def handleSubmit_done_def)

theorem failed_submit_keeps_dialog_witness:
  "as_page (admin_step (ADeliver 0) (idle_sys\<lparr>as_net := [RSave (Inl NetworkError)]\<rparr>)) =
   as_page idle_sys"
  using failed_submit_keeps_dialog [of 0 "idle_sys\<lparr>as_net := [RSave (Inl NetworkError)]\<rparr>" NetworkError]
  by simp

text \<open>
  C17: \<open>handleSubmit\<close> validates nothing: with \<open>duration = "abc"\<close> it still sends
  the request, whose duration is \<open>NaN\<close> (the specification's property 4 asks
  for a validation error and no network call).
\<close>

theorem submit_sends_unparsed:
  assumes "\<not> ad_loading (as_page s)" "ad_showDialog (as_page s)"
    "fd_duration (ad_form (as_page s)) = ''abc''"
  shows "\<exists>p. as_sent (admin_step ASubmit s) =
               as_sent s @ [case ad_editing (as_page s) of
                              None \<Rightarrow> PostCourse p | Some c \<Rightarrow> PutCourse (course_id c) p] \<and>
             pl_duration p = NaN"
proof (intro exI conjI)
  show "as_sent (admin_step ASubmit s) =
          as_sent s @ [case ad_editing (as_page s) of None \<Rightarrow> PostCourse (admin_course_data (ad_form (as_page s)))
                       | Some c \<Rightarrow> PutCourse (course_id c) (admin_course_data (ad_form (as_page s)))]"
    using assms(1,2) by (simp add: admin_step_submit handleSubmit_def Let_def split: option.split)
  show "pl_duration (admin_course_data (ad_form (as_page s))) = NaN"
    using assms(3) by (simp add: admin_course_data_def parseInt_abc)
qed

theorem submit_sends_unparsed_witness:
  "\<exists>p. as_sent (admin_step ASubmit (idle_sys\<lparr>as_page := handleOpenDialog None (as_page idle_sys)
                                       \<lparr>ad_form := empty_draft\<lparr>fd_duration := ''abc''\<rparr>\<rparr>\<rparr>)) =
        [GetCourses, PostCourse p] \<and> pl_duration p = NaN"
  using submit_sends_unparsed [of "idle_sys\<lparr>as_page := handleOpenDialog None (as_page idle_sys)
                                       \<lparr>ad_form := empty_draft\<lparr>fd_duration := ''abc''\<rparr>\<rparr>\<rparr>"]
  by (simp add: idle_sys_def admin_init_def handleOpenDialog_def)

text \<open>
  C18: opening the dialog on a course and saving it unchanged sends a \<open>PUT\<close> of
  that course's id carrying the course's own data (the admin round trip C11 at the
  level of the page).
\<close>

theorem edit_dialog_sends_course:
  assumes "\<not> ad_loading (as_page s)"
    "lines_ok (opt_list (curriculum c))" "lines_ok (opt_list (requirements c))"
    "is_decimal (price c)" "\<bar>duration c\<bar> < 10 ^ 21"
  shows "as_sent (admin_run s [AOpen (Some c), ASubmit]) =
           as_sent s @ [PutCourse (course_id c) (write_payload c)]"
  using assms
  by (simp add: admin_step_open admin_step_submit handleOpenDialog_def handleSubmit_def
                admin_roundtrip_core)

theorem edit_dialog_sends_course_witness:
  "as_sent (admin_run idle_sys [AOpen (Some sample_course), ASubmit]) =
     [GetCourses, PutCourse 1 (write_payload sample_course)]"
  using edit_dialog_sends_course [of idle_sys sample_course] sample_course_decimal
  by (simp add: idle_sys_def admin_init_def sample_course_def opt_list_def lines_ok_def)

text \<open>
  C19: the save button stays enabled while a save is on its way: two clicks
  create the course twice.
\<close>

theorem double_submit_creates_twice:
  "let s = admin_after sample_backend (create_course_events @ [ASubmit, ASubmit])
   in map title (be_store (as_backend s)) = [''Java'', ''Go'', ''Go'']"
  by code_simp

text \<open>
  C20: in every session of the admin page, a closed dialog edits no course:
  \<open>editingCourse\<close> is \<open>null\<close> whenever \<open>showDialog\<close> is false, so the next
  \<open>handleSubmit\<close> can only come from a dialog opened afresh.
\<close>

theorem admin_dialog_closed_not_editing: "dialog_inv (as_page (admin_after b es))"
  unfolding admin_after_def
  by (rule dialog_inv_run) (simp add: admin_sys_init_def admin_init_def dialog_inv_def)

end
