(* ===== verification/Payments.thy ===== *)
theory Payments
  imports JsArith
begin

text \<open>
  The payment page \<open>src/src/pages/Payments.jsx\<close>: the form state (lines 16--18),
  \<open>handleChange\<close> (lines 20--22) and \<open>handlePayment\<close> (lines 34--90), which checks
  the form, loads the gateway script, asks the backend for an order, opens the
  gateway's checkout and, from the checkout's \<open>handler\<close> callback, asks the backend
  to verify the payment.  Each \<open>await\<close> splits \<open>handlePayment\<close>: the model keeps
  the suspended continuations as tasks, each with what its closure captured, and
  the environment resumes any of them in any order with any outcome.  The page
  with its tasks is a state machine, the inductive step relation \<open>pay_step\<close>.
\<close>

subsection \<open>Page state and handlers\<close>

record pay_form =
  pf_name :: js_string
  pf_email :: js_string
  pf_amount :: js_string

record pay_message =
  msg_type :: js_string
  msg_text :: js_string

record pay_page =
  pay_formData :: pay_form
  pay_loading :: bool
  pay_message :: pay_message

datatype pay_field = PName | PEmail | PAmount

definition no_message :: pay_message where
  "no_message = \<lparr>msg_type = [], msg_text = []\<rparr>"

definition error_message :: "js_string \<Rightarrow> pay_message" where
  "error_message t = \<lparr>msg_type = ''error'', msg_text = t\<rparr>"

definition pay_init :: pay_page where
  "pay_init =
     \<lparr>pay_formData = \<lparr>pf_name = [], pf_email = [], pf_amount = []\<rparr>,
      pay_loading = False, pay_message = no_message\<rparr>"

text \<open>\<open>setFormData(prev => ({...prev, [e.target.name]: e.target.value}))\<close>.\<close>

fun handleChange :: "pay_field \<Rightarrow> js_string \<Rightarrow> pay_page \<Rightarrow> pay_page" where
  "handleChange PName v p = p\<lparr>pay_formData := (pay_formData p)\<lparr>pf_name := v\<rparr>\<rparr>"
| "handleChange PEmail v p = p\<lparr>pay_formData := (pay_formData p)\<lparr>pf_email := v\<rparr>\<rparr>"
| "handleChange PAmount v p = p\<lparr>pay_formData := (pay_formData p)\<lparr>pf_amount := v\<rparr>\<rparr>"

text \<open>The options object passed to \<open>new window.Razorpay\<close> (lines 57--81), with the
  fields that depend on the order and the form.\<close>

record checkout =
  co_amount :: jsnum
  co_order_id :: jsval
  co_prefill_name :: js_string
  co_prefill_email :: js_string

text \<open>A suspended continuation of \<open>handlePayment\<close>, with the form its closure
  captured: waiting for the script (line 43), for the order (line 51), for the
  customer in the open checkout, or for the verification (line 66).\<close>

datatype pay_task =
    ScriptWait pay_form
  | OrderWait pay_form
  | CheckoutOpen checkout
  | VerifyWait

datatype pay_request =
    CreateOrder pay_form
  | PaymentCallback jsval jsval jsval

text \<open>\<open>handlePayment\<close> up to its first \<open>await\<close> (lines 35--43): the page and the
  task it leaves, none on the early return.\<close>

definition handlePayment :: "pay_page \<Rightarrow> pay_page \<times> pay_task option" where
  "handlePayment p =
     (let f = pay_formData p in
      if pf_name f = [] \<or> pf_email f = [] \<or> pf_amount f = []
      then (p\<lparr>pay_message := error_message ''Please fill all fields.''\<rparr>, None)
      else (p\<lparr>pay_loading := True, pay_message := no_message\<rparr>, Some (ScriptWait f)))"

text \<open>After the script has loaded or failed to (lines 44--54): the early return,
  or the order request and its wait.\<close>

definition script_done :: "bool \<Rightarrow> pay_form \<Rightarrow> pay_page \<Rightarrow> pay_page \<times> pay_task option \<times> pay_request list" where
  "script_done ok f p =
     (if \<not> ok
      then (p\<lparr>pay_message := error_message ''Razorpay SDK failed to load.'', pay_loading := False\<rparr>,
            None, [])
      else (p, Some (OrderWait f), [CreateOrder f]))"

text \<open>The checkout options from the order (\<open>order.amount * 100\<close>,
  \<open>order.razorpayOrderId\<close>); reading a property of a \<open>null\<close> order throws.\<close>

definition checkout_options :: "jsval \<Rightarrow> pay_form \<Rightarrow> js_error + checkout" where
  "checkout_options order f =
     (case get_prop order ''amount'' of
        Inl e \<Rightarrow> Inl e
      | Inr a \<Rightarrow>
          (case get_prop order ''razorpayOrderId'' of
             Inl e \<Rightarrow> Inl e
           | Inr oid \<Rightarrow>
               Inr \<lparr>co_amount = js_mul a (JNumber (Num 100)), co_order_id = oid,
                    co_prefill_name = pf_name f, co_prefill_email = pf_email f\<rparr>))"

text \<open>After the order reply (lines 55--89): the checkout opens, or the \<open>catch\<close>
  reports the failure; \<open>finally\<close> clears \<open>loading\<close> either way.\<close>

definition order_done :: "fetch_error + jsval \<Rightarrow> pay_form \<Rightarrow> pay_page \<Rightarrow> pay_page \<times> pay_task option" where
  "order_done r f p =
     (let fail = (p\<lparr>pay_message := error_message ''Payment initiation failed.''\<rparr>, None) in
      case r of
        Inl _ \<Rightarrow> fail
      | Inr order \<Rightarrow>
          (case checkout_options order f of
             Inl _ \<Rightarrow> fail
           | Inr co \<Rightarrow> (p, Some (CheckoutOpen co))))"

definition order_done_final :: "fetch_error + jsval \<Rightarrow> pay_form \<Rightarrow> pay_page \<Rightarrow> pay_page \<times> pay_task option" where
  "order_done_final r f p =
     (let (p', t) = order_done r f p in (p'\<lparr>pay_loading := False\<rparr>, t))"

text \<open>The checkout's \<open>handler(response)\<close> up to its \<open>await\<close> (lines 64--70): the
  verification request, or the \<open>catch\<close> when \<open>response\<close> has no properties.\<close>

definition handler_start :: "jsval \<Rightarrow> pay_page \<Rightarrow> pay_page \<times> pay_task option \<times> pay_request list" where
  "handler_start resp p =
     (case (get_prop resp ''razorpay_order_id'', get_prop resp ''razorpay_payment_id'',
            get_prop resp ''razorpay_signature'') of
        (Inr oid, Inr pid, Inr sig) \<Rightarrow> (p, Some VerifyWait, [PaymentCallback oid pid sig])
      | _ \<Rightarrow> (p\<lparr>pay_message := error_message ''Payment verification failed.''\<rparr>, None, []))"

text \<open>The handler after the verification reply (lines 71--74).\<close>

definition verify_done :: "fetch_error + jsval \<Rightarrow> pay_page \<Rightarrow> pay_page" where
  "verify_done r p =
     (case r of
        Inr _ \<Rightarrow> p\<lparr>pay_message := \<lparr>msg_type = ''success'', msg_text = ''Payment successful!''\<rparr>\<rparr>
      | Inl _ \<Rightarrow> p\<lparr>pay_message := error_message ''Payment verification failed.''\<rparr>)"

text \<open>The button is disabled while \<open>loading\<close> (line 147); the inputs never are.\<close>

definition pay_button_enabled :: "pay_page \<Rightarrow> bool" where
  "pay_button_enabled p \<longleftrightarrow> \<not> pay_loading p"

text \<open>The alert is shown when the message has a text (lines 109--113).\<close>

definition pay_alert :: "pay_page \<Rightarrow> pay_message option" where
  "pay_alert p = (if msg_text (pay_message p) \<noteq> [] then Some (pay_message p) else None)"

text \<open>What the page renders (lines 92--155): the alert, the three inputs with
  their values, and the button, disabled and showing a spinner in place of its
  label and icon while \<open>loading\<close>.\<close>

record pay_view =
  pv_alert :: "pay_message option"
  pv_name :: js_string
  pv_email :: js_string
  pv_amount :: js_string
  pv_button_enabled :: bool
  pv_button_label :: "js_string option"

definition pay_view_of :: "pay_page \<Rightarrow> pay_view" where
  "pay_view_of p =
     \<lparr>pv_alert = pay_alert p, pv_name = pf_name (pay_formData p),
      pv_email = pf_email (pay_formData p), pv_amount = pf_amount (pay_formData p),
      pv_button_enabled = pay_button_enabled p,
      pv_button_label = (if pay_loading p then None else Some ''Pay Now'')\<rparr>"

subsection \<open>The page with its suspended continuations\<close>

record pay_sys =
  ps_page :: pay_page
  ps_tasks :: "pay_task list"
  ps_sent :: "pay_request list"

definition pay_sys_init :: pay_sys where
  "pay_sys_init = \<lparr>ps_page = pay_init, ps_tasks = [], ps_sent = []\<rparr>"

text \<open>Resuming task \<open>i\<close>: its place in the list is taken by the task the
  continuation leaves, if any, at the end.\<close>

definition resume :: "nat \<Rightarrow> pay_page \<Rightarrow> pay_task option \<Rightarrow> pay_request list \<Rightarrow> pay_sys \<Rightarrow> pay_sys" where
  "resume i p t rs s =
     s\<lparr>ps_page := p, ps_tasks := remove_nth i (ps_tasks s) @ opt_to_list t,
       ps_sent := ps_sent s @ rs\<rparr>"

text \<open>One step: an input edit, a click on the enabled button, or the environment
  resuming a task with an outcome of its choice (the script loads or not, the
  order or verification reply, the customer paying in the open checkout or
  closing it, which \<open>handlePayment\<close> gives no callback for).\<close>

inductive pay_step :: "pay_sys \<Rightarrow> pay_sys \<Rightarrow> bool" where
  change: "pay_step s (s\<lparr>ps_page := handleChange fld v (ps_page s)\<rparr>)"
| click: "pay_button_enabled (ps_page s) \<Longrightarrow> handlePayment (ps_page s) = (p, t) \<Longrightarrow>
          pay_step s (s\<lparr>ps_page := p, ps_tasks := ps_tasks s @ opt_to_list t\<rparr>)"
| script: "i < length (ps_tasks s) \<Longrightarrow> ps_tasks s ! i = ScriptWait f \<Longrightarrow>
           script_done ok f (ps_page s) = (p, t, rs) \<Longrightarrow> pay_step s (resume i p t rs s)"
| order: "i < length (ps_tasks s) \<Longrightarrow> ps_tasks s ! i = OrderWait f \<Longrightarrow>
          order_done_final r f (ps_page s) = (p, t) \<Longrightarrow> pay_step s (resume i p t [] s)"
| pay: "i < length (ps_tasks s) \<Longrightarrow> ps_tasks s ! i = CheckoutOpen co \<Longrightarrow>
        handler_start resp (ps_page s) = (p, t, rs) \<Longrightarrow> pay_step s (resume i p t rs s)"
| dismiss: "i < length (ps_tasks s) \<Longrightarrow> ps_tasks s ! i = CheckoutOpen co \<Longrightarrow>
            pay_step s (resume i (ps_page s) None [] s)"
| verify: "i < length (ps_tasks s) \<Longrightarrow> ps_tasks s ! i = VerifyWait \<Longrightarrow>
           pay_step s (resume i (verify_done r (ps_page s)) None [] s)"

inductive_cases pay_step_cases: "pay_step s s'"

text \<open>The states a session reaches from the initial page.\<close>

inductive pay_reach :: "pay_sys \<Rightarrow> bool" where
  init: "pay_reach pay_sys_init"
| step: "pay_reach s \<Longrightarrow> pay_step s s' \<Longrightarrow> pay_reach s'"

text \<open>The continuations between the click and the opened checkout, during which
  the page shows its spinner.\<close>

fun initiating :: "pay_task \<Rightarrow> bool" where
  "initiating (ScriptWait _) = True"
| "initiating (OrderWait _) = True"
| "initiating _ = False"

definition initiations :: "pay_task list \<Rightarrow> nat" where
  "initiations ts = length (filter initiating ts)"

text \<open>The messages the page can show.\<close>

definition pay_messages :: "pay_message set" where
  "pay_messages =
     {no_message, error_message ''Please fill all fields.'',
      error_message ''Razorpay SDK failed to load.'', error_message ''Payment initiation failed.'',
      error_message ''Payment verification failed.'',
      \<lparr>msg_type = ''success'', msg_text = ''Payment successful!''\<rparr>}"

text \<open>The invariant of the payment page: \<open>loading\<close> is set exactly while one
  payment is being initiated, never two, and the message is one of the page's.\<close>

definition pay_inv :: "pay_sys \<Rightarrow> bool" where
  "pay_inv s \<longleftrightarrow>
     initiations (ps_tasks s) = (if pay_loading (ps_page s) then 1 else 0) \<and>
     pay_message (ps_page s) \<in> pay_messages"

subsection \<open>An executable step function\<close>






subsection \<open>Lemmas\<close>

lemma resume_fields [simp]:
  "ps_page (resume i p t rs s) = p"
  "ps_sent (resume i p t rs s) = ps_sent s @ rs"
  "ps_tasks (resume i p t rs s) = remove_nth i (ps_tasks s) @ opt_to_list t"
  by (simp_all add: resume_def)

lemma initiations_simps [simp]:
  "initiations [] = 0"
  "initiations (xs @ ys) = initiations xs + initiations ys"
  "initiations (x # xs) = (if initiating x then 1 else 0) + initiations xs"
  by (simp_all add: initiations_def)

lemma initiations_remove_nth [simp]:
  "i < length xs \<Longrightarrow>
   initiations (remove_nth i xs) = initiations xs - (if initiating (xs ! i) then 1 else 0)"
  unfolding initiations_def by (rule filter_remove_nth)

lemma initiations_pos:
  assumes "i < length xs" "initiating (xs ! i)"
  shows "0 < initiations xs"
proof -
  have "xs ! i \<in> set (filter initiating xs)" using assms by simp
  then show ?thesis unfolding initiations_def by (rule length_pos_if_in_set)
qed

lemma pay_messages_simps [simp]:
  "no_message \<in> pay_messages"
  "error_message ''Please fill all fields.'' \<in> pay_messages"
  "error_message ''Razorpay SDK failed to load.'' \<in> pay_messages"
  "error_message ''Payment initiation failed.'' \<in> pay_messages"
  "error_message ''Payment verification failed.'' \<in> pay_messages"
  "\<lparr>msg_type = ''success'', msg_text = ''Payment successful!''\<rparr> \<in> pay_messages"
  by (simp_all add: pay_messages_def)

lemma handlePayment_cases:
  "handlePayment p = (p', t) \<Longrightarrow>
   (t = None \<and> p' = p\<lparr>pay_message := error_message ''Please fill all fields.''\<rparr>) \<or>
   (\<exists>f. t = Some (ScriptWait f) \<and> p' = p\<lparr>pay_loading := True, pay_message := no_message\<rparr>)"
  by (auto simp: handlePayment_def Let_def split: if_splits)

lemma script_done_cases:
  "script_done ok f p = (p', t, rs) \<Longrightarrow>
   (t = None \<and> p' = p\<lparr>pay_message := error_message ''Razorpay SDK failed to load.'', pay_loading := False\<rparr>) \<or>
   (t = Some (OrderWait f) \<and> p' = p)"
  by (auto simp: script_done_def split: if_splits)

lemma order_done_final_cases:
  "order_done_final r f p = (p', t) \<Longrightarrow>
   (t = None \<and> p' = p\<lparr>pay_message := error_message ''Payment initiation failed.'', pay_loading := False\<rparr>) \<or>
   (\<exists>co. t = Some (CheckoutOpen co) \<and> p' = p\<lparr>pay_loading := False\<rparr>)"
  by (auto simp: order_done_final_def order_done_def Let_def
           split: sum.splits prod.splits)

lemma handler_start_cases:
  "handler_start resp p = (p', t, rs) \<Longrightarrow>
   (t = None \<and> p' = p\<lparr>pay_message := error_message ''Payment verification failed.''\<rparr>) \<or>
   (t = Some VerifyWait \<and> p' = p)"
  by (auto simp: handler_start_def split: sum.splits prod.splits)

lemma verify_done_cases:
  "verify_done r p = p\<lparr>pay_message := error_message ''Payment verification failed.''\<rparr> \<or>
   verify_done r p = p\<lparr>pay_message := \<lparr>msg_type = ''success'', msg_text = ''Payment successful!''\<rparr>\<rparr>"
  by (simp add: verify_done_def split: sum.splits)

lemma pay_inv_step:
  assumes "pay_step s s'" "pay_inv s"
  shows "pay_inv s'"
  using assms
proof (induction rule: pay_step.induct)
  case (change s fld v)
  then show ?case by (cases fld) (simp_all add: pay_inv_def)
next
  case (click s p t)
  then show ?case
    using handlePayment_cases [OF click(2)]
    by (auto simp: pay_inv_def pay_button_enabled_def)
next
  case (script i s f ok p t rs)
  then show ?case
    using script_done_cases [OF script(3)]
    using initiations_pos [OF script(1)] by (auto simp: pay_inv_def split: if_splits)
next
  case (order i s f r p t)
  then show ?case
    using order_done_final_cases [OF order(3)]
    using initiations_pos [OF order(1)] by (auto simp: pay_inv_def split: if_splits)
next
  case (pay i s co resp p t rs)
  then show ?case
    using handler_start_cases [OF pay(3)]
    by (auto simp: pay_inv_def )
next
  case (dismiss i s co)
  then show ?case by (simp add: pay_inv_def )
next
  case (verify i s r)
  then show ?case
    using verify_done_cases [of r "ps_page s"]
    by (auto simp: pay_inv_def )
qed

lemma pay_reach_inv: "pay_reach s \<Longrightarrow> pay_inv s"
proof (induction rule: pay_reach.induct)
  case init
  then show ?case by (simp add: pay_inv_def pay_sys_init_def pay_init_def)
next
  case (step s s')
  then show ?case using pay_inv_step by blast
qed



lemma initiations_pos_ex:
  assumes "0 < initiations xs"
  obtains i where "i < length xs" "initiating (xs ! i)"
proof -
  have "filter initiating xs \<noteq> []" using assms by (simp add: initiations_def)
  then obtain x where "x \<in> set xs" "initiating x" by (auto simp: filter_empty_conv)
  then show ?thesis using that by (metis in_set_conv_nth)
qed

subsection \<open>Properties of the payment page\<close>

text \<open>
  C21: in every reachable state at most one payment is being initiated, and the
  page disables its button and shows the spinner in place of the label exactly
  while one is.
\<close>

theorem pay_single_initiation:
  assumes "pay_reach s"
  shows "initiations (ps_tasks s) \<le> 1 \<and>
         (\<not> pv_button_enabled (pay_view_of (ps_page s)) \<longleftrightarrow> initiations (ps_tasks s) = 1) \<and>
         (pv_button_label (pay_view_of (ps_page s)) = None \<longleftrightarrow> initiations (ps_tasks s) = 1)"
  using pay_reach_inv [OF assms]
  by (simp add: pay_inv_def pay_view_of_def pay_button_enabled_def)

theorem pay_single_initiation_witness:
  "initiations (ps_tasks pay_sys_init) \<le> 1 \<and>
   (\<not> pv_button_enabled (pay_view_of (ps_page pay_sys_init)) \<longleftrightarrow> initiations (ps_tasks pay_sys_init) = 1) \<and>
   (pv_button_label (pay_view_of (ps_page pay_sys_init)) = None \<longleftrightarrow> initiations (ps_tasks pay_sys_init) = 1)"
  using pay_single_initiation [OF pay_reach.init] .



text \<open>
  C23: the spinner can always end: from every reachable state the environment
  can bring the page to a state without \<open>loading\<close>, by letting the pending
  initiation fail (the script does not load, or the order request fails).
\<close>

theorem pay_spinner_can_end:
  assumes "pay_reach s"
  shows "\<exists>s'. pay_step\<^sup>*\<^sup>* s s' \<and> \<not> pay_loading (ps_page s')"
proof (cases "pay_loading (ps_page s)")
  case False
  then show ?thesis by blast
next
  case True
  with pay_reach_inv [OF assms] have "0 < initiations (ps_tasks s)"
    by (simp add: pay_inv_def)
  then obtain i where i: "i < length (ps_tasks s)" "initiating (ps_tasks s ! i)"
    by (rule initiations_pos_ex)
  show ?thesis
  proof (cases "ps_tasks s ! i")
    case (ScriptWait f)
    have "pay_step s (resume i (ps_page s\<lparr>pay_message := error_message ''Razorpay SDK failed to load.'',
                                             pay_loading := False\<rparr>) None [] s)"
      by (rule pay_step.script [where ok = False, OF i(1) ScriptWait]) (simp add: script_done_def)
    then show ?thesis by (intro exI [of _ "resume i _ None [] s"]) auto
  next
    case (OrderWait f)
    have "pay_step s (resume i (ps_page s\<lparr>pay_message := error_message ''Payment initiation failed.'',
                                             pay_loading := False\<rparr>) None [] s)"
      by (rule pay_step.order [where r = "Inl NetworkError", OF i(1) OrderWait]) (simp add: order_done_final_def order_done_def)
    then show ?thesis by (intro exI [of _ "resume i _ None [] s"]) auto
  qed (use i(2) in simp_all)
qed

theorem pay_spinner_can_end_witness:
  "\<exists>s'. pay_step\<^sup>*\<^sup>* pay_sys_init s' \<and> \<not> pay_loading (ps_page s')"
  using pay_spinner_can_end [OF pay_reach.init] .





end
