(* ===== verification/Dashboard.thy ===== *)
theory Dashboard
  imports ReactView
begin

text \<open>
  The student dashboard \<open>src/src/pages/StudentDashboard.jsx\<close>: its state (lines
  34--43), the mount fetch \<open>fetchDashboardData\<close> (lines 45--64), which waits for
  two requests with \<open>Promise.all\<close>, \<open>getProgressColor\<close> (lines 66--70) and the
  render (lines 72--303), modelled as a function from the state to what the page
  shows, or to the exception the render throws.  The data are the parsed JSON
  values of the responses; nothing is assumed of their shape.
\<close>

subsection \<open>State and fetch\<close>

record dash =
  dash_enrolled :: jsval
  dash_stats :: jsval
  dash_loading :: bool
  dash_error :: js_string

definition dash_init :: dash where
  "dash_init =
     \<lparr>dash_enrolled = JArr [],
      dash_stats = JObj [(''totalCourses'', JNumber (Num 0)), (''completedCourses'', JNumber (Num 0)),
                         (''totalHours'', JNumber (Num 0)), (''averageProgress'', JNumber (Num 0))],
      dash_loading = True, dash_error = []\<rparr>"

text \<open>\<open>fetchDashboardData\<close> after \<open>await Promise.all(...)\<close>: both data, or the
  banner when either request fails; \<open>finally\<close> clears \<open>loading\<close>.\<close>

definition fetchDashboardData_done :: "fetch_error + jsval \<Rightarrow> fetch_error + jsval \<Rightarrow> dash \<Rightarrow> dash" where
  "fetchDashboardData_done re rs d =
     (case (re, rs) of
        (Inr e, Inr s) \<Rightarrow> d\<lparr>dash_enrolled := e, dash_stats := s, dash_error := []\<rparr>
      | _ \<Rightarrow> d\<lparr>dash_error := ''Failed to load dashboard data.''\<rparr>)\<lparr>dash_loading := False\<rparr>"

text \<open>\<open>getProgressColor(progress)\<close>; \<open>>=\<close> converts the argument with ToNumber.\<close>

definition getProgressColor :: "jsval \<Rightarrow> js_string" where
  "getProgressColor p =
     (if js_ge p (Num 80) then ''success'' else if js_ge p (Num 50) then ''warning'' else ''error'')"

subsection \<open>Rendering\<close>

record stat_card =
  sc_label :: js_string
  sc_value :: js_string

text \<open>The four statistics cards (lines 111--140); the last value is a template
  literal, so its value goes through ToString.\<close>

definition stat_cards :: "jsval \<Rightarrow> js_error + stat_card list" where
  "stat_cards st =
     (case (get_prop st ''totalCourses'', get_prop st ''completedCourses'',
            get_prop st ''totalHours'', get_prop st ''averageProgress'') of
        (Inr a, Inr b, Inr c, Inr d) \<Rightarrow>
          (case (react_text a, react_text b, react_text c) of
             (Inr ta, Inr tb, Inr tc) \<Rightarrow>
               Inr [\<lparr>sc_label = ''Enrolled Courses'', sc_value = ta\<rparr>,
                    \<lparr>sc_label = ''Completed Courses'', sc_value = tb\<rparr>,
                    \<lparr>sc_label = ''Hours Learned'', sc_value = tc\<rparr>,
                    \<lparr>sc_label = ''Average Progress'', sc_value = js_to_string d @ ''%''\<rparr>]
           | _ \<Rightarrow> Inl RenderError)
      | _ \<Rightarrow> Inl TypeError)"

text \<open>\<open>x === 'Beginner' ? 'success' : x === 'Intermediate' ? 'warning' : 'error'\<close>
  (lines 197--203) and the status chip colour (lines 247 and 293).\<close>

definition difficulty_color :: "jsval \<Rightarrow> js_string" where
  "difficulty_color d =
     (if d = JStr ''Beginner'' then ''success'' else if d = JStr ''Intermediate'' then ''warning'' else ''error'')"

definition status_color :: "jsval \<Rightarrow> js_string" where
  "status_color st = (if st = JStr ''COMPLETED'' then ''success'' else ''primary'')"

record course_card =
  cc_key :: jsval
  cc_image :: jsval
  cc_title :: js_string
  cc_category :: js_string
  cc_difficulty :: js_string
  cc_difficulty_color :: js_string
  cc_instructor :: js_string
  cc_progress :: js_string
  cc_progress_value :: jsval
  cc_progress_color :: js_string
  cc_duration :: js_string
  cc_enrolled_at :: jsval
  cc_status :: js_string
  cc_status_color :: js_string
  cc_link :: js_string

text \<open>The card of one enrollment (lines 168--263); the enrolment date is kept as
  the value given to \<open>new Date\<close>.\<close>

definition enrollment_card :: "jsval \<Rightarrow> js_error + course_card" where
  "enrollment_card en =
     sbind (get_prop en ''id'') (\<lambda>key. sbind (get_prop en ''course'') (\<lambda>c.
     sbind (get_prop c ''thumbnail'') (\<lambda>th. sbind (get_prop c ''title'') (\<lambda>ti.
     sbind (get_prop c ''category'') (\<lambda>ca. sbind (get_prop c ''difficulty'') (\<lambda>di.
     sbind (get_prop c ''instructor'') (\<lambda>ins. sbind (get_prop en ''progress'') (\<lambda>pr.
     sbind (get_prop c ''duration'') (\<lambda>du. sbind (get_prop en ''enrolledAt'') (\<lambda>ea.
     sbind (get_prop en ''status'') (\<lambda>st. sbind (get_prop c ''id'') (\<lambda>cid.
     (let p = js_or pr (JNumber (Num 0)) in
      sbind (react_texts [ti, ca, di, ins, p, du, st]) (\<lambda>ts.
        Inr \<lparr>cc_key = key, cc_image = js_or th (JStr ''https://via.placeholder.com/300x200''),
             cc_title = ts ! 0, cc_category = ts ! 1, cc_difficulty = ts ! 2,
             cc_difficulty_color = difficulty_color di, cc_instructor = ts ! 3,
             cc_progress = ts ! 4 @ ''%'', cc_progress_value = p,
             cc_progress_color = getProgressColor p, cc_duration = ts ! 5 @ '' hours'',
             cc_enrolled_at = ea, cc_status = ts ! 6, cc_status_color = status_color st,
             cc_link = ''/course/'' @ js_to_string cid\<rparr>))))))))))))))"

record activity_item =
  ai_primary :: js_string
  ai_date :: jsval
  ai_divider :: bool
  ai_status :: js_string
  ai_status_color :: js_string

text \<open>Item \<open>i\<close> of the recent-activity list (lines 277--295), where \<open>n\<close> is
  \<open>enrolledCourses.length\<close>.\<close>

definition activity_item :: "nat \<Rightarrow> nat \<Rightarrow> jsval \<Rightarrow> js_error + activity_item" where
  "activity_item n i en =
     sbind (get_prop en ''course'') (\<lambda>c. sbind (get_prop c ''title'') (\<lambda>ti.
     sbind (get_prop en ''progress'') (\<lambda>pr. sbind (get_prop en ''lastAccessedAt'') (\<lambda>la.
     sbind (get_prop en ''enrolledAt'') (\<lambda>ea. sbind (get_prop en ''status'') (\<lambda>st.
     sbind (react_text st) (\<lambda>tst.
       Inr \<lparr>ai_primary = js_to_string ti @ '' - '' @ js_to_string (js_or pr (JNumber (Num 0))) @ ''% completed'',
            ai_date = js_or la ea, ai_divider = (int i < int n - 1),
            ai_status = tst, ai_status_color = status_color st\<rparr>)))))))"

definition activity_items :: "jsval list \<Rightarrow> js_error + activity_item list" where
  "activity_items xs = map_throw (activity_item (length xs)) 0 (take 5 xs)"

datatype courses_view = NoCourses | CourseCards "course_card list"

datatype dash_view =
    DashSpinner
  | DashPage js_string "js_string option" "stat_card list" courses_view "activity_item list option"

text \<open>The render: the spinner while loading, else the welcome line with
  \<open>user?.name\<close>, the banner, the statistics, the course cards or the empty
  state, and the recent activity when there are enrolments.\<close>

definition dashboard_view :: "jsval \<Rightarrow> dash \<Rightarrow> js_error + dash_view" where
  "dashboard_view user d =
     (if dash_loading d then Inr DashSpinner
      else
        sbind (if user = JUndef \<or> user = JNull then Inr JUndef else get_prop user ''name'') (\<lambda>nm.
        sbind (react_text nm) (\<lambda>welcome.
        sbind (stat_cards (dash_stats d)) (\<lambda>cards.
        sbind (length_of (dash_enrolled d)) (\<lambda>l.
        sbind (if l = JNumber (Num 0) then Inr (NoCourses, None)
               else case dash_enrolled d of
                      JArr xs \<Rightarrow>
                        sbind (map_throw (\<lambda>_. enrollment_card) 0 xs) (\<lambda>ccs.
                        sbind (activity_items xs) (\<lambda>acts.
                          Inr (CourseCards ccs, if xs \<noteq> [] then Some acts else None)))
                    | _ \<Rightarrow> Inl TypeError) (\<lambda>(cv, av).
        Inr (DashPage welcome (if dash_error d \<noteq> [] then Some (dash_error d) else None) cards cv av)))))))"

text \<open>Sample enrolments in the shape the specification's data model gives.\<close>

definition sample_enrollment :: "nat \<Rightarrow> jsval" where
  "sample_enrollment i =
     JObj [(''id'', JNumber (Num (of_nat i))),
           (''course'', JObj [(''id'', JNumber (Num 7)), (''title'', JStr ''Java''),
                              (''thumbnail'', JNull), (''category'', JStr ''Dev''),
                              (''difficulty'', JStr ''Beginner''), (''instructor'', JStr ''Ann''),
                              (''duration'', JNumber (Num 40))]),
           (''progress'', JNumber (Num 85)), (''enrolledAt'', JStr ''2024-01-01''),
           (''status'', JStr ''ACTIVE'')]"

definition six_enrollments :: "jsval list" where
  "six_enrollments = map sample_enrollment [1, 2, 3, 4, 5, 6]"

subsection \<open>Lemmas\<close>

lemma activity_item_divider:
  "activity_item n i en = Inr a \<Longrightarrow> ai_divider a = (int i < int n - 1)"
  by (auto simp: activity_item_def sbind_Inr_iff)

subsection \<open>Properties of the dashboard\<close>

text \<open>
  C27: the recent-activity list shows the first five enrolments: it has
  \<open>min 5 n\<close> items for \<open>n\<close> enrolments.
\<close>

theorem activity_bounded:
  assumes "activity_items xs = Inr acts"
  shows "length acts = min 5 (length xs)"
  using map_throw_length [OF assms [unfolded activity_items_def]] by simp

theorem activity_bounded_witness: "length (projr (activity_items six_enrollments)) = 5"
proof -
  have "activity_items six_enrollments = Inr (projr (activity_items six_enrollments))"
    by code_simp
  from activity_bounded [OF this] show ?thesis by (simp add: six_enrollments_def)
qed

text \<open>
  C28: the divider test compares the item's index with the length of the whole
  list, not of the five shown: the last item shown has a divider exactly when
  there are more than five enrolments.
\<close>

theorem last_activity_divider:
  assumes "activity_items xs = Inr acts" "acts \<noteq> []"
  shows "ai_divider (last acts) \<longleftrightarrow> 5 < length xs"
proof -
  have len: "length acts = min 5 (length xs)"
    using map_throw_length [OF assms(1) [unfolded activity_items_def]] by simp
  with assms(2) have "0 < length xs" by auto
  with len have k: "length acts - 1 < length (take 5 xs)" by (simp add: min_def)
  have "activity_item (length xs) (length acts - 1) (take 5 xs ! (length acts - 1)) =
          Inr (acts ! (length acts - 1))"
    using map_throw_nth [OF assms(1) [unfolded activity_items_def] k] by simp
  then have "ai_divider (last acts) = (int (length acts - 1) < int (length xs) - 1)"
    using assms(2) by (simp add: last_conv_nth activity_item_divider)
  with len assms(2) show ?thesis by auto
qed

theorem last_activity_divider_witness: "ai_divider (last (projr (activity_items six_enrollments)))"
proof -
  have "activity_items six_enrollments = Inr (projr (activity_items six_enrollments))"
    by code_simp
  moreover have "projr (activity_items six_enrollments) \<noteq> []"
    by code_simp
  ultimately show ?thesis
    using last_activity_divider [of six_enrollments "projr (activity_items six_enrollments)"]
    by (simp add: six_enrollments_def)
qed

text \<open>
  C29: \<open>Promise.all\<close> makes the fetch all or nothing: when either request fails,
  neither result is kept, the banner is set and the spinner ends.
\<close>

theorem dashboard_all_or_nothing:
  assumes "isl re \<or> isl rs"
  shows "dash_enrolled (fetchDashboardData_done re rs d) = dash_enrolled d \<and>
         dash_stats (fetchDashboardData_done re rs d) = dash_stats d \<and>
         dash_error (fetchDashboardData_done re rs d) = ''Failed to load dashboard data.'' \<and>
         \<not> dash_loading (fetchDashboardData_done re rs d)"
  using assms by (auto simp: fetchDashboardData_done_def split: sum.splits)

theorem dashboard_all_or_nothing_witness:
  "dash_enrolled (fetchDashboardData_done (Inr (JArr six_enrollments)) (Inl NetworkError) dash_init) = JArr [] \<and>
   dash_error (fetchDashboardData_done (Inr (JArr six_enrollments)) (Inl NetworkError) dash_init) =
     ''Failed to load dashboard data.''"
  using dashboard_all_or_nothing [of "Inr (JArr six_enrollments)" "Inl NetworkError" dash_init]
  by (simp add: dash_init_def)

text \<open>
  C30: one enrolment whose \<open>course\<close> is \<open>null\<close> makes the whole render throw: the
  dashboard shows nothing, not even the other enrolments.
\<close>

theorem courseless_enrollment_crashes:
  assumes "\<not> dash_loading d" "dash_enrolled d = JArr xs" "x \<in> set xs"
    "get_prop x ''course'' = Inr JNull"
  shows "isl (dashboard_view user d)"
proof -
  have "isl (enrollment_card x)"
    using assms(4) by (auto simp: enrollment_card_def sbind_def split: sum.splits)
  then have cards: "isl (map_throw (\<lambda>_. enrollment_card) 0 xs)"
    using map_throw_isl [of x xs "\<lambda>_. enrollment_card"] assms(3) by simp
  have l: "length_of (dash_enrolled d) \<noteq> Inr (JNumber (Num 0))"
    using assms(2,3) by auto
  show ?thesis
    using assms(1,2) cards l
    by (auto simp: dashboard_view_def sbind_def split: sum.splits prod.splits)
qed

theorem courseless_enrollment_crashes_witness:
  "isl (dashboard_view JNull
          (dash_init\<lparr>dash_loading := False,
                     dash_enrolled := JArr [sample_enrollment 1, JObj [(''course'', JNull)]]\<rparr>))"
  using courseless_enrollment_crashes
          [of "dash_init\<lparr>dash_loading := False, dash_enrolled := JArr [sample_enrollment 1, JObj [(''course'', JNull)]]\<rparr>"
              "[sample_enrollment 1, JObj [(''course'', JNull)]]" "JObj [(''course'', JNull)]" JNull]
  by simp

end
