(* ===== verification/AdminEnrollments.thy ===== *)
theory AdminEnrollments
  imports ReactView
begin

text \<open>
  The admin enrolment list \<open>src/src/pages/AdminEnrollments.jsx\<close>: its state
  (lines 17--19), the mount fetch (lines 21--35) and the render (lines 37--145):
  the spinner, the error alert alone, or one card per enrolment.
\<close>

record enr_page =
  enr_enrollments :: jsval
  enr_loading :: bool
  enr_err :: js_string

definition enr_init :: enr_page where
  "enr_init = \<lparr>enr_enrollments = JArr [], enr_loading = True, enr_err = []\<rparr>"

definition enr_load_error :: js_string where
  "enr_load_error = ''Failed to load enrollments''"

text \<open>\<open>fetchEnrollments\<close> after its \<open>await\<close>.\<close>

definition fetchEnrollments_done :: "fetch_error + jsval \<Rightarrow> enr_page \<Rightarrow> enr_page" where
  "fetchEnrollments_done r p =
     (case r of
        Inr d \<Rightarrow> p\<lparr>enr_enrollments := d, enr_err := []\<rparr>
      | Inl _ \<Rightarrow> p\<lparr>enr_err := enr_load_error\<rparr>)\<lparr>enr_loading := False\<rparr>"

text \<open>A cell that shows a value or, for a falsy one, the em dash placeholder.\<close>

datatype cell = CellText js_string | EmDash

definition cell_of :: "jsval \<Rightarrow> js_error + cell" where
  "cell_of v = (if truthy v then sbind (react_text v) (\<lambda>t. Inr (CellText t)) else Inr EmDash)"

text \<open>\<open>en.status.toLowerCase() === "completed" ? ... : ... === "pending" ? ...\<close>
  (lines 125--131): \<open>toLowerCase\<close> exists on strings only.\<close>

definition enr_status_color :: "jsval \<Rightarrow> js_error + js_string" where
  "enr_status_color st =
     (case st of
        JStr s \<Rightarrow>
          Inr (if js_toLowerCase s = ''completed'' then ''success''
               else if js_toLowerCase s = ''pending'' then ''warning'' else ''default'')
      | _ \<Rightarrow> Inl TypeError)"

record enr_card =
  ec_key :: jsval
  ec_title :: js_string
  ec_course :: cell
  ec_user :: cell
  ec_amount :: js_string
  ec_payment :: js_string
  ec_status :: js_string
  ec_status_color :: js_string
  ec_created :: jsval

text \<open>The card of one enrolment (lines 89--141); the creation date is kept as the
  value given to \<open>new Date\<close>.\<close>

definition enr_card_of :: "jsval \<Rightarrow> js_error + enr_card" where
  "enr_card_of en =
     sbind (get_prop en ''id'') (\<lambda>i. sbind (get_prop en ''courseId'') (\<lambda>cid.
     sbind (get_prop en ''userId'') (\<lambda>uid. sbind (get_prop en ''amount'') (\<lambda>am.
     sbind (get_prop en ''paymentId'') (\<lambda>pid. sbind (get_prop en ''status'') (\<lambda>st.
     sbind (enr_status_color st) (\<lambda>col. sbind (get_prop en ''createdAt'') (\<lambda>cr.
     sbind (cell_of cid) (\<lambda>cc. sbind (cell_of uid) (\<lambda>uc.
     sbind (react_texts [i, am, pid, st]) (\<lambda>ts.
       Inr \<lparr>ec_key = i, ec_title = ''Enrollment #'' @ ts ! 0, ec_course = cc, ec_user = uc,
            ec_amount = ''$'' @ ts ! 1, ec_payment = ts ! 2, ec_status = ts ! 3,
            ec_status_color = col, ec_created = cr\<rparr>)))))))))))"

datatype enr_view = EnrSpinner | EnrError js_string | EnrList "enr_card list"

definition enr_view_of :: "enr_page \<Rightarrow> js_error + enr_view" where
  "enr_view_of p =
     (if enr_loading p then Inr EnrSpinner
      else if enr_err p \<noteq> [] then Inr (EnrError (enr_err p))
      else case enr_enrollments p of
             JArr xs \<Rightarrow> sbind (map_throw (\<lambda>_. enr_card_of) 0 xs) (\<lambda>cs. Inr (EnrList cs))
           | _ \<Rightarrow> Inl TypeError)"

subsection \<open>Properties of the enrolment list\<close>

text \<open>
  C31: one enrolment whose \<open>status\<close> is \<open>null\<close> (or any non-string) makes the
  render throw at \<open>toLowerCase\<close>: the page shows no enrolment at all.
\<close>

theorem null_status_crashes:
  assumes "\<not> enr_loading p" "enr_err p = []"
    "enr_enrollments p = JArr xs" "x \<in> set xs" "get_prop x ''status'' = Inr JNull"
  shows "isl (enr_view_of p)"
proof -
  have "isl (enr_card_of x)"
    using assms(5) by (auto simp: enr_card_of_def enr_status_color_def sbind_def split: sum.splits)
  then have "isl (map_throw (\<lambda>_. enr_card_of) 0 xs)"
    using map_throw_isl [of x xs "\<lambda>_. enr_card_of"] assms(4) by simp
  with assms(1-3) show ?thesis
    by (auto simp: enr_view_of_def sbind_def split: sum.splits)
qed

theorem null_status_crashes_witness:
  "isl (enr_view_of (fetchEnrollments_done (Inr (JArr [JObj [(''id'', JNumber (Num 1)), (''status'', JNull)]])) enr_init))"
  using null_status_crashes
          [of "fetchEnrollments_done (Inr (JArr [JObj [(''id'', JNumber (Num 1)), (''status'', JNull)]])) enr_init"
              "[JObj [(''id'', JNumber (Num 1)), (''status'', JNull)]]" "JObj [(''id'', JNumber (Num 1)), (''status'', JNull)]"]
  by (simp add: fetchEnrollments_done_def)

text \<open>
  C32: a failed fetch leaves the page with the error alert alone; the spinner is
  gone and no list is rendered.
\<close>

theorem enrollments_failure_view:
  "enr_view_of (fetchEnrollments_done (Inl e) p) = Inr (EnrError ''Failed to load enrollments'')"
  by (simp add: enr_view_of_def fetchEnrollments_done_def enr_load_error_def)

end
