(* ===== verification/Home.thy ===== *)
theory Home
  imports ReactView
begin

text \<open>
  The landing page \<open>src/src/pages/Home.jsx\<close>: its state (lines 27--32), the mount
  fetch of the featured courses and the site statistics with \<open>Promise.all\<close>
  (lines 36--51), and the parts of the render that depend on them: the statistics
  cards (lines 188--233) and the featured course cards (lines 260--370).  The
  fallback image is \<open>process.env.PUBLIC_URL + '/static/java.webp'\<close>, taken with
  the application served at the root, where \<open>PUBLIC_URL\<close> is empty.
\<close>

record home =
  home_featured :: jsval
  home_stats :: jsval

definition home_init :: home where
  "home_init =
     \<lparr>home_featured = JArr [],
      home_stats = JObj [(''totalCourses'', JNumber (Num 0)), (''totalStudents'', JNumber (Num 0)),
                         (''totalInstructors'', JNumber (Num 0))]\<rparr>"

text \<open>\<open>fetchData\<close> after \<open>await Promise.all(...)\<close>: both data, or nothing but a
  console message.\<close>

definition fetchData_done :: "fetch_error + jsval \<Rightarrow> fetch_error + jsval \<Rightarrow> home \<Rightarrow> home" where
  "fetchData_done rc rs h =
     (case (rc, rs) of
        (Inr c, Inr s) \<Rightarrow> h\<lparr>home_featured := c, home_stats := s\<rparr>
      | _ \<Rightarrow> h)"

record home_stat =
  hs_value :: js_string
  hs_label :: js_string

text \<open>The three statistics cards: two template literals and a constant.\<close>

definition home_stat_cards :: "jsval \<Rightarrow> js_error + home_stat list" where
  "home_stat_cards st =
     sbind (get_prop st ''totalCourses'') (\<lambda>tc. sbind (get_prop st ''totalStudents'') (\<lambda>ts.
       Inr [\<lparr>hs_value = js_to_string tc @ ''+'', hs_label = ''Courses Available''\<rparr>,
            \<lparr>hs_value = js_to_string ts @ ''+'', hs_label = ''Students Enrolled''\<rparr>,
            \<lparr>hs_value = ''24/7'', hs_label = ''Learning Access''\<rparr>]))"

text \<open>The difficulty chip's background (lines 317--322), named by its colours.\<close>

definition difficulty_gradient :: "jsval \<Rightarrow> js_string" where
  "difficulty_gradient d =
     (if d = JStr ''Beginner'' then ''green''
      else if d = JStr ''Intermediate'' then ''orange'' else ''pink'')"

record home_card =
  hc_key :: jsval
  hc_image :: jsval
  hc_category :: js_string
  hc_difficulty :: js_string
  hc_gradient :: js_string
  hc_title :: js_string
  hc_description :: js_string
  hc_instructor :: js_string
  hc_duration :: js_string
  hc_link :: js_string

definition home_card_of :: "jsval \<Rightarrow> js_error + home_card" where
  "home_card_of c =
     sbind (get_prop c ''id'') (\<lambda>i. sbind (get_prop c ''thumbnail'') (\<lambda>th.
     sbind (get_prop c ''title'') (\<lambda>ti. sbind (get_prop c ''category'') (\<lambda>ca.
     sbind (get_prop c ''difficulty'') (\<lambda>di. sbind (get_prop c ''description'') (\<lambda>de.
     sbind (get_prop c ''instructor'') (\<lambda>ins. sbind (get_prop c ''duration'') (\<lambda>du.
     sbind (react_texts [ca, di, ti, de, ins, du]) (\<lambda>ts.
       Inr \<lparr>hc_key = i, hc_image = js_or th (JStr ''/static/java.webp''),
            hc_category = ts ! 0, hc_difficulty = ts ! 1, hc_gradient = difficulty_gradient di,
            hc_title = ts ! 2, hc_description = ts ! 3, hc_instructor = ''Instructor: '' @ ts ! 4,
            hc_duration = ts ! 5 @ '' hours'', hc_link = ''/course/'' @ js_to_string i\<rparr>)))))))))"

definition home_view :: "home \<Rightarrow> js_error + home_stat list \<times> home_card list" where
  "home_view h =
     sbind (home_stat_cards (home_stats h)) (\<lambda>sc.
     case home_featured h of
       JArr xs \<Rightarrow> sbind (map_throw (\<lambda>_. home_card_of) 0 xs) (\<lambda>cs. Inr (sc, cs))
     | _ \<Rightarrow> Inl TypeError)"

text \<open>The static navigation of the page: the hero's heading and buttons (lines
  55--127), the View All Courses button (lines 374--394) and the call-to-action
  buttons (lines 461--499), each a label and the route it links to.\<close>

definition home_hero :: "js_string \<times> (js_string \<times> js_string) list" where
  "home_hero =
     (''Education Without Barriers'', [(''Explore Courses'', ''/courses''), (''Get Started'', ''/register'')])"

definition home_view_all :: "js_string \<times> js_string" where
  "home_view_all = (''View All Courses'', ''/courses'')"

definition home_cta :: "(js_string \<times> js_string) list" where
  "home_cta = [(''Get Started'', ''/register''), (''Browse Courses'', ''/courses'')]"

record home_page =
  hp_hero :: "js_string \<times> (js_string \<times> js_string) list"
  hp_stats :: "home_stat list"
  hp_featured :: "home_card list"
  hp_view_all :: "js_string \<times> js_string"
  hp_cta :: "(js_string \<times> js_string) list"

text \<open>The whole page, sections in the order of the render.\<close>

definition home_page_view :: "home \<Rightarrow> js_error + home_page" where
  "home_page_view h =
     sbind (home_view h) (\<lambda>(st, cs).
       Inr \<lparr>hp_hero = home_hero, hp_stats = st, hp_featured = cs, hp_view_all = home_view_all,
            hp_cta = home_cta\<rparr>)"

subsection \<open>Properties of the landing page\<close>

text \<open>
  C33: a failed fetch is silent: the page keeps its initial state and shows the
  statistics as \<open>0+\<close> with no featured course and no error, around its static
  navigation.
\<close>

theorem home_failure_silent:
  assumes "isl rc \<or> isl rs"
  shows "home_page_view (fetchData_done rc rs home_init) =
           Inr \<lparr>hp_hero = home_hero,
                hp_stats = [\<lparr>hs_value = ''0+'', hs_label = ''Courses Available''\<rparr>,
                            \<lparr>hs_value = ''0+'', hs_label = ''Students Enrolled''\<rparr>,
                            \<lparr>hs_value = ''24/7'', hs_label = ''Learning Access''\<rparr>],
                hp_featured = [], hp_view_all = home_view_all, hp_cta = home_cta\<rparr>"
proof -
  have "fetchData_done rc rs home_init = home_init"
    using assms by (auto simp: fetchData_done_def split: sum.splits)
  then show ?thesis
    by (simp add: home_page_view_def home_view_def home_stat_cards_def home_init_def)
qed

theorem home_failure_silent_witness:
  "home_page_view (fetchData_done (Inl NetworkError) (Inr JNull) home_init) =
     Inr \<lparr>hp_hero = home_hero,
          hp_stats = [\<lparr>hs_value = ''0+'', hs_label = ''Courses Available''\<rparr>,
                      \<lparr>hs_value = ''0+'', hs_label = ''Students Enrolled''\<rparr>,
                      \<lparr>hs_value = ''24/7'', hs_label = ''Learning Access''\<rparr>],
          hp_featured = [], hp_view_all = home_view_all, hp_cta = home_cta\<rparr>"
  using home_failure_silent [of "Inl NetworkError" "Inr JNull"] by simp

end
