(* ===== verification/AdminDashboard.thy ===== *)
theory AdminDashboard
  imports FormBinding
begin

text \<open>
  The admin dashboard \<open>src/src/pages/AdminDashboard.jsx\<close> with the
  \<open>EditCourseForm\<close> it mounts (\<open>src/src/pages/EditCourseForm.jsx\<close>).  The
  dashboard's state (lines 26--28) selects the feature grid, the add form or the
  edit form (lines 103--144); the feature cards (lines 31--71) navigate or open a
  form.  While shown, \<open>EditCourseForm\<close> loads its course on mount (lines 29--43),
  edits it (lines 45--47) and saves it, calling \<open>onClose\<close> on success (lines
  49--63); its Cancel button calls \<open>onClose\<close> too (line 191).  Each mount of the
  form is numbered: React drops the state updates of an unmounted instance, so a
  load reply applies only to the mount that sent it, while \<open>onClose\<close> is the
  dashboard's own setter and acts whenever it is called.  \<open>AddCourseForm\<close>, which
  the dashboard imports, is not in the repository; only its \<open>onClose\<close> is modelled.
\<close>

datatype feature_action = Navigate js_string | OpenAdd | OpenEdit nat

definition dd_features :: "(js_string \<times> feature_action) list" where
  "dd_features =
     [(''Manage Courses'', Navigate ''/admin/courses''),
      (''View Enrollments'', Navigate ''/admin/enrollments''),
      (''Payments'', Navigate ''/admin/payments''),
      (''Add Course'', OpenAdd),
      (''Edit Course'', OpenEdit 1),
      (''Admin Profile'', Navigate ''/profile'')]"

datatype dd_request = GetCourse nat | PutCourse nat jsval

text \<open>The suspended continuations of the edit form: its load, tagged with the
  mount that sent it, and its save.\<close>

datatype dd_task = LoadWait nat | SaveWait

record admin_dash =
  dd_showAdd :: bool
  dd_showEdit :: bool
  dd_courseId :: "nat option"
  dd_form :: jsval
  dd_mount :: nat
  dd_tasks :: "dd_task list"
  dd_sent :: "dd_request list"
  dd_route :: "js_string list"

definition dd_init :: admin_dash where
  "dd_init =
     \<lparr>dd_showAdd = False, dd_showEdit = False, dd_courseId = None, dd_form = edit_initial,
      dd_mount = 0, dd_tasks = [], dd_sent = [], dd_route = []\<rparr>"

text \<open>Mounting \<open>EditCourseForm\<close> with a course id: fresh \<open>courseData\<close> and the
  fetch of its effect.\<close>

definition edit_mount :: "nat \<Rightarrow> admin_dash \<Rightarrow> admin_dash" where
  "edit_mount n s =
     s\<lparr>dd_form := edit_initial, dd_mount := Suc (dd_mount s),
       dd_tasks := dd_tasks s @ [LoadWait (Suc (dd_mount s))], dd_sent := dd_sent s @ [GetCourse n]\<rparr>"

text \<open>A click on a feature card (lines 36--69).\<close>

fun feature_click :: "feature_action \<Rightarrow> admin_dash \<Rightarrow> admin_dash" where
  "feature_click (Navigate p) s = s\<lparr>dd_route := dd_route s @ [p]\<rparr>"
| "feature_click OpenAdd s = s\<lparr>dd_showAdd := True\<rparr>"
| "feature_click (OpenEdit n) s = edit_mount n (s\<lparr>dd_courseId := Some n, dd_showEdit := True\<rparr>)"

text \<open>The edit form's \<open>handleSubmit\<close> up to its \<open>await\<close>: the \<open>PUT\<close> of the body,
  or nothing when building the body throws inside the \<open>try\<close>.\<close>

definition edit_submit :: "admin_dash \<Rightarrow> admin_dash" where
  "edit_submit s =
     (case (dd_courseId s, edit_payload (dd_form s)) of
        (Some n, Inr body) \<Rightarrow>
          s\<lparr>dd_tasks := dd_tasks s @ [SaveWait], dd_sent := dd_sent s @ [PutCourse n body]\<rparr>
      | _ \<Rightarrow> s)"

text \<open>\<open>onClose\<close> of the edit form: \<open>() => setShowEditCourse(false)\<close>.\<close>

definition edit_onClose :: "admin_dash \<Rightarrow> admin_dash" where
  "edit_onClose s = s\<lparr>dd_showEdit := False\<rparr>"

datatype dd_event =
    DFeature nat
  | DAddClose
  | DEditInput js_string js_string
  | DEditSubmit
  | DEditCancel
  | DLoad nat "fetch_error + jsval"
  | DSave nat "fetch_error + jsval"

text \<open>The grid is rendered when no form is shown (line 103); each form only while
  it is shown.\<close>

definition dd_grid_shown :: "admin_dash \<Rightarrow> bool" where
  "dd_grid_shown s \<longleftrightarrow> \<not> dd_showAdd s \<and> \<not> dd_showEdit s"

definition dd_edit_shown :: "admin_dash \<Rightarrow> bool" where
  "dd_edit_shown s \<longleftrightarrow> \<not> dd_grid_shown s \<and> \<not> dd_showAdd s"

fun dd_step :: "dd_event \<Rightarrow> admin_dash \<Rightarrow> admin_dash" where
  "dd_step (DFeature i) s =
     (if dd_grid_shown s \<and> i < length dd_features then feature_click (snd (dd_features ! i)) s else s)"
| "dd_step DAddClose s = (if dd_showAdd s then s\<lparr>dd_showAdd := False\<rparr> else s)"
| "dd_step (DEditInput k v) s =
     (if dd_edit_shown s then s\<lparr>dd_form := handleInputChange k v (dd_form s)\<rparr> else s)"
| "dd_step DEditSubmit s = (if dd_edit_shown s then edit_submit s else s)"
| "dd_step DEditCancel s = (if dd_edit_shown s then edit_onClose s else s)"
| "dd_step (DLoad i r) s =
     (if i < length (dd_tasks s) then
        (case dd_tasks s ! i of
           LoadWait g \<Rightarrow>
             (let s' = s\<lparr>dd_tasks := remove_nth i (dd_tasks s)\<rparr> in
              case r of
                Inr d \<Rightarrow>
                  (if g = dd_mount s \<and> dd_edit_shown s
                   then (case edit_loaded d of Inr cd \<Rightarrow> s'\<lparr>dd_form := cd\<rparr> | Inl _ \<Rightarrow> s')
                   else s')
              | Inl _ \<Rightarrow> s')
         | SaveWait \<Rightarrow> s)
      else s)"
| "dd_step (DSave i r) s =
     (if i < length (dd_tasks s) then
        (case dd_tasks s ! i of
           SaveWait \<Rightarrow>
             (let s' = s\<lparr>dd_tasks := remove_nth i (dd_tasks s)\<rparr> in
              case r of Inr _ \<Rightarrow> edit_onClose s' | Inl _ \<Rightarrow> s')
         | LoadWait _ \<Rightarrow> s)
      else s)"

fun dd_run :: "admin_dash \<Rightarrow> dd_event list \<Rightarrow> admin_dash" where
  "dd_run s [] = s"
| "dd_run s (e # es) = dd_run (dd_step e s) es"

text \<open>What the dashboard renders below its header (lines 103--144): the grid of
  feature cards by title, the add form, or the edit form with its \<open>courseId\<close>.\<close>

datatype dd_view = FeatureGrid "js_string list" | AddFormShown | EditFormShown "nat option"

definition dd_view_of :: "admin_dash \<Rightarrow> dd_view" where
  "dd_view_of s =
     (if dd_grid_shown s then FeatureGrid (map fst dd_features)
      else if dd_showAdd s then AddFormShown else EditFormShown (dd_courseId s))"

text \<open>The dashboard's invariant: at most one form is shown, and the edit form, when
  shown, edits the course with id 1.\<close>

definition dd_inv :: "admin_dash \<Rightarrow> bool" where
  "dd_inv s \<longleftrightarrow> \<not> (dd_showAdd s \<and> dd_showEdit s) \<and> (dd_showEdit s \<longrightarrow> dd_courseId s = Some 1)"


subsection \<open>Lemmas\<close>

lemma dd_inv_step: "dd_inv s \<Longrightarrow> dd_inv (dd_step e s)"
proof (cases e)
  case (DFeature i)
  assume inv: "dd_inv s"
  show ?thesis
  proof (cases "dd_grid_shown s \<and> i < length dd_features")
    case True
    then have "i < 6" by (simp add: dd_features_def)
    then have "i = 0 \<or> i = 1 \<or> i = 2 \<or> i = 3 \<or> i = 4 \<or> i = 5" by auto
    with True DFeature show ?thesis
      by (auto simp: dd_inv_def dd_grid_shown_def dd_features_def edit_mount_def)
  next
    case False
    with inv DFeature show ?thesis by (simp only: dd_step.simps if_not_P [OF False] if_False)
  qed
qed (auto simp: dd_inv_def dd_edit_shown_def dd_grid_shown_def edit_submit_def edit_onClose_def
                Let_def split: prod.splits sum.splits option.splits dd_task.splits)

lemma dd_inv_run: "dd_inv s \<Longrightarrow> dd_inv (dd_run s es)"
  by (induction es arbitrary: s) (simp_all add: dd_inv_step del: dd_step.simps)

lemma dd_inv_view:
  "dd_inv s \<Longrightarrow>
   dd_view_of s \<in> {FeatureGrid [''Manage Courses'', ''View Enrollments'', ''Payments'', ''Add Course'',
                                ''Edit Course'', ''Admin Profile''],
                   AddFormShown, EditFormShown (Some 1)}"
  by (auto simp: dd_inv_def dd_view_of_def dd_grid_shown_def dd_features_def)

subsection \<open>Properties of the dashboard\<close>

text \<open>
  C34: in every session of the dashboard at most one form is shown, and the edit
  form always edits course 1: the Edit Course card sets a fixed id.  So the page
  shows the grid of the six features, the add form, or the edit form of course 1.
\<close>

theorem dd_single_form_fixed_id:
  "dd_inv (dd_run dd_init es) \<and>
   dd_view_of (dd_run dd_init es) \<in>
     {FeatureGrid [''Manage Courses'', ''View Enrollments'', ''Payments'', ''Add Course'',
                   ''Edit Course'', ''Admin Profile''],
      AddFormShown, EditFormShown (Some 1)}"
proof -
  have "dd_inv (dd_run dd_init es)"
    by (rule dd_inv_run) (simp add: dd_inv_def dd_init_def)
  then show ?thesis using dd_inv_view by blast
qed

theorem dd_single_form_fixed_id_witness:
  "dd_showEdit (dd_run dd_init [DFeature 4]) \<and> dd_courseId (dd_run dd_init [DFeature 4]) = Some 1"
proof -
  have "dd_showEdit (dd_run dd_init [DFeature 4])"
    by (simp add: dd_init_def dd_grid_shown_def dd_features_def edit_mount_def)
  moreover have "dd_inv (dd_run dd_init [DFeature 4])"
    using dd_single_form_fixed_id [of "[DFeature 4]"] by (rule conjunct1)
  ultimately show ?thesis by (simp add: dd_inv_def)
qed


text \<open>
  C36: the edit form opened from the dashboard, once course 1 has loaded, shows
  the course's title in its first input and saves the course back unchanged: the dashboard sends the \<open>GET\<close> of course 1 and then
  a \<open>PUT\<close> of the course itself (absent lists as empty arrays), for a course
  whose list entries are not blank and have no newline, with a decimal price and
  a duration below \<open>10^21\<close>.
\<close>

theorem dd_edit_saves_course:
  assumes "lines_ok_blank (opt_list (curriculum c))" "lines_ok_blank (opt_list (requirements c))"
    "is_decimal (price c)" "\<bar>duration c\<bar> < 10 ^ 21"
  shows "hd (projr (edit_form_view (dd_form (dd_run dd_init [DFeature 4, DLoad 0 (Inr (course_json c))])))) =
           (''title'', JStr (title c)) \<and>
         dd_sent (dd_run dd_init [DFeature 4, DLoad 0 (Inr (course_json c)), DEditSubmit]) =
           [GetCourse 1, PutCourse 1 (course_json (norm_lists c))]"
proof -
  obtain cd where cd: "edit_loaded (course_json c) = Inr cd"
    by (simp add: edit_loaded_course_json)
  have body: "edit_payload cd = Inr (course_json (norm_lists c))"
    using edit_roundtrip_core [OF assms] cd by simp
  have form: "dd_form (dd_run dd_init [DFeature 4, DLoad 0 (Inr (course_json c))]) = cd"
    using cd by (simp add: dd_init_def dd_grid_shown_def dd_edit_shown_def dd_features_def
                           edit_mount_def remove_nth_def)
  have "hd (projr (edit_form_view cd)) = (''title'', JStr (title c))"
  proof -
    have "cd = JObj (obj_set (obj_set (js_spread (course_json c)) ''curriculum''
                  (JStr (js_join CHR ''\<newline>'' (opt_list (curriculum c)))))
                ''requirements'' (JStr (js_join CHR ''\<newline>'' (opt_list (requirements c)))))"
      using cd by (simp add: edit_loaded_course_json)
    then show ?thesis
      by (simp add: edit_form_view_def del: get_prop.simps) (simp add: course_json_def)
  qed
  moreover have "dd_sent (dd_run dd_init [DFeature 4, DLoad 0 (Inr (course_json c)), DEditSubmit]) =
                   [GetCourse 1, PutCourse 1 (course_json (norm_lists c))]"
    using cd body
    by (simp add: dd_init_def dd_grid_shown_def dd_edit_shown_def dd_features_def edit_mount_def
                  edit_submit_def remove_nth_def)
  ultimately show ?thesis unfolding form by (rule conjI)
qed

theorem dd_edit_saves_course_witness:
  "hd (projr (edit_form_view (dd_form (dd_run dd_init [DFeature 4, DLoad 0 (Inr (course_json sample_course))])))) =
     (''title'', JStr ''Java'') \<and>
   dd_sent (dd_run dd_init [DFeature 4, DLoad 0 (Inr (course_json sample_course)), DEditSubmit]) =
     [GetCourse 1, PutCourse 1 (course_json (norm_lists sample_course))]"
  using dd_edit_saves_course [of sample_course] sample_course_decimal
  by (simp add: sample_course_def opt_list_def lines_ok_blank_def js_trim_def js_ws_def)

end
