(* ===== verification/Spec2Isabelle.thy ===== *)
theory Spec2Isabelle
  imports Catalog CatalogView AdminCourses Payments Dashboard AdminEnrollments Home AdminDashboard
begin

text \<open>
  \<^bold>\<open>A verification development of the Online Course Management Portal front end.\<close>

  The repository is a React front end of eight pages (\<open>src/src/pages/*.jsx\<close>).
  Every page keeps its state in \<open>useState\<close> variables, loads data from a REST
  backend, and changes state in event handlers and in the continuations of its
  \<open>async\<close> requests.  The development models each page's logic: its state as
  a record, each handler and each request continuation (the code after an
  \<open>await\<close>) as a function on the state, the render as a function from the state
  to what is shown or to the exception the render throws, and a page's life as a
  run of a step function (or an inductive step relation) over events in which
  user input and the arrival of replies interleave freely.

  \<^bold>\<open>Library layout.\<close>
  \<^item> \<open>Prelude\<close>: the shared simp sets, exception sequencing \<open>sbind\<close>, the list
    helpers \<open>remove_nth\<close> and \<open>opt_to_list\<close> used for pending continuations.
  \<^item> \<open>JsString\<close>, \<open>JsNumber\<close>, \<open>JsArith\<close>, \<open>JsValue\<close>: the ECMAScript primitives the
    pages call (\<open>split\<close>, \<open>join\<close>, \<open>trim\<close>, \<open>toLowerCase\<close>, Number::toString,
    \<open>parseInt\<close>, \<open>parseFloat\<close>, ToNumber, \<open>*\<close>, \<open>>=\<close>, truthiness, \<open>||\<close>,
    property access), modelled from the ECMAScript specification on exact
    rationals; round trips \<open>split/join\<close>, \<open>parseInt (toString n) = n\<close>,
    \<open>parseFloat (toString q) = q\<close>.
  \<^item> \<open>ReactView\<close>: React's rendering of values as text and \<open>map\<close> with a throwing
    callback.
  \<^item> \<open>Query\<close>, \<open>Fetcher\<close>, \<open>Catalog\<close>: the catalogue \<open>Courses.jsx\<close>: the
    filters and their handlers (lines 36--98), the query parameters, the dual-shape
    normalisation of the list reply (lines 74--75), and the page as a step
    function \<open>catalog_step\<close>, compared with \<open>spec_step\<close>, the controller of
    section 4.1 of the specification (sequence numbers, stale replies dropped).
  \<^item> \<open>CatalogView\<close>: what the catalogue shows (lines 100--325) as a function of
    its state, and \<open>catalog_settle\<close>, the page answered request by request until
    none is in flight, a \<open>function\<close> with an explicit termination measure.
  \<^item> \<open>FormBinding\<close>: the course forms' text binding in \<open>AdminCourses.jsx\<close>
    (\<open>handleOpenDialog\<close>, the \<open>handleSubmit\<close> body) and \<open>EditCourseForm.jsx\<close>
    (load, the inputs' rendered values, submit body).
  \<^item> \<open>AdminCourses\<close>: the admin table with its dialog, \<open>fetchCourses\<close>,
    \<open>handleSubmit\<close> and \<open>handleDelete\<close>, each split at its \<open>await\<close>, composed with a
    backend store (from section 6 of the specification) and a network that
    delivers or loses replies in any order.
  \<^item> \<open>Payments\<close>: \<open>Payments.jsx\<close>, \<open>handlePayment\<close> split at its four suspension
    points, as the inductive relation \<open>pay_step\<close> with reachability
    \<open>pay_reach\<close>, the equivalent executable \<open>pay_exec\<close>, and the rendered
    form (\<open>pay_view_of\<close>: alert, inputs, button state and label).
  \<^item> \<open>Dashboard\<close>, \<open>AdminEnrollments\<close>, \<open>Home\<close>: the student dashboard, the admin
    enrolment list and the landing page: mount fetch and render (the landing
    page's hero, statistics, featured courses and call-to-action links).
  \<^item> \<open>AdminDashboard\<close>: \<open>AdminDashboard.jsx\<close> composed with the \<open>EditCourseForm\<close>
    it mounts, with mount numbering for React's dropping of updates to unmounted
    instances, and its render (\<open>dd_view_of\<close>: the feature grid or one form).

  \<^bold>\<open>What is shown.\<close>
  Catalogue (C1--C10): every request carries the filters current when it is sent;
  filter edits reset the page, page changes keep the filters; replies are applied
  in arrival order, so a stale reply overwrites a newer one (C4) and clears
  \<open>loading\<close> early (C7), while under in-order delivery the code refines the
  specified controller (C5); a failed fetch keeps the items (C6); both reply shapes
  are normalised (C8), an envelope without \<open>content\<close> is accepted (C9); the query
  parameters determine the filters (C10).
  Forms (C11--C13): both forms round-trip a well-formed course (numbers below
  \<open>10^21\<close>, decimal prices, list entries without newlines and not empty or
  blank); the two forms disagree on blank lines.
  Admin table (C14--C20): delete then refresh removes the course (C14), but a
  stale refresh brings it back (C15); a failed save keeps the dialog and input but
  shows no error (C16); nothing is validated before sending (C17); the edit dialog
  sends the course back (C18); a double click saves twice (C19); a closed dialog
  edits nothing (C20).
  Payments (C21--C26): at most one initiation at a time, exactly while loading,
  which is exactly while the button is disabled and shows a spinner (C21); the alert's severity is valid (C22); the spinner can always end (C23);
  relation and step function agree (C24); a second click during checkout creates a
  second order (C25); the amount is not validated (C26).
  Dashboards and pages (C27--C38): the activity list is bounded by five (C27) and
  its divider test uses the wrong length (C28); \<open>Promise.all\<close> is all or nothing
  (C29); malformed records crash whole renders (C30, C31); the error views (C32,
  C33); the admin dashboard renders the grid or one form and always edits course 1
  (C34), a stale save closes a newer form (C35), an edit form shows the loaded
  course and saves it back (C36); the landing
  page crashes on an envelope the catalogue accepts (C37); two pages colour the
  enrolment status differently (C38).
  Catalogue view (C39, C40): the page settles once every request in flight is
  answered, whatever the answers (C39, termination by the number of requests in
  flight); an object reply without \<open>content\<close>, which the normalisation accepts
  (C9), makes the catalogue render throw (C40).

  \<^bold>\<open>Modelling choices.\<close>
  React batches the state updates of one handler and runs the effects after the
  render, so a handler and the fetch its effect starts form one step.  Replies
  are events carrying an arbitrary outcome; only the admin table is composed with
  a model of the backend.  Strings are lists of 8-bit characters (the em dash of
  the enrolment list is a constructor of its own); numbers are exact rationals (no
  double rounding, no negative zero).  Dates are kept as the values given to
  \<open>new Date\<close>.  No fuel is needed: every function is structurally recursive or
  total by a measure (\<open>catalog_settle\<close> by the number of requests in flight),
  and every loop of the code is a \<open>map\<close> or a \<open>filter\<close>.

  \<^bold>\<open>Not modelled.\<close>
  Styling, layout, icons and static headings and paragraphs (link labels and
  targets are modelled); routing beyond the route a click pushes;
  the authentication context (the dashboard's \<open>user\<close> is a parameter); the
  payment gateway's script and widget (their outcomes are choices of the
  environment); \<open>AddCourseForm\<close>, which \<open>AdminDashboard\<close> imports but the
  repository does not contain; the backend except where the admin table is
  composed with it; \<open>toLocaleDateString\<close>.
\<close>

section \<open>Properties across pages\<close>

text \<open>
  C37: the landing page reads the same list endpoint as the catalogue
  (\<open>/api/courses\<close>) but does not normalise its answer: a paginated envelope,
  which the catalogue turns into its content, makes the landing page's
  \<open>featuredCourses.map\<close> throw.
\<close>

theorem home_rejects_envelope:
  "fst (projr (normalize_response (JObj [(''content'', JArr ys), (''totalPages'', tp)]))) = JArr ys \<and>
   home_view (fetchData_done (Inr (JObj [(''content'', JArr ys), (''totalPages'', tp)])) (Inr (JObj kvs)) home_init) =
     Inl TypeError"
  by (simp add: normalize_response_def js_or_def home_view_def home_stat_cards_def fetchData_done_def)


end
